(* ===== verification/Prelude.thy ===== *)
theory Prelude
  imports Complex_Main
begin

text \<open>
  The Python runtime that \<^verbatim>\<open>src/app.py\<close> relies on, as far as the planner uses it:
  the values that JSON decoding and the planner's own dictionaries produce (\<open>pyval\<close>),
  the exceptions raised by indexing, arithmetic and the HTTP and SDK clients
  (\<open>py_exc\<close>), the subscript, \<^verbatim>\<open>in\<close>, \<^verbatim>\<open>.get\<close>, iteration and truth-value
  operations on them, the string operations the code calls (\<^verbatim>\<open>str\<close>, \<^verbatim>\<open>lower\<close>,
  \<^verbatim>\<open>replace\<close>, \<^verbatim>\<open>join\<close>, \<^verbatim>\<open>round\<close>), and a writer/exception monad
  \<open>('e, 'a) py\<close> in which a statement either returns a value or raises, and in either
  case has produced a list of effects.

  Strings are byte strings (UTF-8); floats are exact decimals \<open>PFloat m k = m / 10^k\<close>,
  so the binary rounding of IEEE arithmetic is not modelled (see the root header).
  The theory ends with the bound of half a unit on rounding half to even.
\<close>

named_theorems py_simps "evaluation rules of the Python runtime model"

section \<open>Values and exceptions\<close>

datatype pyval =
    PNone
  | PBool bool
  | PInt int
  | PFloat int nat
  | PStr string
  | PList "pyval list"
  | PDict "(string \<times> pyval) list"

datatype py_exc =
    KeyError pyval
  | IndexError string
  | TypeError string
  | AttributeError string
  | ValueError string
  | HTTPError string
  | RequestException string
  | JSONDecodeError string
  | ServiceError string
  | Exception string

section \<open>Strings\<close>

fun digits_of :: "nat \<Rightarrow> string" where
  "digits_of n =
     (if n < 10 then [''0123456789'' ! n]
      else digits_of (n div 10) @ [''0123456789'' ! (n mod 10)])"

declare digits_of.simps [simp del]

definition py_str_int :: "int \<Rightarrow> string" where
  "py_str_int i = (if i < 0 then CHR ''-'' # digits_of (nat (- i)) else digits_of (nat i))"

text \<open>Zero padding of \<^verbatim>\<open>date.isoformat\<close> and of exponents in float reprs.\<close>

definition zpad :: "nat \<Rightarrow> nat \<Rightarrow> string" where
  "zpad w n = (let ds = digits_of n in replicate (w - length ds) (CHR ''0'') @ ds)"

text \<open>\<^verbatim>\<open>str.lower\<close> on the ASCII letters: bit 5 set on \<open>A\<close>..\<open>Z\<close>.\<close>

definition py_lower_char :: "char \<Rightarrow> char" where
  "py_lower_char c =
     (if 65 \<le> (of_char c :: nat) \<and> of_char c \<le> (90::nat)
      then Char (digit0 c) (digit1 c) (digit2 c) (digit3 c) (digit4 c) True (digit6 c) (digit7 c)
      else c)"

definition py_lower :: "string \<Rightarrow> string" where
  "py_lower s = map py_lower_char s"

text \<open>\<^verbatim>\<open>s.replace(a, b)\<close> for one-character \<open>a\<close> and \<open>b\<close>, the only use in the code.\<close>

definition py_replace_char :: "char \<Rightarrow> char \<Rightarrow> string \<Rightarrow> string" where
  "py_replace_char a b s = map (\<lambda>c. if c = a then b else c) s"

fun py_join :: "string \<Rightarrow> string list \<Rightarrow> string" where
  "py_join sep [] = []"
| "py_join sep [x] = x"
| "py_join sep (x # y # xs) = x @ sep @ py_join sep (y # xs)"

section \<open>Numbers\<close>

text \<open>
  The real value of a number (\<^verbatim>\<open>bool\<close> is a subclass of \<^verbatim>\<open>int\<close>) and the
  repr of a float, \<^verbatim>\<open>repr(x)\<close>: shortest digits, fixed notation when the decimal
  point position \<open>p\<close> has \<open>-4 < p \<le> 16\<close>, exponent notation otherwise.
\<close>

fun py_real :: "pyval \<Rightarrow> real option" where
  "py_real (PBool b) = Some (if b then 1 else 0)"
| "py_real (PInt i) = Some (of_int i)"
| "py_real (PFloat m k) = Some (of_int m / 10 ^ k)"
| "py_real _ = None"

fun strip_zeros :: "string \<Rightarrow> string" where
  "strip_zeros [] = []"
| "strip_zeros (c # cs) =
     (let r = strip_zeros cs in if r = [] \<and> c = CHR ''0'' then [] else c # r)"

definition float_digits :: "nat \<Rightarrow> nat \<Rightarrow> string \<times> int" where
  "float_digits a k = (let ds = digits_of a in (strip_zeros ds, int (length ds) - int k))"

definition float_body :: "string \<Rightarrow> int \<Rightarrow> string" where
  "float_body ds p =
     (if -4 < p \<and> p \<le> 16 then
        (if p \<le> 0 then ''0.'' @ replicate (nat (- p)) (CHR ''0'') @ ds
         else if nat p < length ds then take (nat p) ds @ ''.'' @ drop (nat p) ds
         else ds @ replicate (nat p - length ds) (CHR ''0'') @ ''.0'')
      else
        (let e = p - 1 in
         [hd ds] @ (if tl ds = [] then [] else ''.'' @ tl ds) @ ''e''
         @ (if e < 0 then ''-'' else ''+'') @ zpad 2 (nat \<bar>e\<bar>)))"

definition py_repr_float :: "int \<Rightarrow> nat \<Rightarrow> string" where
  "py_repr_float m k =
     (if m = 0 then ''0.0''
      else (if m < 0 then ''-'' else []) @ case_prod float_body (float_digits (nat \<bar>m\<bar>) k))"

section \<open>Dictionaries, repr and str\<close>

text \<open>
  A dictionary decoded by \<^verbatim>\<open>json.loads\<close> keeps each key once, at the position of
  its first occurrence, with the value of its last occurrence.
\<close>

definition dict_lookup :: "(string \<times> pyval) list \<Rightarrow> string \<Rightarrow> pyval option" where
  "dict_lookup kvs k = map_of (rev kvs) k"

definition dict_keys :: "(string \<times> pyval) list \<Rightarrow> string list" where
  "dict_keys kvs = remdups (map fst kvs)"

definition py_type_name :: "pyval \<Rightarrow> string" where
  "py_type_name v = (case v of PNone \<Rightarrow> ''NoneType'' | PBool _ \<Rightarrow> ''bool'' | PInt _ \<Rightarrow> ''int''
     | PFloat _ _ \<Rightarrow> ''float'' | PStr _ \<Rightarrow> ''str'' | PList _ \<Rightarrow> ''list'' | PDict _ \<Rightarrow> ''dict'')"

definition py_quote :: "string \<Rightarrow> string" where
  "py_quote s = CHR 0x27 # s @ [CHR 0x27]"

definition dict_items :: "(string \<times> pyval) list \<Rightarrow> (string \<times> pyval) list" where
  "dict_items kvs = map (\<lambda>k. (k, the (map_of (rev kvs) k))) (dict_keys kvs)"

function py_repr :: "pyval \<Rightarrow> string" where
  "py_repr PNone = ''None''"
| "py_repr (PBool b) = (if b then ''True'' else ''False'')"
| "py_repr (PInt i) = py_str_int i"
| "py_repr (PFloat m k) = py_repr_float m k"
| "py_repr (PStr s) = py_quote s"
| "py_repr (PList xs) = ''['' @ py_join '', '' (map py_repr xs) @ '']''"
| "py_repr (PDict kvs) =
     ''{'' @ py_join '', '' (map (\<lambda>(k, v). py_quote k @ '': '' @ py_repr v) (dict_items kvs)) @ ''}''"
  by pat_completeness auto
termination
proof (relation "measure size")
  fix kvs :: "(string \<times> pyval) list" and x k v
  assume "x \<in> set (dict_items kvs)" and "(k, v) = x"
  then obtain k' where k': "k' \<in> fst ` set kvs" and kv: "(k, v) = (k', the (map_of (rev kvs) k'))"
    by (auto simp: dict_items_def dict_keys_def)
  then obtain v' where v': "map_of (rev kvs) k' = Some v'"
    by (metis map_of_eq_None_iff not_Some_eq set_rev)
  then have "(k, v) \<in> set kvs" using kv by (auto dest: map_of_SomeD)
  then show "(v, PDict kvs) \<in> measure size" by (induction kvs) auto
qed (auto intro: le_imp_less_Suc size_list_estimation')

text \<open>\<^verbatim>\<open>str(v)\<close>: a string is itself, every other value its repr; an f-string field is \<^verbatim>\<open>str\<close>.\<close>

definition py_str :: "pyval \<Rightarrow> string" where
  "py_str v = (case v of PStr s \<Rightarrow> s | _ \<Rightarrow> py_repr v)"

text \<open>\<^verbatim>\<open>str(e)\<close> of an exception: the repr of the key for \<^verbatim>\<open>KeyError\<close>, the message otherwise.\<close>

fun exc_str :: "py_exc \<Rightarrow> string" where
  "exc_str (KeyError k) = py_repr k"
| "exc_str (IndexError m) = m"
| "exc_str (TypeError m) = m"
| "exc_str (AttributeError m) = m"
| "exc_str (ValueError m) = m"
| "exc_str (HTTPError m) = m"
| "exc_str (RequestException m) = m"
| "exc_str (JSONDecodeError m) = m"
| "exc_str (ServiceError m) = m"
| "exc_str (Exception m) = m"

section \<open>Truth values, subscripts, membership and iteration\<close>

fun py_truthy :: "pyval \<Rightarrow> bool" where
  "py_truthy PNone = False"
| "py_truthy (PBool b) = b"
| "py_truthy (PInt i) = (i \<noteq> 0)"
| "py_truthy (PFloat m k) = (m \<noteq> 0)"
| "py_truthy (PStr s) = (s \<noteq> [])"
| "py_truthy (PList xs) = (xs \<noteq> [])"
| "py_truthy (PDict kvs) = (kvs \<noteq> [])"

definition not_subscriptable :: "pyval \<Rightarrow> py_exc" where
  "not_subscriptable v = TypeError (py_quote (py_type_name v) @ '' object is not subscriptable'')"

text \<open>\<^verbatim>\<open>v[k]\<close> with a string key.\<close>

fun py_key :: "pyval \<Rightarrow> string \<Rightarrow> py_exc + pyval" where
  "py_key (PDict kvs) k = (case dict_lookup kvs k of None \<Rightarrow> Inl (KeyError (PStr k)) | Some v \<Rightarrow> Inr v)"
| "py_key (PList xs) k = Inl (TypeError ''list indices must be integers or slices, not str'')"
| "py_key (PStr s) k = Inl (TypeError (''string indices must be integers, not '' @ py_quote ''str''))"
| "py_key PNone k = Inl (not_subscriptable PNone)"
| "py_key (PBool b) k = Inl (not_subscriptable (PBool b))"
| "py_key (PInt i) k = Inl (not_subscriptable (PInt i))"
| "py_key (PFloat m e) k = Inl (not_subscriptable (PFloat m e))"

text \<open>\<^verbatim>\<open>v[i]\<close> with an integer index; a negative index counts from the end.\<close>

definition py_norm_index :: "nat \<Rightarrow> int \<Rightarrow> int" where
  "py_norm_index n i = (if i < 0 then int n + i else i)"

fun py_index :: "pyval \<Rightarrow> int \<Rightarrow> py_exc + pyval" where
  "py_index (PList xs) i =
     (let j = py_norm_index (length xs) i in
      if 0 \<le> j \<and> j < int (length xs) then Inr (xs ! nat j)
      else Inl (IndexError ''list index out of range''))"
| "py_index (PStr s) i =
     (let j = py_norm_index (length s) i in
      if 0 \<le> j \<and> j < int (length s) then Inr (PStr [s ! nat j])
      else Inl (IndexError ''string index out of range''))"
| "py_index (PDict kvs) i = Inl (KeyError (PInt i))"
| "py_index PNone i = Inl (not_subscriptable PNone)"
| "py_index (PBool b) i = Inl (not_subscriptable (PBool b))"
| "py_index (PInt n) i = Inl (not_subscriptable (PInt n))"
| "py_index (PFloat m e) i = Inl (not_subscriptable (PFloat m e))"

text \<open>\<^verbatim>\<open>v.get(k, d)\<close> (\<^verbatim>\<open>v.get(k)\<close> is \<open>d = None\<close>): only dictionaries have the method.\<close>

fun py_get :: "pyval \<Rightarrow> string \<Rightarrow> pyval \<Rightarrow> py_exc + pyval" where
  "py_get (PDict kvs) k d = Inr (case dict_lookup kvs k of None \<Rightarrow> d | Some v \<Rightarrow> v)"
| "py_get v k d =
     Inl (AttributeError (py_quote (py_type_name v) @ '' object has no attribute '' @ py_quote ''get''))"

text \<open>\<^verbatim>\<open>k in v\<close> with a string \<open>k\<close>: a key of a dict, an element of a list, a substring of a string.\<close>

fun py_in :: "string \<Rightarrow> pyval \<Rightarrow> py_exc + bool" where
  "py_in k (PDict kvs) = Inr (k \<in> set (map fst kvs))"
| "py_in k (PList xs) = Inr (PStr k \<in> set xs)"
| "py_in k (PStr s) = Inr (\<exists>i \<le> length s. take (length k) (drop i s) = k)"
| "py_in k v =
     Inl (TypeError (''argument of type '' @ py_quote (py_type_name v) @ '' is not iterable''))"

text \<open>\<^verbatim>\<open>for x in v\<close>: the elements of a list, the keys of a dict, the characters of a string.\<close>

fun py_iter :: "pyval \<Rightarrow> py_exc + pyval list" where
  "py_iter (PList xs) = Inr xs"
| "py_iter (PDict kvs) = Inr (map PStr (dict_keys kvs))"
| "py_iter (PStr s) = Inr (map (\<lambda>c. PStr [c]) s)"
| "py_iter v = Inl (TypeError (py_quote (py_type_name v) @ '' object is not iterable''))"

text \<open>A list comprehension whose element expression may raise: the first exception wins.\<close>

fun py_map :: "('a \<Rightarrow> py_exc + 'b) \<Rightarrow> 'a list \<Rightarrow> py_exc + 'b list" where
  "py_map f [] = Inr []"
| "py_map f (x # xs) =
     (case f x of Inl e \<Rightarrow> Inl e
      | Inr y \<Rightarrow> (case py_map f xs of Inl e \<Rightarrow> Inl e | Inr ys \<Rightarrow> Inr (y # ys)))"

section \<open>Arithmetic\<close>

text \<open>
  Numbers as exact decimals \<open>(m, k)\<close> meaning \<open>m / 10^k\<close>; \<^verbatim>\<open>True\<close> counts as 1.
  An \<^verbatim>\<open>int\<close> result stays an \<^verbatim>\<open>int\<close>, a result with a float operand is a float.
\<close>

fun py_dec :: "pyval \<Rightarrow> (int \<times> nat) option" where
  "py_dec (PBool b) = Some (of_bool b, 0)"
| "py_dec (PInt i) = Some (i, 0)"
| "py_dec (PFloat m k) = Some (m, k)"
| "py_dec _ = None"

fun py_is_float :: "pyval \<Rightarrow> bool" where
  "py_is_float (PFloat _ _) = True"
| "py_is_float _ = False"

definition dq :: char where
  "dq = CHR 0x22"

definition bad_operands :: "string \<Rightarrow> pyval \<Rightarrow> pyval \<Rightarrow> py_exc" where
  "bad_operands op a b = TypeError (''unsupported operand type(s) for '' @ op @ '': ''
     @ py_quote (py_type_name a) @ '' and '' @ py_quote (py_type_name b))"

text \<open>\<^verbatim>\<open>a + b\<close>: numbers add, strings and lists concatenate.\<close>

definition py_add :: "pyval \<Rightarrow> pyval \<Rightarrow> py_exc + pyval" where
  "py_add a b =
     (case (a, b) of
        (PStr x, PStr y) \<Rightarrow> Inr (PStr (x @ y))
      | (PList x, PList y) \<Rightarrow> Inr (PList (x @ y))
      | (PStr x, _) \<Rightarrow> Inl (TypeError (''can only concatenate str (not '' @ dq # py_type_name b
                           @ dq # '') to str''))
      | (PList x, _) \<Rightarrow> Inl (TypeError (''can only concatenate list (not '' @ dq # py_type_name b
                           @ dq # '') to list''))
      | _ \<Rightarrow> (case (py_dec a, py_dec b) of
               (Some (m1, k1), Some (m2, k2)) \<Rightarrow>
                 (let k = max k1 k2; m = m1 * 10 ^ (k - k1) + m2 * 10 ^ (k - k2) in
                  Inr (if py_is_float a \<or> py_is_float b then PFloat m k else PInt m))
             | _ \<Rightarrow> Inl (bad_operands ''+'' a b)))"

text \<open>
  \<^verbatim>\<open>a / d\<close> for a positive integer literal \<open>d\<close> with \<open>d * q = 10^j\<close>; the code divides
  by 1000 and by 2 only, so the quotient is a finite decimal.
\<close>

definition py_truediv :: "pyval \<Rightarrow> nat \<Rightarrow> nat \<Rightarrow> py_exc + pyval" where
  "py_truediv a d j =
     (case py_dec a of
        Some (m, k) \<Rightarrow> Inr (PFloat (m * int (10 ^ j div d)) (k + j))
      | None \<Rightarrow> Inl (bad_operands ''/'' a (PInt (int d))))"

text \<open>\<^verbatim>\<open>round(x, 2)\<close>: an int is returned as it is, a float is rounded half to even.\<close>

definition round_half_even :: "int \<Rightarrow> nat \<Rightarrow> int" where
  "round_half_even m s =
     (let q = m div 10 ^ s; r = m mod 10 ^ s in
      if 2 * r > 10 ^ s then q + 1 else if 2 * r < 10 ^ s then q else if even q then q else q + 1)"

fun py_round2 :: "pyval \<Rightarrow> py_exc + pyval" where
  "py_round2 (PInt i) = Inr (PInt i)"
| "py_round2 (PBool b) = Inr (PInt (of_bool b))"
| "py_round2 (PFloat m k) = Inr (if k \<le> 2 then PFloat m k else PFloat (round_half_even m (k - 2)) 2)"
| "py_round2 v = Inl (TypeError (''type '' @ py_type_name v @ '' doesn'' @ CHR 0x27 # ''t define __round__ method''))"

text \<open>A real with at most two decimals, the precision \<^verbatim>\<open>round(x, 2)\<close> promises.\<close>

definition two_decimals :: "real \<Rightarrow> bool" where
  "two_decimals y \<longleftrightarrow> of_int \<lfloor>100 * y\<rfloor> = 100 * y"

section \<open>\<^verbatim>\<open>float(x)\<close>\<close>

text \<open>
  \<^verbatim>\<open>float(s)\<close> on a string: surrounding whitespace is stripped, then an optional sign
  and \<^verbatim>\<open>inf\<close>, \<^verbatim>\<open>infinity\<close> or \<^verbatim>\<open>nan\<close> in any case, or a decimal literal
  (digits with single underscores between them, an optional point, an optional exponent).
  Whitespace and digits are the ASCII ones. The result says whether the value is NaN.
\<close>

definition is_py_space :: "char \<Rightarrow> bool" where
  "is_py_space c \<longleftrightarrow> of_char c \<in> {9, 10, 11, 12, 13, 28, 29, 30, 31, 32 :: nat}"

definition py_strip :: "string \<Rightarrow> string" where
  "py_strip s = rev (dropWhile is_py_space (rev (dropWhile is_py_space s)))"

definition is_digit :: "char \<Rightarrow> bool" where
  "is_digit c \<longleftrightarrow> 48 \<le> (of_char c :: nat) \<and> of_char c < (58 :: nat)"

text \<open>The rest of a string after the digits and single underscores that follow a digit.\<close>

fun digits_tail :: "string \<Rightarrow> string" where
  "digits_tail (c # d # r) =
     (if is_digit c then digits_tail (d # r)
      else if c = CHR ''_'' \<and> is_digit d then digits_tail r else c # d # r)"
| "digits_tail [c] = (if is_digit c then [] else [c])"
| "digits_tail [] = []"

definition digitpart :: "string \<Rightarrow> string option" where
  "digitpart s = (case s of c # r \<Rightarrow> if is_digit c then Some (digits_tail r) else None | [] \<Rightarrow> None)"

definition number_rest :: "string \<Rightarrow> string option" where
  "number_rest s =
     (case digitpart s of
        Some r \<Rightarrow> (case r of
                     c # r2 \<Rightarrow> if c = CHR ''.'' then (case digitpart r2 of Some r3 \<Rightarrow> Some r3 | None \<Rightarrow> Some r2)
                               else Some r
                   | [] \<Rightarrow> Some [])
      | None \<Rightarrow> (case s of c # r2 \<Rightarrow> if c = CHR ''.'' then digitpart r2 else None | [] \<Rightarrow> None))"

definition exponent_ok :: "string \<Rightarrow> bool" where
  "exponent_ok r =
     (case r of
        e # r2 \<Rightarrow> (e = CHR ''e'' \<or> e = CHR ''E'') \<and>
                   digitpart (case r2 of c # r3 \<Rightarrow> if c = CHR ''+'' \<or> c = CHR ''-'' then r3 else r2 | [] \<Rightarrow> []) = Some []
      | [] \<Rightarrow> False)"

definition float_literal :: "string \<Rightarrow> bool" where
  "float_literal u = (case number_rest u of Some [] \<Rightarrow> True | Some r \<Rightarrow> exponent_ok r | None \<Rightarrow> False)"

definition float_str :: "string \<Rightarrow> bool option" where
  "float_str s =
     (let t = py_strip s;
          u = (case t of c # r \<Rightarrow> if c = CHR ''+'' \<or> c = CHR ''-'' then r else t | [] \<Rightarrow> []);
          l = py_lower u
      in if l = ''inf'' \<or> l = ''infinity'' then Some False
         else if l = ''nan'' then Some True
         else if float_literal u then Some False else None)"

definition py_float :: "pyval \<Rightarrow> py_exc + bool" where
  "py_float v =
     (case v of
        PBool _ \<Rightarrow> Inr False | PInt _ \<Rightarrow> Inr False | PFloat _ _ \<Rightarrow> Inr False
      | PStr s \<Rightarrow> (case float_str s of
                    Some nan \<Rightarrow> Inr nan
                  | None \<Rightarrow> Inl (ValueError (''could not convert string to float: '' @ py_repr v)))
      | _ \<Rightarrow> Inl (TypeError (''float() argument must be a string or a real number, not '' @ py_quote (py_type_name v))))"

text \<open>\<^verbatim>\<open>type(v)\<close> as a format field prints \<^verbatim>\<open><class 'name'>\<close>.\<close>

definition py_class :: "pyval \<Rightarrow> string" where
  "py_class v = ''<class '' @ py_quote (py_type_name v) @ ''>''"

section \<open>Statements: a writer/exception monad\<close>

text \<open>
  A statement of the source returns a value or raises, and has produced its effects
  (outbound calls, UI elements) in order; an exception keeps the effects made before it.
  \<^verbatim>\<open>try ... except Exception as e\<close> is \<open>py_try\<close>, which catches every exception.
\<close>

type_synonym ('e, 'a) py = "(py_exc + 'a) \<times> 'e list"

definition py_return :: "'a \<Rightarrow> ('e, 'a) py" where
  [simp]: "py_return a = (Inr a, [])"

definition py_raise :: "py_exc \<Rightarrow> ('e, 'a) py" where
  [simp]: "py_raise x = (Inl x, [])"

definition py_lift :: "py_exc + 'a \<Rightarrow> ('e, 'a) py" where
  [simp]: "py_lift r = (r, [])"

definition py_emit :: "'e \<Rightarrow> ('e, unit) py" where
  [simp]: "py_emit e = (Inr (), [e])"

definition py_bind :: "('e, 'a) py \<Rightarrow> ('a \<Rightarrow> ('e, 'b) py) \<Rightarrow> ('e, 'b) py" where
  "py_bind m f =
     (case m of (Inl x, t) \<Rightarrow> (Inl x, t) | (Inr a, t) \<Rightarrow> (case f a of (r, t') \<Rightarrow> (r, t @ t')))"

definition py_try :: "('e, 'a) py \<Rightarrow> (py_exc \<Rightarrow> ('e, 'a) py) \<Rightarrow> ('e, 'a) py" where
  "py_try m h =
     (case m of (Inl x, t) \<Rightarrow> (case h x of (r, t') \<Rightarrow> (r, t @ t')) | (Inr a, t) \<Rightarrow> (Inr a, t))"

text \<open>The statement returned normally.\<close>

definition py_ok :: "('e, 'a) py \<Rightarrow> bool" where
  "py_ok m = (case fst m of Inl _ \<Rightarrow> False | Inr _ \<Rightarrow> True)"

section \<open>Expressions that may raise\<close>

text \<open>Sequencing of sub-expressions that may raise, left to right.\<close>

definition sbind :: "py_exc + 'a \<Rightarrow> ('a \<Rightarrow> py_exc + 'b) \<Rightarrow> py_exc + 'b" where
  "sbind r f = (case r of Inl x \<Rightarrow> Inl x | Inr a \<Rightarrow> f a)"

text \<open>A chain of subscripts \<^verbatim>\<open>v["a"][0]["b"]\<close>.\<close>

datatype sel = K string | I int

fun py_path :: "pyval \<Rightarrow> sel list \<Rightarrow> py_exc + pyval" where
  "py_path v [] = Inr v"
| "py_path v (K k # ps) = sbind (py_key v k) (\<lambda>w. py_path w ps)"
| "py_path v (I i # ps) = sbind (py_index v i) (\<lambda>w. py_path w ps)"

text \<open>\<^verbatim>\<open>d[k] = v\<close> and \<^verbatim>\<open>d.update({k: v})\<close> on a dictionary: the key keeps its position.\<close>

type_synonym pydict = "(string \<times> pyval) list"

definition dict_set :: "pydict \<Rightarrow> string \<Rightarrow> pyval \<Rightarrow> pydict" where
  "dict_set d k v =
     (if k \<in> set (map fst d) then map (\<lambda>(k', v'). if k' = k then (k', v) else (k', v')) d
      else d @ [(k, v)])"

definition dict_update :: "pydict \<Rightarrow> (string \<times> pyval) list \<Rightarrow> pydict" where
  "dict_update d kvs = fold (\<lambda>(k, v) d. dict_set d k v) kvs d"

section \<open>Statements on a mutable state\<close>

text \<open>
  The planning block assigns into \<^verbatim>\<open>st.session_state\<close> between calls that may raise;
  an exception leaves the assignments made so far. A statement here takes the state and
  returns a result or an exception, the new state and its effects.
\<close>

type_synonym ('s, 'e, 'a) stm = "'s \<Rightarrow> ((py_exc + 'a) \<times> 's) \<times> 'e list"

definition st_bind :: "('s, 'e, 'a) stm \<Rightarrow> ('a \<Rightarrow> ('s, 'e, 'b) stm) \<Rightarrow> ('s, 'e, 'b) stm" where
  "st_bind m f s =
     (case m s of ((Inl x, s'), t) \<Rightarrow> ((Inl x, s'), t)
      | ((Inr a, s'), t) \<Rightarrow> (case f a s' of (r, t') \<Rightarrow> (r, t @ t')))"

definition st_act :: "('e, 'a) py \<Rightarrow> ('s, 'e, 'a) stm" where
  "st_act m s = ((fst m, s), snd m)"

definition st_modify :: "('s \<Rightarrow> 's) \<Rightarrow> ('s, 'e, unit) stm" where
  "st_modify f s = ((Inr (), f s), [])"

definition st_get :: "('s, 'e, 's) stm" where
  "st_get s = ((Inr s, s), [])"

definition st_try :: "('s, 'e, 'a) stm \<Rightarrow> (py_exc \<Rightarrow> ('s, 'e, 'a) stm) \<Rightarrow> ('s, 'e, 'a) stm" where
  "st_try m h s =
     (case m s of ((Inl x, s'), t) \<Rightarrow> (case h x s' of (r, t') \<Rightarrow> (r, t @ t'))
      | ((Inr a, s'), t) \<Rightarrow> ((Inr a, s'), t))"

section \<open>Lemmas of the runtime model\<close>

lemma py_bind_Inl [simp, py_simps]: "py_bind (Inl x, t) f = (Inl x, t)"
  by (simp add: py_bind_def)

lemma py_bind_Inr [simp, py_simps]: "py_bind (Inr a, t) f = (fst (f a), t @ snd (f a))"
  by (simp add: py_bind_def split: prod.split)

lemma py_try_Inl [simp, py_simps]: "py_try (Inl x, t) h = (fst (h x), t @ snd (h x))"
  by (simp add: py_try_def split: prod.split)

lemma py_try_Inr [simp, py_simps]: "py_try (Inr a, t) h = (Inr a, t)"
  by (simp add: py_try_def)

lemma py_bind_raised: "fst m = Inl x \<Longrightarrow> py_bind m f = (Inl x, snd m)"
  by (cases m) simp


lemma py_try_raised: "fst m = Inl x \<Longrightarrow> py_try m h = (fst (h x), snd m @ snd (h x))"
  by (cases m) simp

lemma py_try_returned: "fst m = Inr a \<Longrightarrow> py_try m h = m"
  by (cases m) simp

lemma py_bind_return_right [simp]: "py_bind m py_return = m"
  by (simp add: py_bind_def split: prod.split sum.split)

lemma py_bind_assoc [py_simps]: "py_bind (py_bind m f) g = py_bind m (\<lambda>a. py_bind (f a) g)"
  by (simp add: py_bind_def split: prod.split sum.split)

lemma py_ok_iff [simp]: "py_ok (r, t) = (\<exists>a. r = Inr a)"
  by (simp add: py_ok_def split: sum.split)

text \<open>\<^verbatim>\<open>except Exception\<close> with a handler that returns: the statement never raises.\<close>

lemma py_try_ok: "(\<And>x. py_ok (h x)) \<Longrightarrow> py_ok (py_try m h)"
  by (cases m; cases "fst m") (auto simp: py_ok_def split: sum.splits)

text \<open>The effects of a try block: those of the body, then those of the handler if it ran.\<close>

lemma py_try_effects:
  "snd (py_try m h) = snd m @ (case fst m of Inl x \<Rightarrow> snd (h x) | Inr _ \<Rightarrow> [])"
  by (cases m; cases "fst m") simp_all

lemma py_bind_effects:
  "snd (py_bind m f) = snd m @ (case fst m of Inl _ \<Rightarrow> [] | Inr a \<Rightarrow> snd (f a))"
  by (cases m; cases "fst m") simp_all

lemma py_bind_result:
  "fst (py_bind m f) = (case fst m of Inl x \<Rightarrow> Inl x | Inr a \<Rightarrow> fst (f a))"
  by (cases m; cases "fst m") simp_all



lemma py_map_all_Inr:
  "(\<And>x. x \<in> set xs \<Longrightarrow> f x = Inr (g x)) \<Longrightarrow> py_map f xs = Inr (map g xs)"
  by (induction xs) auto

lemma sbind_simps [simp, py_simps]: "sbind (Inl x) f = Inl x" "sbind (Inr a) f = f a"
  by (simp_all add: sbind_def)

lemma py_path_append: "py_path v (ps @ qs) = sbind (py_path v ps) (\<lambda>w. py_path w qs)"
proof (induction v ps rule: py_path.induct)
  case (2 v k ps)
  then show ?case by (cases "py_key v k") simp_all
next
  case (3 v i ps)
  then show ?case by (cases "py_index v i") simp_all
qed simp

lemma dict_set_keys [simp]: "set (map fst (dict_set d k v)) = insert k (set (map fst d))"
  by (auto simp: dict_set_def image_iff split: if_splits) force+

lemma dict_lookup_set [simp]:
  "dict_lookup (dict_set d k v) k' = (if k' = k then Some v else dict_lookup d k')"
proof -
  have "map_of (rev (map (\<lambda>(k', v'). if k' = k then (k', v) else (k', v')) d)) k' =
        (if k' = k then (if k \<in> set (map fst d) then Some v else None) else map_of (rev d) k')"
    by (induction d rule: rev_induct) (force simp: map_add_def split: option.split)+
  then show ?thesis
    by (force simp: dict_set_def dict_lookup_def split: option.split)
qed

lemma st_bind_act [simp, py_simps]:
  "st_bind (st_act m) f s =
     (case fst m of Inl x \<Rightarrow> ((Inl x, s), snd m)
      | Inr a \<Rightarrow> (fst (f a s), snd m @ snd (f a s)))"
  by (simp add: st_bind_def st_act_def split: sum.split prod.split)

lemma st_bind_modify [simp, py_simps]:
  "st_bind (st_modify g) f s = f () (g s)"
  by (simp add: st_bind_def st_modify_def split: prod.split)

lemma st_act_apply [simp, py_simps]: "st_act m s = ((fst m, s), snd m)"
  by (simp add: st_act_def)

lemma st_modify_apply [simp, py_simps]: "st_modify g s = ((Inr (), g s), [])"
  by (simp add: st_modify_def)

text \<open>The decimal quotient is the real quotient.\<close>

lemma py_truediv_real:
  assumes "d dvd 10 ^ j" "0 < d" "py_truediv v d j = Inr x"
  shows "py_is_float x \<and> py_real x = map_option (\<lambda>r. r / real d) (py_real v)"
proof -
  obtain m k where dec: "py_dec v = Some (m, k)" and x: "x = PFloat (m * int (10 ^ j div d)) (k + j)"
    using assms(3) by (auto simp: py_truediv_def split: option.splits)
  have q: "real d * real (10 ^ j div d) = 10 ^ j"
    using assms(1) by (metis dvd_mult_div_cancel of_nat_mult of_nat_numeral of_nat_power)
  have val: "py_real v = Some (of_int m / 10 ^ k)"
    using dec by (cases v) (auto split: if_splits)
  have "of_int (m * int (10 ^ j div d)) / (10::real) ^ (k + j) = of_int m / 10 ^ k / real d"
    using q assms(2) by (simp add: power_add field_simps)
  then show ?thesis using val x by simp
qed
lemma py_ok_projr: "py_ok m \<Longrightarrow> fst m = Inr (projr (fst m))"
  by (cases m) (auto simp: py_ok_def split: sum.splits)

lemma st_bind_get [simp, py_simps]: "st_bind st_get f s = f s s"
  by (simp add: st_bind_def st_get_def)

lemma st_try_apply:
  "st_try m h s =
     (case m s of ((Inl x, s'), t) \<Rightarrow> (fst (h x s'), t @ snd (h x s')) | ((Inr a, s'), t) \<Rightarrow> ((Inr a, s'), t))"
  by (simp add: st_try_def split: prod.split sum.split)

text \<open>Rounding half to even moves a value by at most half a unit of the last kept digit.\<close>

lemma round_half_even_int_close: "2 * \<bar>round_half_even m s * 10 ^ s - m\<bar> \<le> 10 ^ s"
proof -
  define P :: int where "P = 10 ^ s"
  define q where "q = m div P"
  define r where "r = m mod P"
  have m: "m = q * P + r" by (simp add: q_def r_def)
  have r: "0 \<le> r" "r < P" by (simp_all add: r_def P_def)
  have R: "round_half_even m s = (if 2 * r > P then q + 1 else if 2 * r < P then q else if even q then q else q + 1)"
    by (simp add: round_half_even_def Let_def q_def r_def P_def)
  have "2 * \<bar>(if 2 * r > P then q + 1 else if 2 * r < P then q else if even q then q else q + 1) * P - (q * P + r)\<bar> \<le> P"
    using r by (simp add: algebra_simps)
  then have "2 * \<bar>round_half_even m s * P - m\<bar> \<le> P"
    unfolding R by (subst m) assumption
  then show ?thesis by (simp add: P_def)
qed

lemma round_half_even_close: "\<bar>of_int (round_half_even m s) - of_int m / 10 ^ s\<bar> \<le> (1 / 2 :: real)"
proof -
  define a where "a = of_int (round_half_even m s) * 10 ^ s - (of_int m :: real)"
  define P where "P = (10 ^ s :: real)"
  have "(of_int (2 * \<bar>round_half_even m s * 10 ^ s - m\<bar>) :: real) \<le> of_int (10 ^ s)"
    using round_half_even_int_close[of m s] by (simp only: of_int_le_iff)
  then have "2 * \<bar>a\<bar> \<le> P" by (simp add: a_def P_def)
  moreover have "0 < P" by (simp add: P_def)
  moreover have "of_int (round_half_even m s) - of_int m / 10 ^ s = a / P"
    by (simp add: a_def P_def field_simps)
  ultimately show ?thesis by (simp add: abs_divide pos_divide_le_eq)
qed

lemma two_decimals_of_int [simp]: "two_decimals (of_int n)"
  by (simp add: two_decimals_def)

lemma round2_exact:
  assumes "k \<le> 2"
  shows "two_decimals (of_int m / 10 ^ k)"
proof -
  have h: "(100 :: real) = 10 ^ (2 - k) * 10 ^ k"
    using assms by (simp flip: power_add)
  have "100 * (of_int m / 10 ^ k :: real) = of_int (m * 10 ^ (2 - k))"
    by (subst h) simp
  then show ?thesis by (simp add: two_decimals_def)
qed

lemma round2_scaled:
  assumes "\<not> k \<le> 2"
  shows "\<bar>of_int (round_half_even m (k - 2)) / 100 - of_int m / 10 ^ k\<bar> \<le> (1 / 200 :: real)
    \<and> two_decimals (of_int (round_half_even m (k - 2)) / 100)"
proof
  define j where "j = k - 2"
  define R where "R = round_half_even m j"
  have kj: "k = j + 2" using assms by (simp add: j_def)
  have "\<bar>of_int R / 100 - of_int m / 10 ^ k\<bar> = \<bar>of_int R - of_int m / 10 ^ j\<bar> / (100 :: real)"
    by (simp add: kj power_add field_simps)
  also have "\<dots> \<le> 1 / 200" using round_half_even_close[of m j] by (simp add: R_def)
  finally show "\<bar>of_int (round_half_even m (k - 2)) / 100 - of_int m / 10 ^ k\<bar> \<le> (1 / 200 :: real)"
    by (simp add: R_def j_def)
  show "two_decimals (of_int (round_half_even m (k - 2)) / 100)"
    using round2_exact[of 2] by simp
qed

text \<open>\<^verbatim>\<open>round(x, 2)\<close> of a number keeps two decimals and moves it by at most 0.005.\<close>

lemma py_round2_close:
  assumes "py_real km = Some x" "py_round2 km = Inr r"
  shows "\<exists>y. py_real r = Some y \<and> \<bar>y - x\<bar> \<le> 1 / 200 \<and> two_decimals y"
proof (cases km)
  case (PFloat m k)
  show ?thesis
  proof (cases "k \<le> 2")
    case True
    with PFloat assms show ?thesis using round2_exact[of k m] by auto
  next
    case False
    with PFloat assms have "r = PFloat (round_half_even m (k - 2)) 2" "x = of_int m / 10 ^ k" by auto
    then show ?thesis using round2_scaled[OF False, of m]
      by (intro exI[of _ "of_int (round_half_even m (k - 2)) / 100"]) simp
  qed
next
  case (PInt i)
  then show ?thesis using assms by auto
next
  case (PBool b)
  then show ?thesis using assms by (auto simp: two_decimals_def)
qed (use assms in auto)

end
