(* ===== verification/World.thy ===== *)
theory World
  imports Prelude
begin

text \<open>
  The outside world of \<^verbatim>\<open>src/app.py\<close>: the environment variables it reads, the
  services it calls (Azure OpenAI chat completions, OpenRouteService geocoding and
  directions, AccuWeather, Google Calendar) and the page it writes with Streamlit.
  A \<open>world\<close> fixes the answer of every service to every request; an \<open>effect\<close> is one
  outbound call or one element written to the page, and every operation of the planner
  returns the list of effects it made, in order.
\<close>

section \<open>HTTP\<close>

text \<open>
  A \<^verbatim>\<open>requests.Response\<close>: status, reason phrase, final URL and the body, which
  \<^verbatim>\<open>.json()\<close> decodes or fails to decode (\<open>Inl\<close> holds the decoder's message).
\<close>

record http_resp =
  r_status :: nat
  r_reason :: string
  r_url :: string
  r_body :: "string + pyval"

text \<open>\<^verbatim>\<open>Response.raise_for_status()\<close> as written in \<^verbatim>\<open>requests.models\<close>.\<close>

definition raise_for_status :: "http_resp \<Rightarrow> py_exc + unit" where
  "raise_for_status r =
     (if 400 \<le> r_status r \<and> r_status r < 500 then
        Inl (HTTPError (py_str_int (int (r_status r)) @ '' Client Error: '' @ r_reason r
                        @ '' for url: '' @ r_url r))
      else if 500 \<le> r_status r \<and> r_status r < 600 then
        Inl (HTTPError (py_str_int (int (r_status r)) @ '' Server Error: '' @ r_reason r
                        @ '' for url: '' @ r_url r))
      else Inr ())"

definition resp_json :: "http_resp \<Rightarrow> py_exc + pyval" where
  "resp_json r = (case r_body r of Inl m \<Rightarrow> Inl (JSONDecodeError m) | Inr v \<Rightarrow> Inr v)"

text \<open>\<^verbatim>\<open>requests\<close> leaves out a query parameter whose value is \<^verbatim>\<open>None\<close>.\<close>

definition req_params :: "(string \<times> string option) list \<Rightarrow> (string \<times> string) list" where
  "req_params ps = [(k, v). (k, Some v) \<leftarrow> ps]"

text \<open>\<^verbatim>\<open>f"{x}"\<close> of a value read with \<^verbatim>\<open>os.getenv\<close>.\<close>

definition fmt_opt :: "string option \<Rightarrow> string" where
  "fmt_opt x = (case x of None \<Rightarrow> ''None'' | Some s \<Rightarrow> s)"

section \<open>Google credentials\<close>

record cal_creds =
  c_refresh_token :: "string option"
  c_token_uri :: string
  c_client_id :: "string option"
  c_client_secret :: "string option"

section \<open>Effects\<close>

datatype ext_call =
    AiChat "string option" "(string \<times> string) list"
  | HttpGet string "(string \<times> string) list"
  | HttpPost string "(string \<times> string) list" pyval
  | CalendarInsert cal_creds string pyval
  | TempFile string
  | PdfFromString string string

datatype map_marker = Marker pyval pyval string string

record map_view =
  mv_center :: "pyval \<times> pyval"
  mv_zoom :: nat
  mv_markers :: "map_marker list"
  mv_line :: pyval
  mv_line_color :: string
  mv_line_weight :: nat

datatype ui =
    UiTitle string
  | UiMarkdown string
  | UiSubheader string
  | UiError string
  | UiWarning string
  | UiSuccess string
  | UiText string
  | UiMap map_view nat
  | UiException string

datatype effect = Call ext_call | Show ui

type_synonym 'a act = "(effect, 'a) py"

fun is_call :: "effect \<Rightarrow> bool" where
  "is_call (Call _) = True"
| "is_call (Show _) = False"

text \<open>The outbound calls among a list of effects.\<close>

definition calls :: "effect list \<Rightarrow> ext_call list" where
  "calls es = [c. Call c \<leftarrow> es]"

text \<open>The calls to the four services of the planner, as opposed to the file system.\<close>

fun service_call :: "ext_call \<Rightarrow> bool" where
  "service_call (TempFile _) = False"
| "service_call (PdfFromString _ _) = False"
| "service_call _ = True"

section \<open>The world\<close>

text \<open>
  \<open>w_ai\<close> answers a chat completion request (deployment, messages) with the message
  contents of its choices; \<open>w_get\<close> and \<open>w_post\<close> answer HTTP requests;
  \<open>w_calendar\<close> answers \<^verbatim>\<open>events().insert(...).execute()\<close> with the created event;
  \<open>w_traceback\<close> is the text \<^verbatim>\<open>traceback.format_exc()\<close> prints for an exception;
  \<open>w_client\<close> is the outcome of constructing the \<^verbatim>\<open>AzureOpenAI\<close> client from the
  key and endpoint read at import time; \<open>w_tempfile\<close> answers
  \<^verbatim>\<open>tempfile.NamedTemporaryFile(delete=False, suffix=...)\<close> with the file's name,
  and \<open>w_pdfkit\<close> is the outcome of \<^verbatim>\<open>pdfkit.from_string(html, path)\<close>.
\<close>

record world =
  w_env :: "string \<Rightarrow> string option"
  w_client :: "string option \<Rightarrow> string option \<Rightarrow> py_exc option"
  w_ai :: "string option \<Rightarrow> (string \<times> string) list \<Rightarrow> py_exc + pyval list"
  w_get :: "string \<Rightarrow> (string \<times> string) list \<Rightarrow> py_exc + http_resp"
  w_post :: "string \<Rightarrow> (string \<times> string) list \<Rightarrow> pyval \<Rightarrow> py_exc + http_resp"
  w_calendar :: "cal_creds \<Rightarrow> string \<Rightarrow> pyval \<Rightarrow> py_exc + pyval"
  w_traceback :: "py_exc \<Rightarrow> string"
  w_tempfile :: "string \<Rightarrow> py_exc + string"
  w_pdfkit :: "string \<Rightarrow> string \<Rightarrow> py_exc option"

text \<open>One outbound call: the call is made (an effect) and its answer is the result.\<close>

definition http_get :: "world \<Rightarrow> string \<Rightarrow> (string \<times> string) list \<Rightarrow> http_resp act" where
  "http_get w url ps = (w_get w url ps, [Call (HttpGet url ps)])"

definition http_post :: "world \<Rightarrow> string \<Rightarrow> (string \<times> string) list \<Rightarrow> pyval \<Rightarrow> http_resp act" where
  "http_post w url hs body = (w_post w url hs body, [Call (HttpPost url hs body)])"

definition ai_chat :: "world \<Rightarrow> string option \<Rightarrow> (string \<times> string) list \<Rightarrow> pyval list act" where
  "ai_chat w model msgs = (w_ai w model msgs, [Call (AiChat model msgs)])"

definition calendar_insert :: "world \<Rightarrow> cal_creds \<Rightarrow> string \<Rightarrow> pyval \<Rightarrow> pyval act" where
  "calendar_insert w cr cal body = (w_calendar w cr cal body, [Call (CalendarInsert cr cal body)])"

definition temp_file :: "world \<Rightarrow> string \<Rightarrow> string act" where
  "temp_file w suffix = (w_tempfile w suffix, [Call (TempFile suffix)])"

definition pdf_from_string :: "world \<Rightarrow> string \<Rightarrow> string \<Rightarrow> unit act" where
  "pdf_from_string w html path =
     (case w_pdfkit w html path of None \<Rightarrow> Inr () | Some e \<Rightarrow> Inl e, [Call (PdfFromString html path)])"

section \<open>Text with emoji\<close>

text \<open>The UTF-8 bytes of the non-ASCII symbols the page prints.\<close>

definition u_cross :: string where "u_cross = [CHR 0xE2, CHR 0x9D, CHR 0x8C]"
definition u_check :: string where "u_check = [CHR 0xE2, CHR 0x9C, CHR 0x85]"
definition u_vs16 :: string where "u_vs16 = [CHR 0xEF, CHR 0xB8, CHR 0x8F]"
definition u_plane :: string where "u_plane = [CHR 0xE2, CHR 0x9C, CHR 0x88] @ u_vs16"
definition u_worldmap :: string where "u_worldmap = [CHR 0xF0, CHR 0x9F, CHR 0x97, CHR 0xBA] @ u_vs16"
definition u_sun :: string where "u_sun = [CHR 0xF0, CHR 0x9F, CHR 0x8C, CHR 0xA4] @ u_vs16"
definition u_hotel :: string where "u_hotel = [CHR 0xF0, CHR 0x9F, CHR 0x8F, CHR 0xA8]"
definition u_cal :: string where "u_cal = [CHR 0xF0, CHR 0x9F, CHR 0x97, CHR 0x95] @ u_vs16"
definition u_link :: string where "u_link = [CHR 0xF0, CHR 0x9F, CHR 0x94, CHR 0x97]"
definition u_bed :: string where "u_bed = [CHR 0xF0, CHR 0x9F, CHR 0x9B, CHR 0x8F] @ u_vs16"
definition u_car :: string where "u_car = [CHR 0xF0, CHR 0x9F, CHR 0x9A, CHR 0x97]"
definition u_degree :: string where "u_degree = [CHR 0xC2, CHR 0xB0]"

section \<open>A demonstration world\<close>

text \<open>
  Concrete answers of every service, used by the witness theorems: OpenRouteService
  knows Delhi and Paris and routes between them, AccuWeather knows Paris, the
  calendar and the chat model answer.
\<close>

definition demo_env :: "string \<Rightarrow> string option" where
  "demo_env = map_of
     [(''AZURE_OPENAI_KEY'', ''az-key''), (''AZURE_OPENAI_ENDPOINT'', ''https://demo.openai.azure.com''),
      (''AZURE_DEPLOYMENT_ID'', ''travel-gpt''), (''ORS_API_KEY'', ''ors-key''),
      (''ACCUWEATHER_API_KEY'', ''acc-key''), (''GOOGLE_REFRESH_TOKEN'', ''refresh''),
      (''GOOGLE_CLIENT_ID'', ''client''), (''GOOGLE_CLIENT_SECRET'', ''secret'')]"

definition ok_resp :: "string \<Rightarrow> pyval \<Rightarrow> http_resp" where
  "ok_resp url v = \<lparr>r_status = 200, r_reason = ''OK'', r_url = url, r_body = Inr v\<rparr>"

definition demo_places :: "(string \<times> pyval) list" where
  "demo_places = [(''Delhi'', PList [PFloat 772090 4, PFloat 286139 4]),
                  (''Paris'', PList [PFloat 23522 4, PFloat 488566 4])]"

definition demo_geocode_answer :: "string \<Rightarrow> pyval" where
  "demo_geocode_answer place =
     PDict [(''type'', PStr ''FeatureCollection''),
            (''features'', case map_of demo_places place of None \<Rightarrow> PList []
               | Some c \<Rightarrow> PList [PDict [(''geometry'', PDict [(''type'', PStr ''Point''), (''coordinates'', c)])]])]"

definition demo_forecast :: pyval where
  "demo_forecast =
     PDict [(''DailyForecasts'', PList [PDict [(''Day'', PDict [(''IconPhrase'', PStr ''Sunny'')]),
        (''Temperature'', PDict [(''Maximum'', PDict [(''Value'', PFloat 245 1), (''Unit'', PStr ''C'')])])]])]"

definition demo_get :: "string \<Rightarrow> (string \<times> string) list \<Rightarrow> py_exc + http_resp" where
  "demo_get url ps =
     (if url = ''https://api.openrouteservice.org/geocode/search'' then
        Inr (ok_resp url (demo_geocode_answer (case map_of ps ''text'' of Some t \<Rightarrow> t | None \<Rightarrow> [])))
      else if url = ''http://dataservice.accuweather.com/locations/v1/cities/search?apikey=acc-key&q=Paris'' then
        Inr (ok_resp url (PList [PDict [(''Key'', PStr ''623''), (''LocalizedName'', PStr ''Paris'')]]))
      else if url = ''http://dataservice.accuweather.com/forecasts/v1/daily/1day/623?apikey=acc-key&metric=true'' then
        Inr (ok_resp url demo_forecast)
      else if take 62 url = ''http://dataservice.accuweather.com/locations/v1/cities/search?'' then
        Inr (ok_resp url (PList []))
      else Inl (RequestException (''Max retries exceeded with url: '' @ url)))"

definition demo_route :: pyval where
  "demo_route =
     PDict [(''type'', PStr ''FeatureCollection''),
            (''features'', PList [PDict
               [(''properties'', PDict [(''segments'', PList [PDict [(''distance'', PFloat 65932043 1),
                                                               (''duration'', PFloat 2370000 1)]])]),
                (''geometry'', PDict [(''coordinates'', PList [PList [PFloat 772090 4, PFloat 286139 4],
                                                               PList [PFloat 23522 4, PFloat 488566 4]])])]])]"

definition demo_post :: "string \<Rightarrow> (string \<times> string) list \<Rightarrow> pyval \<Rightarrow> py_exc + http_resp" where
  "demo_post url hs body =
     (if url = ''https://api.openrouteservice.org/v2/directions/driving-car/geojson''
      then Inr (ok_resp url demo_route)
      else Inl (RequestException (''Max retries exceeded with url: '' @ url)))"

definition demo_world :: world where
  "demo_world =
     \<lparr>w_env = demo_env,
      w_client = (\<lambda>_ _. None),
      w_ai = (\<lambda>_ _. Inr [PStr ''Day 1: arrive in Paris and walk along the Seine.'']),
      w_get = demo_get,
      w_post = demo_post,
      w_calendar = (\<lambda>_ _ _. Inr (PDict [(''kind'', PStr ''calendar#event''),
                                        (''htmlLink'', PStr ''https://www.google.com/calendar/event?eid=demo'')])),
      w_traceback = (\<lambda>_. ''Traceback (most recent call last): ...''),
      w_tempfile = (\<lambda>suffix. Inr (''/tmp/tmpdemo'' @ suffix)),
      w_pdfkit = (\<lambda>_ _. Some (Exception ''No wkhtmltopdf executable found''))\<rparr>"

section \<open>Lemmas\<close>

lemma calls_simps [simp]:
  "calls [] = []" "calls (Call c # es) = c # calls es" "calls (Show u # es) = calls es"
  "calls (es @ fs) = calls es @ calls fs"
  by (simp_all add: calls_def)

lemmas call_defs = http_get_def http_post_def ai_chat_def calendar_insert_def temp_file_def pdf_from_string_def

lemmas demo_defs = demo_world_def demo_env_def demo_get_def demo_post_def ok_resp_def
  demo_geocode_answer_def demo_places_def demo_route_def demo_forecast_def

lemma calls_bind:
  "calls (snd m) = [] \<Longrightarrow> (\<And>a. calls (snd (f a)) = []) \<Longrightarrow> calls (snd (py_bind m f)) = []"
  by (simp add: py_bind_effects split: sum.split)

lemma calls_try:
  "calls (snd m) = [] \<Longrightarrow> (\<And>x. calls (snd (h x)) = []) \<Longrightarrow> calls (snd (py_try m h)) = []"
  by (simp add: py_try_effects split: sum.split)

lemma raise_for_status_ok [simp]: "r_status r < 400 \<Longrightarrow> raise_for_status r = Inr ()"
  by (simp add: raise_for_status_def)

end
