(* ===== verification/Route.thy ===== *)
theory Route
  imports World
begin

text \<open>
  The geocode/route adapter of \<^verbatim>\<open>src/app.py\<close>: the module-level \<^verbatim>\<open>geocode\<close>
  (lines 56--68, which nothing calls), the \<^verbatim>\<open>geocode\<close> nested in
  \<^verbatim>\<open>get_distance_km\<close> (lines 78--86) and \<^verbatim>\<open>get_distance_km\<close> itself (lines
  72--111), which geocodes both cities, asks OpenRouteService for a driving route,
  converts the distance to kilometres and swaps every polyline point from
  (lon, lat) to (lat, lon). On any exception it reports the error on the page and
  returns four \<^verbatim>\<open>None\<close>s.
\<close>

definition ors_geocode_url :: string where
  "ors_geocode_url = ''https://api.openrouteservice.org/geocode/search''"

definition ors_directions_url :: string where
  "ors_directions_url = ''https://api.openrouteservice.org/v2/directions/driving-car/geojson''"

text \<open>The geocoding request for one place, and the (lat, lon) order the contract asks for.\<close>

definition geo_call :: "string \<Rightarrow> string \<Rightarrow> ext_call" where
  "geo_call k p = HttpGet ors_geocode_url [(''api_key'', k), (''text'', p)]"

definition latlon :: "pyval \<Rightarrow> pyval" where
  "latlon pt = (case pt of PList (lon # lat # _) \<Rightarrow> PList [lat, lon] | _ \<Rightarrow> pt)"

section \<open>The module-level geocode (unused)\<close>

definition geocode :: "world \<Rightarrow> string \<Rightarrow> pyval act" where
  "geocode w place =
     py_try
       (py_bind (http_get w ors_geocode_url
                  (req_params [(''api_key'', w_env w ''ORS_API_KEY''), (''text'', Some place)])) (\<lambda>r.
        py_bind (py_lift (raise_for_status r)) (\<lambda>_.
        py_bind (py_lift (sbind (resp_json r) (\<lambda>j. py_get j ''features'' PNone))) (\<lambda>features.
        if \<not> py_truthy features then py_raise (Exception (''No coordinates found for '' @ place))
        else py_lift (py_path features [I 0, K ''geometry'', K ''coordinates''])))))
       (\<lambda>e. py_bind (py_emit (Show (UiWarning (''Geocoding failed for '' @ py_quote place @ '': ''
                                                @ exc_str e))))
              (\<lambda>_. py_return PNone))"

section \<open>get_distance_km\<close>

definition geocode_failed :: "string \<Rightarrow> py_exc" where
  "geocode_failed place = ValueError (''Geocoding failed for '' @ py_quote place)"

text \<open>The nested \<^verbatim>\<open>geocode(place)\<close>, which sees \<^verbatim>\<open>ors_key\<close> of the enclosing call.\<close>

definition ors_geocode :: "world \<Rightarrow> string \<Rightarrow> string \<Rightarrow> pyval act" where
  "ors_geocode w ors_key place =
     py_bind (http_get w ors_geocode_url [(''api_key'', ors_key), (''text'', place)]) (\<lambda>res.
     py_bind (py_lift (raise_for_status res)) (\<lambda>_.
     py_bind (py_lift (resp_json res)) (\<lambda>data.
     py_bind (py_lift (py_in ''features'' data)) (\<lambda>has.
     if \<not> has then py_raise (geocode_failed place)
     else py_bind (py_lift (py_key data ''features'')) (\<lambda>fs.
          if \<not> py_truthy fs then py_raise (geocode_failed place)
          else py_lift (py_path data [K ''features'', I 0, K ''geometry'', K ''coordinates'']))))))"

text \<open>\<^verbatim>\<open>[pt[1], pt[0]]\<close>, the element of the polyline comprehension.\<close>

definition swap_point :: "pyval \<Rightarrow> py_exc + pyval" where
  "swap_point pt = sbind (py_index pt 1) (\<lambda>lat. sbind (py_index pt 0) (\<lambda>lon. Inr (PList [lat, lon])))"

definition ors_headers :: "string \<Rightarrow> (string \<times> string) list" where
  "ors_headers k = [(''Authorization'', k), (''Content-Type'', ''application/json'')]"

definition route_request :: "pyval \<Rightarrow> pyval \<Rightarrow> pyval" where
  "route_request a b = PDict [(''coordinates'', PList [a, b])]"

text \<open>The body of the \<^verbatim>\<open>try\<close> after the key check (lines 88--106).\<close>

definition route_body :: "world \<Rightarrow> string \<Rightarrow> string \<Rightarrow> string \<Rightarrow> (pyval \<times> pyval \<times> pyval \<times> pyval) act" where
  "route_body w ors_key source destination =
     py_bind (ors_geocode w ors_key source) (\<lambda>coord_start.
     py_bind (ors_geocode w ors_key destination) (\<lambda>coord_end.
     py_bind (http_post w ors_directions_url (ors_headers ors_key) (route_request coord_start coord_end)) (\<lambda>response.
     py_bind (py_lift (raise_for_status response)) (\<lambda>_.
     py_bind (py_lift (resp_json response)) (\<lambda>route_data.
     py_bind (py_lift (py_path route_data [K ''features'', I 0, K ''properties'', K ''segments'', I 0])) (\<lambda>segment.
     py_bind (py_lift (sbind (py_key segment ''distance'') (\<lambda>d. py_truediv d 1000 3))) (\<lambda>distance_km.
     py_bind (py_lift (sbind (py_path route_data [K ''features'', I 0, K ''geometry'', K ''coordinates''])
                        (\<lambda>cs. sbind (py_iter cs) (py_map swap_point)))) (\<lambda>route_coords.
     py_return (distance_km, coord_start, coord_end, PList route_coords)))))))))"

definition no_route :: "pyval \<times> pyval \<times> pyval \<times> pyval" where
  "no_route = (PNone, PNone, PNone, PNone)"

definition get_distance_km :: "world \<Rightarrow> string \<Rightarrow> string \<Rightarrow> (pyval \<times> pyval \<times> pyval \<times> pyval) act" where
  "get_distance_km w source destination =
     py_try
       (case w_env w ''ORS_API_KEY'' of
          None \<Rightarrow> py_raise (ValueError ''ORS_API_KEY is missing in environment.'')
        | Some k \<Rightarrow>
            if k = [] then py_raise (ValueError ''ORS_API_KEY is missing in environment.'')
            else route_body w k source destination)
       (\<lambda>e. py_bind (py_emit (Show (UiError (u_cross @ '' Routing error: '' @ exc_str e)))) (\<lambda>_.
            py_bind (py_emit (Show (UiText (w_traceback w e)))) (\<lambda>_.
            py_return no_route)))"

section \<open>Properties of the route adapter\<close>

lemmas route_defs = get_distance_km_def route_body_def ors_geocode_def swap_point_def
  ors_geocode_url_def ors_directions_url_def ors_headers_def route_request_def

text \<open>The nested geocode makes exactly one request, whatever the answer.\<close>

lemma ors_geocode_effects: "snd (ors_geocode w k p) = [Call (geo_call k p)]"
  by (simp add: ors_geocode_def http_get_def py_bind_effects geo_call_def split: sum.split)

lemma swap_point_pair: "swap_point (PList (a # b # r)) = Inr (latlon (PList (a # b # r)))"
  by (simp add: swap_point_def latlon_def py_norm_index_def)

lemma route_body_calls:
  "calls (snd (route_body w k s d)) = [geo_call k s] \<or>
   calls (snd (route_body w k s d)) = [geo_call k s, geo_call k d] \<or>
   (\<exists>b. calls (snd (route_body w k s d)) =
          [geo_call k s, geo_call k d, HttpPost ors_directions_url (ors_headers k) b])"
  by (auto simp: route_body_def http_post_def py_bind_effects ors_geocode_effects split: sum.split)

lemma get_distance_km_ok: "py_ok (get_distance_km w s d)"
  unfolding get_distance_km_def by (rule py_try_ok) (simp add: no_route_def)

lemma route_body_result:
  "fst (route_body w k s d) = Inr r \<Longrightarrow> py_is_float (fst r)"
  by (auto simp: route_body_def py_bind_result sbind_def py_truediv_def split: sum.splits option.splits prod.splits)

lemma get_distance_km_value:
  "fst (get_distance_km w s d) =
     Inr (case w_env w ''ORS_API_KEY'' of
            None \<Rightarrow> no_route
          | Some k \<Rightarrow> if k = [] then no_route
                      else (case fst (route_body w k s d) of Inl _ \<Rightarrow> no_route | Inr r \<Rightarrow> r))"
  by (cases "route_body w (the (w_env w ''ORS_API_KEY'')) s d")
     (auto simp: get_distance_km_def no_route_def split: option.split sum.split)

lemma get_distance_km_float:
  "projr (fst (get_distance_km w s d)) = no_route \<or> py_is_float (fst (projr (fst (get_distance_km w s d))))"
  by (auto simp: get_distance_km_value dest: route_body_result split: option.split sum.split)

text \<open>
  C14. \<^verbatim>\<open>get_distance_km\<close> never lets an exception escape: it returns either the
  four \<^verbatim>\<open>None\<close>s or a tuple whose distance is a float.
\<close>

theorem get_distance_km_total:
  "\<exists>r. fst (get_distance_km w s d) = Inr r \<and> (r = no_route \<or> py_is_float (fst r))"
  using get_distance_km_float[of w s d] by (simp add: get_distance_km_value)

text \<open>
  C15. Unit conversion and coordinate order: when both cities resolve and the
  directions service answers with a segment distance (a number, in metres) and a
  polyline of (lon, lat) points, the adapter returns the distance in kilometres as a
  float, the two resolved coordinates, and the polyline with every point as (lat, lon).
\<close>

theorem get_distance_km_success:
  assumes "w_env w ''ORS_API_KEY'' = Some k" "k \<noteq> []"
    and "fst (ors_geocode w k s) = Inr cs" and "fst (ors_geocode w k d) = Inr ce"
    and "w_post w ors_directions_url (ors_headers k) (route_request cs ce) = Inr resp"
    and "r_status resp < 400" and "r_body resp = Inr rd"
    and "py_path rd [K ''features'', I 0, K ''properties'', K ''segments'', I 0, K ''distance''] = Inr dv"
    and "py_real dv = Some metres"
    and "py_path rd [K ''features'', I 0, K ''geometry'', K ''coordinates''] = Inr (PList pts)"
    and "list_all (\<lambda>pt. \<exists>a b r. pt = PList (a # b # r)) pts"
  shows "\<exists>km. fst (get_distance_km w s d) = Inr (km, cs, ce, PList (map latlon pts))
           \<and> py_is_float km \<and> py_real km = Some (metres / 1000)"
proof -
  obtain seg where seg: "py_path rd [K ''features'', I 0, K ''properties'', K ''segments'', I 0] = Inr seg"
    and dist: "py_key seg ''distance'' = Inr dv"
    using assms(8) py_path_append[of rd "[K ''features'', I 0, K ''properties'', K ''segments'', I 0]"]
    by (auto simp: sbind_def split: sum.splits)
  obtain km where km: "py_truediv dv 1000 3 = Inr km"
    using assms(9) by (cases dv) (auto simp: py_truediv_def)
  have kmv: "py_is_float km \<and> py_real km = Some (metres / 1000)"
    using py_truediv_real[OF _ _ km] assms(9) by simp
  have coords: "py_map swap_point pts = Inr (map latlon pts)"
    using assms(11) by (intro py_map_all_Inr) (auto simp: list_all_iff swap_point_pair)
  have "fst (route_body w k s d) = Inr (km, cs, ce, PList (map latlon pts))"
    using assms(3-7,10) seg dist coords km
    by (simp add: route_body_def http_post_def py_bind_result resp_json_def)
  then show ?thesis using assms(1,2) kmv by (simp add: get_distance_km_def py_try_returned)
qed

theorem get_distance_km_success_witness:
  "\<exists>km. fst (get_distance_km demo_world ''Delhi'' ''Paris'') =
     Inr (km, PList [PFloat 772090 4, PFloat 286139 4], PList [PFloat 23522 4, PFloat 488566 4],
          PList [PList [PFloat 286139 4, PFloat 772090 4], PList [PFloat 488566 4, PFloat 23522 4]])
     \<and> py_is_float km \<and> py_real km = Some (6593204.3 / 1000)"
  using get_distance_km_success[of demo_world "''ors-key''" "''Delhi''" "PList [PFloat 772090 4, PFloat 286139 4]"
      "''Paris''" "PList [PFloat 23522 4, PFloat 488566 4]" "ok_resp ors_directions_url demo_route" demo_route
      "PFloat 65932043 1" "6593204.3"
      "[PList [PFloat 772090 4, PFloat 286139 4], PList [PFloat 23522 4, PFloat 488566 4]]"]
  by (simp add: demo_defs route_defs call_defs resp_json_def dict_lookup_def py_norm_index_def latlon_def)

text \<open>
  C24. A place with no match: when the geocoding answer has no \<^verbatim>\<open>features\<close> or an
  empty list of them, the nested geocode raises \<^verbatim>\<open>ValueError("Geocoding failed for
  '<place>'")\<close>.
\<close>

theorem ors_geocode_no_match:
  assumes "w_get w ors_geocode_url [(''api_key'', k), (''text'', p)] = Inr res"
    and "r_status res < 400" and "r_body res = Inr (PDict kvs)"
    and "dict_lookup kvs ''features'' \<in> {None, Some (PList [])}"
  shows "fst (ors_geocode w k p) = Inl (geocode_failed p)"
  using assms by (auto simp: ors_geocode_def http_get_def resp_json_def dict_lookup_def
      map_of_eq_None_iff)

theorem ors_geocode_no_match_witness:
  "fst (ors_geocode demo_world ''ors-key'' ''Atlantis'') = Inl (geocode_failed ''Atlantis'')"
  by (rule ors_geocode_no_match[of _ _ _ "ok_resp ors_geocode_url (demo_geocode_answer ''Atlantis'')"
        "[(''type'', PStr ''FeatureCollection''), (''features'', PList [])]"])
     (simp_all add: demo_defs ors_geocode_url_def dict_lookup_def)

text \<open>
  C25. A geocoding failure aborts the route and nothing else: when the source does not
  resolve, the adapter makes that one request only (no second geocode, no directions
  request), reports the error on the page, prints the traceback and returns four
  \<^verbatim>\<open>None\<close>s.
\<close>

theorem get_distance_km_geocode_error:
  assumes "w_env w ''ORS_API_KEY'' = Some k" "k \<noteq> []"
    and "fst (ors_geocode w k s) = Inl e"
  shows "get_distance_km w s d =
    (Inr no_route, [Call (geo_call k s), Show (UiError (u_cross @ '' Routing error: '' @ exc_str e)),
                    Show (UiText (w_traceback w e))])"
proof -
  have "route_body w k s d = (Inl e, [Call (geo_call k s)])"
    using assms(3) ors_geocode_effects[of w k s] by (simp add: route_body_def py_bind_raised)
  then show ?thesis using assms(1,2) by (simp add: get_distance_km_def)
qed

theorem get_distance_km_geocode_error_witness:
  "get_distance_km demo_world ''Atlantis'' ''Paris'' =
    (Inr no_route, [Call (geo_call ''ors-key'' ''Atlantis''),
      Show (UiError (u_cross @ '' Routing error: '' @ exc_str (geocode_failed ''Atlantis''))),
      Show (UiText (w_traceback demo_world (geocode_failed ''Atlantis'')))])"
  using get_distance_km_geocode_error[of demo_world "''ors-key''" "''Atlantis''" "geocode_failed ''Atlantis''"]
  by (simp add: demo_defs route_defs call_defs resp_json_def dict_lookup_def)

text \<open>
  C26. A missing or empty \<^verbatim>\<open>ORS_API_KEY\<close> is reported without any request.
\<close>

theorem get_distance_km_missing_key:
  assumes "w_env w ''ORS_API_KEY'' \<in> {None, Some []}"
  shows "get_distance_km w s d =
    (Inr no_route, [Show (UiError (u_cross @ '' Routing error: ORS_API_KEY is missing in environment.'')),
                    Show (UiText (w_traceback w (ValueError ''ORS_API_KEY is missing in environment.'')))])"
  using assms by (auto simp: get_distance_km_def)

theorem get_distance_km_missing_key_witness:
  "get_distance_km (demo_world\<lparr>w_env := (\<lambda>_. None)\<rparr>) ''Delhi'' ''Paris'' =
    (Inr no_route, [Show (UiError (u_cross @ '' Routing error: ORS_API_KEY is missing in environment.'')),
                    Show (UiText (w_traceback demo_world (ValueError ''ORS_API_KEY is missing in environment.'')))])"
  using get_distance_km_missing_key[of "demo_world\<lparr>w_env := (\<lambda>_. None)\<rparr>"] by simp

text \<open>
  C27. Call discipline: the adapter's outbound calls are, in this order and each at
  most once, the geocoding of the source, the geocoding of the destination and one
  directions request, all with the configured key; with no key it makes none.
\<close>

theorem get_distance_km_calls:
  "calls (snd (get_distance_km w s d)) = [] \<or>
   (\<exists>k. w_env w ''ORS_API_KEY'' = Some k \<and> k \<noteq> [] \<and>
     (calls (snd (get_distance_km w s d)) = [geo_call k s] \<or>
      calls (snd (get_distance_km w s d)) = [geo_call k s, geo_call k d] \<or>
      (\<exists>b. calls (snd (get_distance_km w s d)) =
             [geo_call k s, geo_call k d, HttpPost ors_directions_url (ors_headers k) b])))"
proof (cases "w_env w ''ORS_API_KEY''")
  case None
  then show ?thesis by (simp add: get_distance_km_def py_try_effects)
next
  case (Some k)
  have "calls (snd (get_distance_km w s d)) = (if k = [] then [] else calls (snd (route_body w k s d)))"
    using Some by (simp add: get_distance_km_def py_try_effects split: sum.split)
  then show ?thesis using Some route_body_calls[of w k s d] by auto
qed


text \<open>Every call the route adapter makes goes to a service (never to the file system).\<close>

lemma get_distance_km_services: "list_all service_call (calls (snd (get_distance_km w s d)))"
proof -
  have "list_all service_call (calls (snd (route_body w k s d)))" for k
    using route_body_calls[of w k s d] by (auto simp: geo_call_def)
  then show ?thesis
    by (auto simp: get_distance_km_def py_try_effects split: option.split sum.split)
qed

end
