(* ===== verification/Weather.thy ===== *)
theory Weather
  imports World
begin

text \<open>
  The weather adapter \<^verbatim>\<open>get_weather\<close> (\<^verbatim>\<open>src/app.py\<close> lines 130--142): look the
  city up in AccuWeather's location search, take the first location's key, fetch the
  one-day forecast and format \<^verbatim>\<open>"<IconPhrase>, <Maximum>\<degree>C"\<close>. The URLs are built by
  f-string interpolation, with the city and the key inserted as they are. No HTTP status
  is checked; every exception becomes the text \<^verbatim>\<open>"Weather error: ..."\<close>.
\<close>

definition accu_loc_url :: "string option \<Rightarrow> string \<Rightarrow> string" where
  "accu_loc_url key city =
     ''http://dataservice.accuweather.com/locations/v1/cities/search?apikey='' @ fmt_opt key @ ''&q='' @ city"

definition accu_forecast_url :: "pyval \<Rightarrow> string option \<Rightarrow> string" where
  "accu_forecast_url loc_key key =
     ''http://dataservice.accuweather.com/forecasts/v1/daily/1day/'' @ py_str loc_key
     @ ''?apikey='' @ fmt_opt key @ ''&metric=true''"

text \<open>
  The expression of line 140, evaluated as Python does: \<^verbatim>\<open>((phrase + ", ") +
  str(value)) + "\<degree>C"\<close>, each operand just before its addition.
\<close>

definition forecast_text :: "pyval \<Rightarrow> py_exc + pyval" where
  "forecast_text fc =
     sbind (py_path fc [K ''DailyForecasts'', I 0, K ''Day'', K ''IconPhrase'']) (\<lambda>phrase.
     sbind (py_add phrase (PStr '', '')) (\<lambda>a.
     sbind (py_path fc [K ''DailyForecasts'', I 0, K ''Temperature'', K ''Maximum'', K ''Value'']) (\<lambda>v.
     sbind (py_add a (PStr (py_str v))) (\<lambda>b.
     py_add b (PStr (u_degree @ ''C''))))))"

definition get_weather :: "world \<Rightarrow> string \<Rightarrow> pyval act" where
  "get_weather w city =
     py_try
       (let key = w_env w ''ACCUWEATHER_API_KEY'' in
        py_bind (http_get w (accu_loc_url key city) []) (\<lambda>r.
        py_bind (py_lift (resp_json r)) (\<lambda>loc_response.
        if \<not> py_truthy loc_response then py_return (PStr ''No weather data found.'')
        else py_bind (py_lift (py_path loc_response [I 0, K ''Key''])) (\<lambda>loc_key.
             py_bind (http_get w (accu_forecast_url loc_key key) []) (\<lambda>r2.
             py_bind (py_lift (resp_json r2)) (\<lambda>forecast.
             py_lift (forecast_text forecast)))))))
       (\<lambda>e. py_return (PStr (''Weather error: '' @ exc_str e)))"

text \<open>
  How the service reads the query of a URL, as \<^verbatim>\<open>application/x-www-form-urlencoded\<close>
  (the WHATWG URL standard): the part after the first \<^verbatim>\<open>?\<close> and before any
  \<^verbatim>\<open>#\<close> (the fragment is not sent), split at \<^verbatim>\<open>&\<close>; a piece is split at its
  first \<^verbatim>\<open>=\<close>, \<^verbatim>\<open>+\<close> reads as a space and \<^verbatim>\<open>%XX\<close> as the byte XX; the
  first pair with the name wins. \<^verbatim>\<open>requests\<close> re-quotes the bytes a URL may not
  contain (spaces, non-ASCII) as \<^verbatim>\<open>%XX\<close> and leaves \<^verbatim>\<open>&\<close>, \<^verbatim>\<open>=\<close>, \<^verbatim>\<open>+\<close>,
  \<^verbatim>\<open>#\<close> and valid escapes alone, so reading the URL as the code builds it gives the
  parameters the service receives.
\<close>

fun split_on :: "char \<Rightarrow> string \<Rightarrow> string list" where
  "split_on c [] = [[]]"
| "split_on c (x # xs) = (if x = c then [] # split_on c xs
                          else (case split_on c xs of p # ps \<Rightarrow> (x # p) # ps | [] \<Rightarrow> [[x]]))"

definition hex_val :: "char \<Rightarrow> nat option" where
  "hex_val c =
     (let k = of_char c :: nat in
      if 48 \<le> k \<and> k < 58 then Some (k - 48)
      else if 65 \<le> k \<and> k < 71 then Some (k - 55)
      else if 97 \<le> k \<and> k < 103 then Some (k - 87) else None)"

fun pct_decode :: "string \<Rightarrow> string" where
  "pct_decode (c # a # b # r) =
     (if c = CHR ''%'' then
        (case (hex_val a, hex_val b) of
           (Some x, Some y) \<Rightarrow> char_of (16 * x + y) # pct_decode r
         | _ \<Rightarrow> c # pct_decode (a # b # r))
      else c # pct_decode (a # b # r))"
| "pct_decode cs = cs"

definition form_decode :: "string \<Rightarrow> string" where
  "form_decode s = pct_decode (map (\<lambda>c. if c = CHR ''+'' then CHR '' '' else c) s)"

definition url_query :: "string \<Rightarrow> string" where
  "url_query url = takeWhile (\<lambda>c. c \<noteq> CHR ''#'') (drop 1 (dropWhile (\<lambda>c. c \<noteq> CHR ''?'') url))"

definition query_pairs :: "string \<Rightarrow> (string \<times> string) list" where
  "query_pairs q =
     [(form_decode (takeWhile (\<lambda>c. c \<noteq> CHR ''='') p), form_decode (drop 1 (dropWhile (\<lambda>c. c \<noteq> CHR ''='') p))).
      p \<leftarrow> split_on (CHR ''&'') q, p \<noteq> []]"

definition query_param :: "string \<Rightarrow> string \<Rightarrow> string option" where
  "query_param url name = map_of (query_pairs (url_query url)) name"

section \<open>Properties of the weather adapter\<close>

lemmas weather_defs = get_weather_def forecast_text_def accu_loc_url_def accu_forecast_url_def

lemma py_add_str_Inr: "py_add a (PStr s) = Inr v \<Longrightarrow> \<exists>x. a = PStr x \<and> v = PStr (x @ s)"
  by (cases a) (auto simp: py_add_def split: option.splits prod.splits)

lemma forecast_text_str: "forecast_text fc = Inr v \<Longrightarrow> \<exists>s. v = PStr s"
  by (auto simp: forecast_text_def sbind_def split: sum.splits dest!: py_add_str_Inr)

lemma get_weather_ok: "py_ok (get_weather w c)"
  unfolding get_weather_def by (rule py_try_ok) simp

lemma split_on_no_sep: "c \<notin> set s \<Longrightarrow> split_on c (s @ c # t) = s # split_on c t"
  by (induction s) auto

lemma split_on_head: "\<exists>ps. split_on c s = takeWhile (\<lambda>x. x \<noteq> c) s # ps"
  by (induction s) (auto split: list.split)

text \<open>
  C16. The weather adapter never raises and always returns a string: the forecast, the
  "no data" text or the error text.
\<close>

theorem get_weather_total: "\<exists>s. fst (get_weather w c) = Inr (PStr s)"
proof -
  let ?body = "let key = w_env w ''ACCUWEATHER_API_KEY'' in
        py_bind (http_get w (accu_loc_url key c) []) (\<lambda>r.
        py_bind (py_lift (resp_json r)) (\<lambda>loc_response.
        if \<not> py_truthy loc_response then py_return (PStr ''No weather data found.'')
        else py_bind (py_lift (py_path loc_response [I 0, K ''Key''])) (\<lambda>loc_key.
             py_bind (http_get w (accu_forecast_url loc_key key) []) (\<lambda>r2.
             py_bind (py_lift (resp_json r2)) (\<lambda>forecast.
             py_lift (forecast_text forecast))))))"
  have "fst ?body = Inr v \<Longrightarrow> \<exists>s. v = PStr s" for v
    by (auto simp: http_get_def py_bind_result Let_def split: sum.splits if_splits
        dest: forecast_text_str)
  then show ?thesis
    unfolding get_weather_def by (cases "fst ?body") (auto simp: py_try_raised py_try_returned)
qed

text \<open>
  C17. With a location found and a complete forecast, the adapter returns
  \<^verbatim>\<open>"<IconPhrase>, <str(Maximum)>\<degree>C"\<close> after exactly two requests: the location search
  for the city and the forecast for the first location's key.
\<close>

theorem get_weather_success:
  assumes "w_get w (accu_loc_url (w_env w ''ACCUWEATHER_API_KEY'') c) [] = Inr lresp"
    and "r_body lresp = Inr (PList (loc # locs))" and "py_key loc ''Key'' = Inr lk"
    and "w_get w (accu_forecast_url lk (w_env w ''ACCUWEATHER_API_KEY'')) [] = Inr fresp"
    and "r_body fresp = Inr fc"
    and "py_path fc [K ''DailyForecasts'', I 0, K ''Day'', K ''IconPhrase''] = Inr (PStr phrase)"
    and "py_path fc [K ''DailyForecasts'', I 0, K ''Temperature'', K ''Maximum'', K ''Value''] = Inr v"
  shows "get_weather w c =
    (Inr (PStr (phrase @ '', '' @ py_str v @ u_degree @ ''C'')),
     [Call (HttpGet (accu_loc_url (w_env w ''ACCUWEATHER_API_KEY'') c) []),
      Call (HttpGet (accu_forecast_url lk (w_env w ''ACCUWEATHER_API_KEY'')) [])])"
  using assms
  by (simp add: get_weather_def forecast_text_def http_get_def resp_json_def py_add_def
      py_norm_index_def Let_def)

theorem get_weather_success_witness:
  "get_weather demo_world ''Paris'' =
    (Inr (PStr (''Sunny, 24.5'' @ u_degree @ ''C'')),
     [Call (HttpGet ''http://dataservice.accuweather.com/locations/v1/cities/search?apikey=acc-key&q=Paris'' []),
      Call (HttpGet ''http://dataservice.accuweather.com/forecasts/v1/daily/1day/623?apikey=acc-key&metric=true'' [])])"
  using get_weather_success[of demo_world "''Paris''"
      "ok_resp ''http://dataservice.accuweather.com/locations/v1/cities/search?apikey=acc-key&q=Paris''
         (PList [PDict [(''Key'', PStr ''623''), (''LocalizedName'', PStr ''Paris'')]])"
      "PDict [(''Key'', PStr ''623''), (''LocalizedName'', PStr ''Paris'')]" "[]" "PStr ''623''"
      "ok_resp ''http://dataservice.accuweather.com/forecasts/v1/daily/1day/623?apikey=acc-key&metric=true'' demo_forecast"
      demo_forecast "''Sunny''" "PFloat 245 1"]
  by (simp add: demo_defs weather_defs dict_lookup_def py_norm_index_def fmt_opt_def py_str_def
      py_repr_float_def float_digits_def float_body_def digits_of.simps)

text \<open>
  C29. When the location search finds nothing, the adapter answers
  \<^verbatim>\<open>"No weather data found."\<close> after that one request.
\<close>

theorem get_weather_not_found:
  assumes "w_get w (accu_loc_url (w_env w ''ACCUWEATHER_API_KEY'') c) [] = Inr lresp"
    and "r_body lresp = Inr loc" and "\<not> py_truthy loc"
  shows "get_weather w c =
    (Inr (PStr ''No weather data found.''),
     [Call (HttpGet (accu_loc_url (w_env w ''ACCUWEATHER_API_KEY'') c) [])])"
  using assms by (simp add: get_weather_def http_get_def resp_json_def Let_def)

theorem get_weather_not_found_witness:
  "get_weather demo_world ''Atlantis'' =
    (Inr (PStr ''No weather data found.''),
     [Call (HttpGet ''http://dataservice.accuweather.com/locations/v1/cities/search?apikey=acc-key&q=Atlantis'' [])])"
  using get_weather_not_found[of demo_world "''Atlantis''"
      "ok_resp ''http://dataservice.accuweather.com/locations/v1/cities/search?apikey=acc-key&q=Atlantis'' (PList [])"
      "PList []"]
  by (simp add: demo_defs weather_defs fmt_opt_def)

text \<open>
  C30. The city is put into the location URL without URL-encoding. Whatever the city,
  the service reads as the \<^verbatim>\<open>q\<close> parameter the city cut at its first \<^verbatim>\<open>#\<close> and
  then at its first \<^verbatim>\<open>&\<close>, form-decoded: \<^verbatim>\<open>"Bosnia & Herzegovina"\<close> is searched
  as \<^verbatim>\<open>"Bosnia "\<close>, and a \<^verbatim>\<open>+\<close> in a name turns into a space.
\<close>

theorem accu_loc_url_query:
  assumes "CHR ''&'' \<notin> set (fmt_opt key)" "CHR ''#'' \<notin> set (fmt_opt key)"
  shows "query_param (accu_loc_url key city) ''q'' =
           Some (form_decode (takeWhile (\<lambda>c. c \<noteq> CHR ''&'') (takeWhile (\<lambda>c. c \<noteq> CHR ''#'') city)))"
proof -
  let ?c = "takeWhile (\<lambda>c. c \<noteq> CHR ''#'') city"
  have "\<forall>x \<in> set (fmt_opt key). x \<noteq> CHR ''#''" using assms(2) by auto
  then have q: "url_query (accu_loc_url key city) = (''apikey='' @ fmt_opt key) @ CHR ''&'' # (''q='' @ ?c)"
    by (simp add: url_query_def accu_loc_url_def takeWhile_append2)
  obtain ps where ps: "split_on (CHR ''&'') (''q='' @ ?c) = (''q='' @ takeWhile (\<lambda>x. x \<noteq> CHR ''&'') ?c) # ps"
    using split_on_head[of "CHR ''&''" "''q='' @ ?c"] by auto
  have amp: "CHR ''&'' \<notin> set (''apikey='' @ fmt_opt key)" using assms(1) by simp
  have "split_on (CHR ''&'') (url_query (accu_loc_url key city)) =
      (''apikey='' @ fmt_opt key) # (''q='' @ takeWhile (\<lambda>x. x \<noteq> CHR ''&'') ?c) # ps"
    unfolding q split_on_no_sep[OF amp] ps by simp
  then show ?thesis
    by (simp add: query_param_def query_pairs_def form_decode_def)
qed

theorem accu_loc_url_query_witness:
  "query_param (accu_loc_url (Some ''acc-key'') ''Bosnia & Herzegovina'') ''q'' = Some ''Bosnia ''"
  using accu_loc_url_query[of "Some ''acc-key''" "''Bosnia & Herzegovina''"]
  by (simp add: fmt_opt_def form_decode_def)

text \<open>
  C28. The adapter's outbound calls: the location search for the city, and then the
  forecast request for the first location's key exactly when the search answered, its
  JSON is truthy and \<^verbatim>\<open>[0]["Key"]\<close> could be read; both with the configured key.
\<close>

theorem get_weather_calls:
  "calls (snd (get_weather w c)) =
     HttpGet (accu_loc_url (w_env w ''ACCUWEATHER_API_KEY'') c) [] #
     (case sbind (w_get w (accu_loc_url (w_env w ''ACCUWEATHER_API_KEY'') c) []) resp_json of
        Inr loc \<Rightarrow>
          if py_truthy loc then
            (case py_path loc [I 0, K ''Key''] of
               Inr lk \<Rightarrow> [HttpGet (accu_forecast_url lk (w_env w ''ACCUWEATHER_API_KEY'')) []]
             | Inl _ \<Rightarrow> [])
          else []
      | Inl _ \<Rightarrow> [])"
  by (auto simp: get_weather_def http_get_def py_bind_effects py_try_effects Let_def sbind_def
      split: sum.split)

theorem get_weather_calls_witness:
  "calls (snd (get_weather demo_world ''Atlantis'')) =
     [HttpGet ''http://dataservice.accuweather.com/locations/v1/cities/search?apikey=acc-key&q=Atlantis'' []]"
  using get_weather_calls[of demo_world "''Atlantis''"]
  by (simp add: demo_defs weather_defs fmt_opt_def resp_json_def sbind_def)

text \<open>Every call the weather adapter makes goes to a service.\<close>

lemma get_weather_services: "list_all service_call (calls (snd (get_weather w c)))"
  by (auto simp: get_weather_def http_get_def py_bind_effects py_try_effects Let_def split: sum.split)

end
