(* ===== verification/Narrative.thy ===== *)
theory Narrative
  imports World
begin

text \<open>
  The AI generator adapter \<^verbatim>\<open>get_ai_response\<close> (\<^verbatim>\<open>src/app.py\<close> lines 42--53): one
  chat completion with a fixed system message and the prompt as user message, on the
  deployment named by \<^verbatim>\<open>AZURE_DEPLOYMENT_ID\<close>; the result is the content of the first
  choice, and any exception becomes \<^verbatim>\<open>"Error fetching AI response: ..."\<close>.
\<close>

definition ai_system_prompt :: string where
  "ai_system_prompt = ''You are an AI travel planning assistant.''"

definition ai_messages :: "string \<Rightarrow> (string \<times> string) list" where
  "ai_messages message = [(''system'', ai_system_prompt), (''user'', message)]"

definition get_ai_response :: "world \<Rightarrow> string \<Rightarrow> pyval act" where
  "get_ai_response w message =
     py_try
       (py_bind (ai_chat w (w_env w ''AZURE_DEPLOYMENT_ID'') (ai_messages message)) (\<lambda>choices.
        py_lift (py_index (PList choices) 0)))
       (\<lambda>e. py_return (PStr (''Error fetching AI response: '' @ exc_str e)))"

text \<open>What the adapter answers for a given answer of the service.\<close>

definition narrative_of :: "py_exc + pyval list \<Rightarrow> pyval" where
  "narrative_of r =
     (case r of Inl e \<Rightarrow> PStr (''Error fetching AI response: '' @ exc_str e)
      | Inr [] \<Rightarrow> PStr ''Error fetching AI response: list index out of range''
      | Inr (c # _) \<Rightarrow> c)"

section \<open>Properties of the narrative adapter\<close>

lemma get_ai_response_value:
  "fst (get_ai_response w m) = Inr (narrative_of (w_ai w (w_env w ''AZURE_DEPLOYMENT_ID'') (ai_messages m)))"
  by (simp add: get_ai_response_def ai_chat_def narrative_of_def py_norm_index_def
      split: sum.split list.split)

lemma get_ai_response_effects:
  "snd (get_ai_response w m) = [Call (AiChat (w_env w ''AZURE_DEPLOYMENT_ID'') (ai_messages m))]"
  by (simp add: get_ai_response_def ai_chat_def py_try_effects py_bind_effects py_norm_index_def
      split: sum.split list.split)

lemma get_ai_response_ok: "py_ok (get_ai_response w m)"
  by (cases "get_ai_response w m") (metis get_ai_response_value fst_conv py_ok_iff)

text \<open>
  C18. The adapter never raises and makes exactly one outbound call, the chat completion
  with the system message and the prompt, writing nothing on the page. Its narrative is
  the first choice's content as it is (so a choice whose content is \<^verbatim>\<open>None\<close> gives the
  narrative \<^verbatim>\<open>None\<close>), or the error text for a failed call or an answer without choices.
\<close>

theorem get_ai_response_spec:
  "get_ai_response w m =
     (Inr (narrative_of (w_ai w (w_env w ''AZURE_DEPLOYMENT_ID'') (ai_messages m))),
      [Call (AiChat (w_env w ''AZURE_DEPLOYMENT_ID'') (ai_messages m))])"
  using get_ai_response_effects[of w m] get_ai_response_value[of w m]
  by (cases "get_ai_response w m") simp

end
