(* ===== verification/Calendar.thy ===== *)
theory Calendar
  imports World "HOL-Library.Product_Lexorder"
begin

text \<open>
  Dates and the calendar adapter \<^verbatim>\<open>add_event_to_calendar\<close> (\<^verbatim>\<open>src/app.py\<close> lines
  145--171). Python's \<^verbatim>\<open>datetime\<close> is a subclass of \<^verbatim>\<open>date\<close>, so the test
  \<^verbatim>\<open>isinstance(x, date)\<close> holds for both, and \<^verbatim>\<open>datetime.combine(x,
  datetime.min.time())\<close> keeps only the date part: both ends of the event become
  midnight. The event is inserted into the primary calendar with the time zone
  \<^verbatim>\<open>Asia/Kolkata\<close>; the result is its \<^verbatim>\<open>htmlLink\<close>, \<^verbatim>\<open>"No link"\<close>, or
  \<^verbatim>\<open>"Calendar error: ..."\<close> followed by the traceback.
\<close>

datatype date = Date (d_year: nat) (d_month: nat) (d_day: nat)

text \<open>Dates are ordered as Python orders them: by year, then month, then day.\<close>

definition date_key :: "date \<Rightarrow> nat \<times> nat \<times> nat" where
  "date_key d = (d_year d, d_month d, d_day d)"

instantiation date :: linorder
begin

definition less_eq_date :: "date \<Rightarrow> date \<Rightarrow> bool" where
  "less_eq_date a b \<longleftrightarrow> date_key a \<le> date_key b"

definition less_date :: "date \<Rightarrow> date \<Rightarrow> bool" where
  "less_date a b \<longleftrightarrow> date_key a < date_key b"

instance
proof
  fix a b c :: date
  show "a < b \<longleftrightarrow> a \<le> b \<and> \<not> b \<le> a"
    by (auto simp: less_eq_date_def less_date_def)
  show "a \<le> a" by (simp add: less_eq_date_def)
  show "a \<le> b \<Longrightarrow> b \<le> c \<Longrightarrow> a \<le> c"
    by (auto simp: less_eq_date_def)
  show "a \<le> b \<Longrightarrow> b \<le> a \<Longrightarrow> a = b"
    by (cases a; cases b) (auto simp: less_eq_date_def date_key_def)
  show "a \<le> b \<or> b \<le> a"
    by (auto simp: less_eq_date_def)
qed

end

record datetime =
  dt_date :: date
  dt_hour :: nat
  dt_minute :: nat
  dt_second :: nat
  dt_microsecond :: nat

text \<open>A value the adapter accepts: a \<^verbatim>\<open>date\<close> or a \<^verbatim>\<open>datetime\<close>.\<close>

datatype moment = MDate date | MDateTime datetime

text \<open>\<^verbatim>\<open>date.isoformat()\<close>, which is also \<^verbatim>\<open>str(date)\<close>, and \<^verbatim>\<open>datetime.isoformat()\<close>.\<close>

definition date_iso :: "date \<Rightarrow> string" where
  "date_iso d = zpad 4 (d_year d) @ ''-'' @ zpad 2 (d_month d) @ ''-'' @ zpad 2 (d_day d)"

definition datetime_iso :: "datetime \<Rightarrow> string" where
  "datetime_iso t =
     date_iso (dt_date t) @ ''T'' @ zpad 2 (dt_hour t) @ '':'' @ zpad 2 (dt_minute t) @ '':''
     @ zpad 2 (dt_second t) @ (if dt_microsecond t = 0 then [] else ''.'' @ zpad 6 (dt_microsecond t))"

definition midnight :: "date \<Rightarrow> datetime" where
  "midnight d = \<lparr>dt_date = d, dt_hour = 0, dt_minute = 0, dt_second = 0, dt_microsecond = 0\<rparr>"

text \<open>Lines 147--150: \<^verbatim>\<open>if isinstance(x, date): x = datetime.combine(x, datetime.min.time())\<close>.\<close>

definition start_of_day :: "moment \<Rightarrow> datetime" where
  "start_of_day x = (case x of MDate d \<Rightarrow> midnight d | MDateTime t \<Rightarrow> midnight (dt_date t))"

definition cal_time_zone :: string where
  "cal_time_zone = ''Asia/Kolkata''"

definition calendar_creds :: "world \<Rightarrow> cal_creds" where
  "calendar_creds w =
     \<lparr>c_refresh_token = w_env w ''GOOGLE_REFRESH_TOKEN'',
      c_token_uri = ''https://oauth2.googleapis.com/token'',
      c_client_id = w_env w ''GOOGLE_CLIENT_ID'',
      c_client_secret = w_env w ''GOOGLE_CLIENT_SECRET''\<rparr>"

definition event_body :: "string \<Rightarrow> datetime \<Rightarrow> datetime \<Rightarrow> pyval" where
  "event_body summary s e =
     PDict [(''summary'', PStr summary),
            (''start'', PDict [(''dateTime'', PStr (datetime_iso s)), (''timeZone'', PStr cal_time_zone)]),
            (''end'', PDict [(''dateTime'', PStr (datetime_iso e)), (''timeZone'', PStr cal_time_zone)])]"

definition add_event_to_calendar :: "world \<Rightarrow> string \<Rightarrow> moment \<Rightarrow> moment \<Rightarrow> pyval act" where
  "add_event_to_calendar w summary start finish =
     py_try
       (let s = start_of_day start; e = start_of_day finish in
        py_bind (calendar_insert w (calendar_creds w) ''primary'' (event_body summary s e)) (\<lambda>created.
        py_lift (py_get created ''htmlLink'' (PStr ''No link''))))
       (\<lambda>x. py_return (PStr (''Calendar error: '' @ exc_str x @ [CHR 0x0A] @ w_traceback w x)))"

text \<open>What the adapter stores for a given answer of the calendar service.\<close>

definition calendar_outcome :: "world \<Rightarrow> py_exc + pyval \<Rightarrow> pyval" where
  "calendar_outcome w r =
     (case sbind r (\<lambda>created. py_get created ''htmlLink'' (PStr ''No link'')) of
        Inr v \<Rightarrow> v
      | Inl x \<Rightarrow> PStr (''Calendar error: '' @ exc_str x @ [CHR 0x0A] @ w_traceback w x))"

section \<open>Properties of the calendar adapter\<close>

lemma add_event_to_calendar_value:
  "fst (add_event_to_calendar w summary a b) =
     Inr (calendar_outcome w (w_calendar w (calendar_creds w) ''primary''
                                (event_body summary (start_of_day a) (start_of_day b))))"
  by (cases "w_calendar w (calendar_creds w) ''primary'' (event_body summary (start_of_day a) (start_of_day b))")
     (simp_all add: add_event_to_calendar_def calendar_insert_def calendar_outcome_def Let_def
      split: sum.split)

lemma add_event_to_calendar_effects:
  "snd (add_event_to_calendar w summary a b) =
     [Call (CalendarInsert (calendar_creds w) ''primary'' (event_body summary (start_of_day a) (start_of_day b)))]"
  by (simp add: add_event_to_calendar_def calendar_insert_def py_try_effects py_bind_effects Let_def
      split: sum.split)

lemma add_event_to_calendar_ok: "py_ok (add_event_to_calendar w summary a b)"
  by (cases "add_event_to_calendar w summary a b") (metis add_event_to_calendar_value fst_conv py_ok_iff)

text \<open>
  C19. The adapter never raises and makes exactly one call, inserting into the primary
  calendar an event from the start of the first day to the start of the second, with the
  credentials read from the environment. It stores the event's link, \<^verbatim>\<open>"No link"\<close>
  when the created event has none, or the error text with the traceback.
\<close>

theorem add_event_to_calendar_spec:
  "add_event_to_calendar w summary a b =
     (Inr (calendar_outcome w (w_calendar w (calendar_creds w) ''primary''
                                 (event_body summary (start_of_day a) (start_of_day b)))),
      [Call (CalendarInsert (calendar_creds w) ''primary''
               (event_body summary (start_of_day a) (start_of_day b)))])"
  using add_event_to_calendar_effects[of w summary a b] add_event_to_calendar_value[of w summary a b]
  by (cases "add_event_to_calendar w summary a b") simp

text \<open>
  C31. For a trip given by two dates the event starts at midnight of the first date and
  ends at midnight of the second, both in \<^verbatim>\<open>Asia/Kolkata\<close>: the last day of the trip
  lies outside the event, and a one-day trip gives an event of length zero.
\<close>

theorem calendar_event_dates:
  "event_body summary (start_of_day (MDate d1)) (start_of_day (MDate d2)) =
     PDict [(''summary'', PStr summary),
            (''start'', PDict [(''dateTime'', PStr (date_iso d1 @ ''T00:00:00'')), (''timeZone'', PStr ''Asia/Kolkata'')]),
            (''end'', PDict [(''dateTime'', PStr (date_iso d2 @ ''T00:00:00'')), (''timeZone'', PStr ''Asia/Kolkata'')])]"
  by (simp add: event_body_def start_of_day_def midnight_def datetime_iso_def zpad_def digits_of.simps
      cal_time_zone_def)

text \<open>
  C32. A \<^verbatim>\<open>datetime\<close> argument loses its time of day: the adapter called with two
  datetimes makes the same call and returns the same result as with their dates alone.
\<close>

theorem add_event_datetime_truncated:
  "add_event_to_calendar w summary (MDateTime t) (MDateTime u) =
   add_event_to_calendar w summary (MDate (dt_date t)) (MDate (dt_date u))"
  by (simp add: add_event_to_calendar_def start_of_day_def)

end
