(* ===== verification/Request.thy ===== *)
theory Request
  imports Calendar
begin

text \<open>
  The request side of the script (\<^verbatim>\<open>src/app.py\<close> lines 182--233): the values the
  form widgets return on a run (\<open>form\<close>), the check that both cities are given (line
  210), the prompt sent to the chat model (lines 219--229), the destination slug used in
  the booking links (line 233) and the calendar summary (line 246).
  \<^verbatim>\<open>st.date_input\<close> with a list value returns a tuple of the dates selected so far:
  two once a range is chosen, one while the second date is being picked, none after
  clearing.
\<close>

record form =
  f_source :: string
  f_destination :: string
  f_dates :: "date list"
  f_budget :: int
  f_preferences :: "string list"
  f_accommodation :: string
  f_transportation :: "string list"
  f_dietary :: "string list"

definition preference_options :: "string list" where
  "preference_options =
     [''Adventure'', ''Relaxation'', ''Sightseeing'', ''Cultural Experiences'', ''Beach'', ''Mountain'',
      ''Luxury'', ''Budget-Friendly'', ''Food & Dining'', ''Shopping'', ''Nightlife'', ''Family-Friendly'']"

definition accommodation_options :: "string list" where
  "accommodation_options = [''Any'', ''Hotel'', ''Hostel'', ''Apartment'', ''Resort'']"

definition transportation_options :: "string list" where
  "transportation_options = [''Train'', ''Bus'', ''Flight'', ''Rental Car'']"

definition dietary_options :: "string list" where
  "dietary_options = [''None'', ''Vegetarian'', ''Vegan'', ''Gluten-Free'', ''Halal'', ''Kosher'']"

text \<open>
  What the widgets can return on a day \<open>today\<close> (lines 185--206): a budget in
  \<open>[0, 100000]\<close>, selections from the option lists without repetition, and at most two
  dates, none before today, in order.
\<close>

definition widget_ok :: "date \<Rightarrow> form \<Rightarrow> bool" where
  "widget_ok today f \<longleftrightarrow>
     0 \<le> f_budget f \<and> f_budget f \<le> 100000 \<and>
     distinct (f_preferences f) \<and> set (f_preferences f) \<subseteq> set preference_options \<and>
     f_accommodation f \<in> set accommodation_options \<and>
     distinct (f_transportation f) \<and> set (f_transportation f) \<subseteq> set transportation_options \<and>
     distinct (f_dietary f) \<and> set (f_dietary f) \<subseteq> set dietary_options \<and>
     length (f_dates f) \<le> 2 \<and> list_all (\<lambda>d. today \<le> d) (f_dates f) \<and> sorted (f_dates f)"

text \<open>The widgets' values before any input (defaults of lines 185--206).\<close>

definition initial_form :: "date \<Rightarrow> form" where
  "initial_form today =
     \<lparr>f_source = [], f_destination = [], f_dates = [today, today], f_budget = 0, f_preferences = [],
      f_accommodation = ''Any'', f_transportation = [], f_dietary = []\<rparr>"

text \<open>Line 210: \<^verbatim>\<open>if not source or not destination\<close>.\<close>

definition missing_city :: "form \<Rightarrow> bool" where
  "missing_city f \<longleftrightarrow> f_source f = [] \<or> f_destination f = []"

text \<open>Subscript of the dates tuple.\<close>

definition tuple_at :: "'a list \<Rightarrow> nat \<Rightarrow> py_exc + 'a" where
  "tuple_at xs i = (if i < length xs then Inr (xs ! i) else Inl (IndexError ''tuple index out of range''))"

definition nl :: string where
  "nl = [CHR 0x0A]"

definition prompt_line :: "string \<Rightarrow> string" where
  "prompt_line s = replicate 20 (CHR '' '') @ s @ nl"

text \<open>
  The f-string of lines 219--229, fields evaluated left to right: the subscripts of the
  dates tuple are the only parts that can raise.
\<close>

definition trip_prompt :: "form \<Rightarrow> py_exc + string" where
  "trip_prompt f =
     sbind (tuple_at (f_dates f) 0) (\<lambda>d0.
     sbind (tuple_at (f_dates f) 1) (\<lambda>d1.
     Inr (nl
       @ prompt_line ''Plan a trip with the following details:''
       @ prompt_line (''- From: '' @ f_source f)
       @ prompt_line (''- To: '' @ f_destination f)
       @ prompt_line (''- Dates: '' @ date_iso d0 @ '' to '' @ date_iso d1)
       @ prompt_line (''- Budget in USD: $'' @ py_str_int (f_budget f))
       @ prompt_line (''- Preferences: '' @ py_join '', '' (f_preferences f))
       @ prompt_line (''- Accommodation: '' @ f_accommodation f)
       @ prompt_line (''- Transportation: '' @ py_join '', '' (f_transportation f))
       @ prompt_line (''- Dietary Restrictions: '' @ py_join '', '' (f_dietary f))
       @ replicate 20 (CHR '' ''))))"

text \<open>Line 233: \<^verbatim>\<open>destination.lower().replace(" ", "-")\<close>.\<close>

definition destination_slug :: "string \<Rightarrow> string" where
  "destination_slug d = py_replace_char (CHR '' '') (CHR ''-'') (py_lower d)"

text \<open>Line 246: \<^verbatim>\<open>f"Trip to {destination}"\<close>.\<close>

definition trip_summary :: "string \<Rightarrow> string" where
  "trip_summary d = ''Trip to '' @ d"

definition is_ascii_upper :: "char \<Rightarrow> bool" where
  "is_ascii_upper c \<longleftrightarrow> 65 \<le> (of_char c :: nat) \<and> of_char c \<le> (90::nat)"

section \<open>Properties of the request\<close>


lemma trip_prompt_Inr_dates: "trip_prompt f = Inr m \<Longrightarrow> 2 \<le> length (f_dates f)"
  by (auto simp: trip_prompt_def tuple_at_def split: if_splits)

lemma py_lower_char_not_upper: "\<not> is_ascii_upper (py_lower_char c)"
  by (cases c) (simp add: py_lower_char_def is_ascii_upper_def)

lemma py_lower_char_space [simp]:
  "py_lower_char c = CHR '' '' \<longleftrightarrow> c = CHR '' ''" "CHR '' '' = py_lower_char c \<longleftrightarrow> c = CHR '' ''"
  by (cases c; auto simp: py_lower_char_def)+

lemma trip_prompt_short:
  "length (f_dates f) < 2 \<Longrightarrow> trip_prompt f = Inl (IndexError ''tuple index out of range'')"
  by (cases "f_dates f") (auto simp: trip_prompt_def tuple_at_def)

lemma trip_prompt_dates: "f_dates f = d0 # d1 # ds \<Longrightarrow> \<exists>m. trip_prompt f = Inr m"
  by (simp add: trip_prompt_def tuple_at_def)

text \<open>
  C33. The prompt exists exactly when the dates tuple has two dates; with fewer the
  f-string raises \<^verbatim>\<open>IndexError("tuple index out of range")\<close>.
\<close>

theorem trip_prompt_defined:
  "(\<exists>m. trip_prompt f = Inr m) \<longleftrightarrow> 2 \<le> length (f_dates f)"
proof
  assume "\<exists>m. trip_prompt f = Inr m"
  then show "2 \<le> length (f_dates f)" by (auto dest: trip_prompt_Inr_dates)
next
  assume "2 \<le> length (f_dates f)"
  then have "0 < length (f_dates f)" "1 < length (f_dates f)" by arith+
  then show "\<exists>m. trip_prompt f = Inr m"
    by (simp add: trip_prompt_def tuple_at_def del: length_greater_0_conv)
qed

text \<open>
  C34. For a destination written in ASCII, where the model's \<^verbatim>\<open>lower()\<close> is
  Python's, the slug has no spaces and no upper-case letters, has the length of the
  destination, and keeps every character that is neither a space nor an upper-case
  letter. (Python lowers non-ASCII letters too, and the dotted capital I
  becomes two code points; the model keeps non-ASCII bytes, so the claim is stated for
  ASCII names only.)
\<close>

theorem destination_slug_props:
  assumes "list_all (\<lambda>c. of_char c < (128::nat)) d"
  shows "CHR '' '' \<notin> set (destination_slug d) \<and> (\<forall>c \<in> set (destination_slug d). \<not> is_ascii_upper c)
   \<and> length (destination_slug d) = length d
   \<and> (\<forall>i < length d. d ! i \<noteq> CHR '' '' \<and> \<not> is_ascii_upper (d ! i) \<longrightarrow> destination_slug d ! i = d ! i)"
proof (intro conjI)
  show "CHR '' '' \<notin> set (destination_slug d)"
    by (auto simp: destination_slug_def py_replace_char_def py_lower_def)
  show "\<forall>c \<in> set (destination_slug d). \<not> is_ascii_upper c"
    by (auto simp: destination_slug_def py_replace_char_def py_lower_def py_lower_char_not_upper)
       (simp add: is_ascii_upper_def)
  show "length (destination_slug d) = length d"
    by (simp add: destination_slug_def py_replace_char_def py_lower_def)
  show "\<forall>i < length d. d ! i \<noteq> CHR '' '' \<and> \<not> is_ascii_upper (d ! i) \<longrightarrow> destination_slug d ! i = d ! i"
    by (auto simp: destination_slug_def py_replace_char_def py_lower_def py_lower_char_def is_ascii_upper_def)
qed

theorem destination_slug_props_witness:
  "destination_slug ''New York'' = ''new-york'' \<and>
   CHR '' '' \<notin> set (destination_slug ''New York'') \<and>
   list_all (\<lambda>c. \<not> is_ascii_upper c) (destination_slug ''New York'')"
  using destination_slug_props[of "''New York''"]
  by (simp add: destination_slug_def py_replace_char_def py_lower_def py_lower_char_def)

end
