(* ===== verification/Interrupt.thy ===== *)
theory Interrupt
  imports World
begin

text \<open>
  Streamlit stops a run when the user interacts with the page while the script is still
  running: at the next \<^verbatim>\<open>st.*\<close> call the script thread raises
  \<^verbatim>\<open>RerunException\<close> (or \<^verbatim>\<open>StopException\<close>) before that element is sent. Both
  derive from \<^verbatim>\<open>BaseException\<close>, so no \<^verbatim>\<open>except Exception\<close> of the script
  catches them: the run ends there, and \<^verbatim>\<open>st.session_state\<close> keeps what the run wrote
  before it.

  A statement run with an interruption budget is an \<open>('s, 'a) itm\<close>: the budget
  \<open>Some k\<close> interrupts the run at its UI element number \<open>k\<close> (counted from 0), the
  budget \<open>None\<close> lets it complete. A result \<open>None\<close> is an interrupted statement,
  \<open>Some r\<close> one that returned or raised. The combinators are those of the
  \<open>stm\<close> statements of the prelude; \<open>it_try\<close> does not catch the interruption.
\<close>

fun ui_count :: "effect list \<Rightarrow> nat" where
  "ui_count [] = 0"
| "ui_count (Call _ # es) = ui_count es"
| "ui_count (Show _ # es) = Suc (ui_count es)"

text \<open>The effects before UI element number \<open>k\<close>, when the list has one.\<close>

fun ui_cut :: "nat \<Rightarrow> effect list \<Rightarrow> effect list option" where
  "ui_cut k [] = None"
| "ui_cut k (Call c # es) = map_option (Cons (Call c)) (ui_cut k es)"
| "ui_cut 0 (Show u # es) = Some []"
| "ui_cut (Suc k) (Show u # es) = map_option (Cons (Show u)) (ui_cut k es)"

definition it_cut :: "nat option \<Rightarrow> effect list \<Rightarrow> effect list option" where
  "it_cut b es = (case b of None \<Rightarrow> None | Some k \<Rightarrow> ui_cut k es)"

text \<open>The budget left after effects that were not interrupted.\<close>

definition it_left :: "nat option \<Rightarrow> effect list \<Rightarrow> nat option" where
  "it_left b es = map_option (\<lambda>k. k - ui_count es) b"

type_synonym ('s, 'a) itm = "nat option \<Rightarrow> 's \<Rightarrow> ((py_exc + 'a) option \<times> 's) \<times> effect list"

definition it_act :: "'a act \<Rightarrow> ('s, 'a) itm" where
  "it_act m b s = (case it_cut b (snd m) of None \<Rightarrow> ((Some (fst m), s), snd m) | Some t \<Rightarrow> ((None, s), t))"

definition it_modify :: "('s \<Rightarrow> 's) \<Rightarrow> ('s, unit) itm" where
  "it_modify g b s = ((Some (Inr ()), g s), [])"

definition it_get :: "('s, 's) itm" where
  "it_get b s = ((Some (Inr s), s), [])"

definition it_bind :: "('s, 'a) itm \<Rightarrow> ('a \<Rightarrow> ('s, 'b) itm) \<Rightarrow> ('s, 'b) itm" where
  "it_bind m f b s =
     (case m b s of
        ((Some (Inr a), s'), t) \<Rightarrow> (case f a (it_left b t) s' of (r, t') \<Rightarrow> (r, t @ t'))
      | ((Some (Inl x), s'), t) \<Rightarrow> ((Some (Inl x), s'), t)
      | ((None, s'), t) \<Rightarrow> ((None, s'), t))"

definition it_try :: "('s, 'a) itm \<Rightarrow> (py_exc \<Rightarrow> ('s, 'a) itm) \<Rightarrow> ('s, 'a) itm" where
  "it_try m h b s =
     (case m b s of
        ((Some (Inl x), s'), t) \<Rightarrow> (case h x (it_left b t) s' of (r, t') \<Rightarrow> (r, t @ t'))
      | ((r, s'), t) \<Rightarrow> ((r, s'), t))"

text \<open>A plain statement's outcome seen as one that was not interrupted.\<close>

definition completed :: "((py_exc + 'a) \<times> 's) \<times> effect list \<Rightarrow> ((py_exc + 'a) option \<times> 's) \<times> effect list" where
  "completed x = (case x of ((r, s), t) \<Rightarrow> ((Some r, s), t))"

section \<open>Lemmas of the interruptible statements\<close>

lemma ui_cut_None_iff: "ui_cut k es = None \<longleftrightarrow> ui_count es \<le> k"
  by (induction k es rule: ui_cut.induct) auto

lemma it_cut_None [simp]: "it_cut None es = None"
  by (simp add: it_cut_def)

lemma it_left_None [simp]: "it_left None es = None"
  by (simp add: it_left_def)

lemma it_left_Nil [simp]: "it_left b [] = b"
  by (cases b) (simp_all add: it_left_def)

lemma it_cut_no_ui: "ui_count es = 0 \<Longrightarrow> it_cut b es = None"
  by (cases b) (simp_all add: it_cut_def ui_cut_None_iff)

lemma it_cut_Nil [simp]: "it_cut b [] = None"
  by (simp add: it_cut_no_ui)

lemma it_cut_Some:
  assumes "it_cut b es = Some t"
  shows "ui_count es \<noteq> 0"
proof -
  obtain k where "ui_cut k es = Some t" using assms by (cases b) (simp_all add: it_cut_def)
  then have "\<not> ui_count es \<le> k" using ui_cut_None_iff[of k es] by simp
  then show ?thesis by simp
qed

lemma it_left_no_ui: "ui_count es = 0 \<Longrightarrow> it_left b es = b"
  by (cases b) (simp_all add: it_left_def)

lemma ui_count_append [simp]: "ui_count (xs @ ys) = ui_count xs + ui_count ys"
  by (induction xs rule: ui_count.induct) auto

lemma it_bind_act [simp]:
  "it_bind (it_act m) f b s =
     (case it_cut b (snd m) of
        Some t \<Rightarrow> ((None, s), t)
      | None \<Rightarrow> (case fst m of
                   Inl x \<Rightarrow> ((Some (Inl x), s), snd m)
                 | Inr a \<Rightarrow> (fst (f a (it_left b (snd m)) s), snd m @ snd (f a (it_left b (snd m)) s))))"
  by (simp add: it_bind_def it_act_def split: option.split sum.split prod.split)

lemma it_bind_modify [simp]: "it_bind (it_modify g) f b s = f () b (g s)"
  by (simp add: it_bind_def it_modify_def split: prod.split)

lemma it_bind_get [simp]: "it_bind it_get f b s = f s b s"
  by (simp add: it_bind_def it_get_def split: prod.split)

lemma it_act_apply [simp]:
  "it_act m b s = (case it_cut b (snd m) of None \<Rightarrow> ((Some (fst m), s), snd m) | Some t \<Rightarrow> ((None, s), t))"
  by (simp add: it_act_def)

lemma it_modify_apply [simp]: "it_modify g b s = ((Some (Inr ()), g s), [])"
  by (simp add: it_modify_def)

lemma it_try_apply:
  "it_try m h b s =
     (case m b s of
        ((Some (Inl x), s'), t) \<Rightarrow> (fst (h x (it_left b t) s'), t @ snd (h x (it_left b t) s'))
      | ((r, s'), t) \<Rightarrow> ((r, s'), t))"
  by (simp add: it_try_def split: prod.split option.split sum.split)

lemma completed_simps [simp]: "completed ((r, s), t) = ((Some r, s), t)"
  by (simp add: completed_def)


text \<open>
  With the budget \<open>None\<close> every combinator is the plain one: the interruptible copy of
  a statement built from them, run without interruption, is the plain statement.
\<close>

lemma sim_act: "it_act m None = completed \<circ> st_act m"
  by (rule ext) simp

lemma sim_modify: "it_modify g None = completed \<circ> st_modify g"
  by (rule ext) simp

lemma sim_get: "it_get None = completed \<circ> st_get"
  by (rule ext) (simp add: it_get_def st_get_def)

lemma sim_bind:
  assumes "m None = completed \<circ> m'" "\<And>a. f a None = completed \<circ> f' a"
  shows "it_bind m f None = completed \<circ> st_bind m' f'"
proof (rule ext)
  fix s
  show "it_bind m f None s = (completed \<circ> st_bind m' f') s"
    using fun_cong[OF assms(1), of s] fun_cong[OF assms(2)]
    by (cases "m' s") (auto simp: it_bind_def st_bind_def completed_def split: sum.split prod.split)
qed

lemma sim_try:
  assumes "m None = completed \<circ> m'" "\<And>x. h x None = completed \<circ> h' x"
  shows "it_try m h None = completed \<circ> st_try m' h'"
proof (rule ext)
  fix s
  show "it_try m h None s = (completed \<circ> st_try m' h') s"
    using fun_cong[OF assms(1), of s] fun_cong[OF assms(2)]
    by (cases "m' s") (auto simp: it_try_def st_try_def completed_def split: sum.split prod.split)
qed

lemma sim_case_prod:
  "(\<And>x y. f x y None = completed \<circ> g x y) \<Longrightarrow> case_prod f p None = completed \<circ> case_prod g p"
  by (cases p) simp

lemma sim_if:
  "(P \<Longrightarrow> x None = completed \<circ> x') \<Longrightarrow> (\<not> P \<Longrightarrow> y None = completed \<circ> y') \<Longrightarrow>
   (if P then x else y) None = completed \<circ> (if P then x' else y')"
  by simp

lemmas sim_rules = sim_try sim_bind sim_act sim_modify sim_get sim_case_prod sim_if

end
