(* ===== verification/Orchestrator.thy ===== *)
theory Orchestrator
  imports Route Weather Narrative Request Interrupt
begin

text \<open>
  The planning block of \<^verbatim>\<open>src/app.py\<close> (lines 218--251): inside one \<^verbatim>\<open>try\<close> it
  builds the prompt, asks the chat model, stores the narrative and the destination slug,
  runs the route adapter and stores its four values, runs the weather adapter and the
  calendar adapter and stores their results, all in the dictionary
  \<^verbatim>\<open>st.session_state.trip_data\<close>; an exception shows \<^verbatim>\<open>"An error occurred: ..."\<close>
  and the traceback, and leaves the dictionary as far as it was filled.

  The block is a statement on the dictionary (\<open>plan_block\<close>). Its abstract counterpart is
  the spec's \<open>TripPlan\<close> (\<open>trip_plan\<close>): narrative, slug, optional route, weather and
  calendar outcome, each the answer of its own adapter; \<open>plan_of_dict\<close> reads a
  \<open>trip_plan\<close> back from a dictionary, and the refinement theorem says that the block
  builds exactly the dictionary of the abstract plan.
\<close>

definition plan_block :: "world \<Rightarrow> form \<Rightarrow> (pydict, effect, unit) stm" where
  "plan_block w f =
     st_try
       (st_bind (st_act (py_lift (trip_prompt f))) (\<lambda>message.
        st_bind (st_act (get_ai_response w message)) (\<lambda>resp.
        st_bind (st_modify (\<lambda>d. dict_set d ''response'' resp)) (\<lambda>_.
        st_bind (st_modify (\<lambda>d. dict_set d ''destination_slug'' (PStr (destination_slug (f_destination f))))) (\<lambda>_.
        st_bind (st_act (get_distance_km w (f_source f) (f_destination f))) (\<lambda>(km, cs, ce, rc).
        st_bind (st_modify (\<lambda>d. dict_update d [(''distance_km'', km), (''coord_start'', cs),
                                                (''coord_end'', ce), (''route_coords'', rc)])) (\<lambda>_.
        st_bind (st_act (get_weather w (f_destination f))) (\<lambda>fc.
        st_bind (st_modify (\<lambda>d. dict_set d ''forecast'' fc)) (\<lambda>_.
        st_bind (st_act (py_lift (tuple_at (f_dates f) 0))) (\<lambda>d0.
        st_bind (st_act (py_lift (tuple_at (f_dates f) 1))) (\<lambda>d1.
        st_bind (st_act (add_event_to_calendar w (trip_summary (f_destination f)) (MDate d0) (MDate d1))) (\<lambda>link.
        st_modify (\<lambda>d. dict_set d ''calendar_link'' link)))))))))))))
       (\<lambda>e. st_bind (st_act (py_emit (Show (UiError (''An error occurred: '' @ exc_str e))))) (\<lambda>_.
            st_act (py_emit (Show (UiText (w_traceback w e))))))"

text \<open>
  The same block when the run may be interrupted (theory \<open>Interrupt\<close>): an interruption
  at one of its UI elements ends it and leaves the dictionary as far as it was filled.
\<close>

definition plan_block_i :: "world \<Rightarrow> form \<Rightarrow> (pydict, unit) itm" where
  "plan_block_i w f =
     it_try
       (it_bind (it_act (py_lift (trip_prompt f))) (\<lambda>message.
        it_bind (it_act (get_ai_response w message)) (\<lambda>resp.
        it_bind (it_modify (\<lambda>d. dict_set d ''response'' resp)) (\<lambda>_.
        it_bind (it_modify (\<lambda>d. dict_set d ''destination_slug'' (PStr (destination_slug (f_destination f))))) (\<lambda>_.
        it_bind (it_act (get_distance_km w (f_source f) (f_destination f))) (\<lambda>(km, cs, ce, rc).
        it_bind (it_modify (\<lambda>d. dict_update d [(''distance_km'', km), (''coord_start'', cs),
                                                (''coord_end'', ce), (''route_coords'', rc)])) (\<lambda>_.
        it_bind (it_act (get_weather w (f_destination f))) (\<lambda>fc.
        it_bind (it_modify (\<lambda>d. dict_set d ''forecast'' fc)) (\<lambda>_.
        it_bind (it_act (py_lift (tuple_at (f_dates f) 0))) (\<lambda>d0.
        it_bind (it_act (py_lift (tuple_at (f_dates f) 1))) (\<lambda>d1.
        it_bind (it_act (add_event_to_calendar w (trip_summary (f_destination f)) (MDate d0) (MDate d1))) (\<lambda>link.
        it_modify (\<lambda>d. dict_set d ''calendar_link'' link)))))))))))))
       (\<lambda>e. it_bind (it_act (py_emit (Show (UiError (''An error occurred: '' @ exc_str e))))) (\<lambda>_.
            it_act (py_emit (Show (UiText (w_traceback w e))))))"

section \<open>The abstract plan\<close>

record route_result =
  rr_distance_km :: pyval
  rr_start :: pyval
  rr_end :: pyval
  rr_coords :: pyval

record trip_plan =
  tp_narrative :: pyval
  tp_slug :: string
  tp_route :: "route_result option"
  tp_weather :: pyval
  tp_calendar :: pyval

text \<open>The route is absent when the adapter returned its four \<^verbatim>\<open>None\<close>s.\<close>

definition route_of :: "pyval \<times> pyval \<times> pyval \<times> pyval \<Rightarrow> route_result option" where
  "route_of r =
     (case r of (km, cs, ce, rc) \<Rightarrow>
        if km = PNone then None
        else Some \<lparr>rr_distance_km = km, rr_start = cs, rr_end = ce, rr_coords = rc\<rparr>)"

text \<open>
  The spec's \<^verbatim>\<open>plan(request)\<close>: no plan without a prompt; otherwise every section is the
  answer of its own adapter to the request, independently of the others.
\<close>

definition plan_spec :: "world \<Rightarrow> form \<Rightarrow> trip_plan option" where
  "plan_spec w f =
     (case (trip_prompt f, f_dates f) of
        (Inr m, d0 # d1 # _) \<Rightarrow>
          Some \<lparr>tp_narrative = narrative_of (w_ai w (w_env w ''AZURE_DEPLOYMENT_ID'') (ai_messages m)),
                tp_slug = destination_slug (f_destination f),
                tp_route = route_of (projr (fst (get_distance_km w (f_source f) (f_destination f)))),
                tp_weather = projr (fst (get_weather w (f_destination f))),
                tp_calendar = calendar_outcome w (w_calendar w (calendar_creds w) ''primary''
                   (event_body (trip_summary (f_destination f)) (start_of_day (MDate d0)) (start_of_day (MDate d1))))\<rparr>
      | _ \<Rightarrow> None)"

text \<open>Reading a plan back from \<^verbatim>\<open>trip_data\<close>: all eight keys, the slug a string.\<close>

definition plan_of_dict :: "pydict \<Rightarrow> trip_plan option" where
  "plan_of_dict d =
     (case (dict_lookup d ''response'', dict_lookup d ''destination_slug'', dict_lookup d ''distance_km'',
            dict_lookup d ''coord_start'', dict_lookup d ''coord_end'', dict_lookup d ''route_coords'',
            dict_lookup d ''forecast'', dict_lookup d ''calendar_link'') of
        (Some r, Some (PStr sl), Some km, Some cs, Some ce, Some rc, Some fc, Some cl) \<Rightarrow>
          Some \<lparr>tp_narrative = r, tp_slug = sl, tp_route = route_of (km, cs, ce, rc),
                tp_weather = fc, tp_calendar = cl\<rparr>
      | _ \<Rightarrow> None)"

text \<open>The dictionary the block builds from the adapters' answers.\<close>

definition plan_dict :: "pyval \<Rightarrow> string \<Rightarrow> pyval \<times> pyval \<times> pyval \<times> pyval \<Rightarrow> pyval \<Rightarrow> pyval \<Rightarrow> pydict" where
  "plan_dict r sl rt fc cl =
     (case rt of (km, cs, ce, rc) \<Rightarrow>
        [(''response'', r), (''destination_slug'', PStr sl), (''distance_km'', km), (''coord_start'', cs),
         (''coord_end'', ce), (''route_coords'', rc), (''forecast'', fc), (''calendar_link'', cl)])"

definition plan_keys :: "string list" where
  "plan_keys = [''response'', ''destination_slug'', ''distance_km'', ''coord_start'', ''coord_end'',
                ''route_coords'', ''forecast'', ''calendar_link'']"

section \<open>Properties of the planning block\<close>

text \<open>The block run on the empty dictionary when the prompt can be built.\<close>

lemma plan_block_prompt_ok:
  assumes "trip_prompt f = Inr m" and "f_dates f = d0 # d1 # ds"
  shows "plan_block w f [] =
    ((Inr (), plan_dict (projr (fst (get_ai_response w m))) (destination_slug (f_destination f))
                (projr (fst (get_distance_km w (f_source f) (f_destination f))))
                (projr (fst (get_weather w (f_destination f))))
                (projr (fst (add_event_to_calendar w (trip_summary (f_destination f)) (MDate d0) (MDate d1))))),
     snd (get_ai_response w m) @ snd (get_distance_km w (f_source f) (f_destination f))
     @ snd (get_weather w (f_destination f))
     @ snd (add_event_to_calendar w (trip_summary (f_destination f)) (MDate d0) (MDate d1)))"
proof -
  obtain r fc cl a b c e where
    ai: "fst (get_ai_response w m) = Inr r" and
    rt: "fst (get_distance_km w (f_source f) (f_destination f)) = Inr (a, b, c, e)" and
    wt: "fst (get_weather w (f_destination f)) = Inr fc" and
    cal: "fst (add_event_to_calendar w (trip_summary (f_destination f)) (MDate d0) (MDate d1)) = Inr cl"
    using py_ok_projr[OF get_ai_response_ok] py_ok_projr[OF get_distance_km_ok]
      py_ok_projr[OF get_weather_ok] py_ok_projr[OF add_event_to_calendar_ok]
    by (metis prod_cases4)
  show ?thesis
    using assms ai rt wt cal
    by (simp add: plan_block_def st_try_apply tuple_at_def plan_dict_def dict_set_def dict_update_def)
qed

lemma plan_block_prompt_error:
  assumes "trip_prompt f = Inl e"
  shows "plan_block w f [] =
    ((Inr (), []), [Show (UiError (''An error occurred: '' @ exc_str e)), Show (UiText (w_traceback w e))])"
  using assms by (simp add: plan_block_def st_try_apply)

lemma plan_of_plan_dict:
  "plan_of_dict (plan_dict r sl rt fc cl) =
     Some \<lparr>tp_narrative = r, tp_slug = sl, tp_route = route_of rt, tp_weather = fc, tp_calendar = cl\<rparr>"
  by (cases rt) (simp add: plan_of_dict_def plan_dict_def dict_lookup_def)

lemma plan_of_dict_empty: "plan_of_dict [] = None"
  by (simp add: plan_of_dict_def dict_lookup_def)


lemma plan_block_never_raises: "fst (fst (plan_block w f [])) = Inr ()"
proof (cases "trip_prompt f")
  case (Inl e)
  then show ?thesis by (simp add: plan_block_prompt_error)
next
  case (Inr m)
  then obtain d0 d1 ds where "f_dates f = d0 # d1 # ds"
    using trip_prompt_Inr_dates[of f m] by (metis One_nat_def Suc_1 Suc_le_length_iff)
  with Inr show ?thesis by (simp add: plan_block_prompt_ok)
qed


text \<open>
  C5. Refinement: the dictionary the planning block leaves, read as a plan, is the
  abstract plan of the spec, whose sections are each its own adapter's answer. When the
  prompt cannot be built there is no plan and the dictionary stays empty.
\<close>

theorem plan_block_refines:
  "plan_of_dict (snd (fst (plan_block w f []))) = plan_spec w f"
proof (cases "trip_prompt f")
  case (Inl e)
  then show ?thesis
    by (simp add: plan_block_prompt_error plan_of_dict_empty plan_spec_def)
next
  case (Inr m)
  then obtain d0 d1 ds where dates: "f_dates f = d0 # d1 # ds"
    using trip_prompt_Inr_dates[of f m] by (metis One_nat_def Suc_1 Suc_le_length_iff)
  show ?thesis
    using Inr dates
    by (simp add: plan_block_prompt_ok plan_of_plan_dict plan_spec_def get_ai_response_value
        add_event_to_calendar_value)
qed

text \<open>
  C6. Every adapter is invoked exactly once, in the fixed order narrative, route,
  weather, calendar, whatever the earlier ones answered: the block's effects are the
  effects of the four adapter calls, one after the other.
\<close>

theorem plan_block_effects:
  assumes "trip_prompt f = Inr m" and "f_dates f = d0 # d1 # ds"
  shows "snd (plan_block w f d) =
     snd (get_ai_response w m) @ snd (get_distance_km w (f_source f) (f_destination f))
     @ snd (get_weather w (f_destination f))
     @ snd (add_event_to_calendar w (trip_summary (f_destination f)) (MDate d0) (MDate d1))"
proof -
  obtain r fc cl a b c e where
    ai: "fst (get_ai_response w m) = Inr r" and
    rt: "fst (get_distance_km w (f_source f) (f_destination f)) = Inr (a, b, c, e)" and
    wt: "fst (get_weather w (f_destination f)) = Inr fc" and
    cal: "fst (add_event_to_calendar w (trip_summary (f_destination f)) (MDate d0) (MDate d1)) = Inr cl"
    using py_ok_projr[OF get_ai_response_ok] py_ok_projr[OF get_distance_km_ok]
      py_ok_projr[OF get_weather_ok] py_ok_projr[OF add_event_to_calendar_ok]
    by (metis prod_cases4)
  show ?thesis
    using assms ai rt wt cal by (simp add: plan_block_def st_try_apply tuple_at_def)
qed

theorem plan_block_effects_witness:
  "snd (plan_block demo_world
     \<lparr>f_source = ''Delhi'', f_destination = ''Paris'', f_dates = [Date 2025 6 1, Date 2025 6 10],
      f_budget = 2000, f_preferences = [''Sightseeing''], f_accommodation = ''Hotel'',
      f_transportation = [''Flight''], f_dietary = []\<rparr> []) =
   snd (get_ai_response demo_world (projr (trip_prompt
     \<lparr>f_source = ''Delhi'', f_destination = ''Paris'', f_dates = [Date 2025 6 1, Date 2025 6 10],
      f_budget = 2000, f_preferences = [''Sightseeing''], f_accommodation = ''Hotel'',
      f_transportation = [''Flight''], f_dietary = []\<rparr>)))
   @ snd (get_distance_km demo_world ''Delhi'' ''Paris'') @ snd (get_weather demo_world ''Paris'')
   @ snd (add_event_to_calendar demo_world (trip_summary ''Paris'') (MDate (Date 2025 6 1)) (MDate (Date 2025 6 10)))"
  using plan_block_effects[of
     "\<lparr>f_source = ''Delhi'', f_destination = ''Paris'', f_dates = [Date 2025 6 1, Date 2025 6 10],
       f_budget = 2000, f_preferences = [''Sightseeing''], f_accommodation = ''Hotel'',
       f_transportation = [''Flight''], f_dietary = []\<rparr>"
     "projr (trip_prompt
       \<lparr>f_source = ''Delhi'', f_destination = ''Paris'', f_dates = [Date 2025 6 1, Date 2025 6 10],
        f_budget = 2000, f_preferences = [''Sightseeing''], f_accommodation = ''Hotel'',
        f_transportation = [''Flight''], f_dietary = []\<rparr>)"
     "Date 2025 6 1" "Date 2025 6 10" "[]" demo_world "[]"]
  by (simp add: trip_prompt_def tuple_at_def)


text \<open>The planning block only calls services: the PDF export is never reached from it.\<close>

lemma plan_block_services: "list_all service_call (calls (snd (plan_block w f [])))"
proof (cases "trip_prompt f")
  case (Inl e)
  then show ?thesis by (simp add: plan_block_prompt_error)
next
  case (Inr m)
  then obtain d0 d1 ds where "f_dates f = d0 # d1 # ds"
    using trip_prompt_Inr_dates[of f m] by (metis One_nat_def Suc_1 Suc_le_length_iff)
  with Inr show ?thesis
    using get_distance_km_services[of w "f_source f" "f_destination f"] get_weather_services[of w "f_destination f"]
    by (simp add: plan_block_prompt_ok get_ai_response_effects add_event_to_calendar_effects)
qed


section \<open>The interrupted planning block\<close>

lemma route_body_no_ui: "ui_count (snd (route_body w k s d)) = 0"
  by (auto simp: route_body_def http_post_def py_bind_effects ors_geocode_effects split: sum.split)

lemma get_distance_km_ui_count:
  "ui_count (snd (get_distance_km w s d)) =
     (case w_env w ''ORS_API_KEY'' of
        None \<Rightarrow> 2
      | Some k \<Rightarrow> if k = [] then 2 else (case fst (route_body w k s d) of Inl _ \<Rightarrow> 2 | Inr _ \<Rightarrow> 0))"
  by (simp add: get_distance_km_def py_try_effects route_body_no_ui split: option.split sum.split)

text \<open>The route adapter shows something only on its error path, which returns the four \<^verbatim>\<open>None\<close>s.\<close>

lemma get_distance_km_ui: "ui_count (snd (get_distance_km w s d)) \<noteq> 0 \<Longrightarrow> fst (get_distance_km w s d) = Inr no_route"
  by (auto simp: get_distance_km_ui_count get_distance_km_value split: option.splits if_splits sum.splits)

lemma get_weather_no_ui: "ui_count (snd (get_weather w c)) = 0"
  by (auto simp: get_weather_def http_get_def py_bind_effects py_try_effects Let_def split: sum.split)

lemma plan_block_i_completed: "plan_block_i w f None = completed \<circ> plan_block w f"
  unfolding plan_block_i_def plan_block_def by (rule sim_rules)+


lemma get_distance_km_no_route_ui:
  "fst (get_distance_km w s d) = Inr no_route \<Longrightarrow> ui_count (snd (get_distance_km w s d)) \<noteq> 0"
  by (auto simp: get_distance_km_ui_count get_distance_km_value no_route_def split: option.splits if_splits sum.splits
      dest!: route_body_result)

text \<open>Interrupted at the route adapter's error message, the block has stored the narrative and the slug.\<close>

lemma plan_block_i_route_cut:
  assumes "trip_prompt f = Inr m" "it_cut b (snd (get_distance_km w (f_source f) (f_destination f))) = Some t"
  shows "snd (fst (plan_block_i w f b [])) =
    [(''response'', projr (fst (get_ai_response w m))), (''destination_slug'', PStr (destination_slug (f_destination f)))]"
proof -
  obtain r where ai: "fst (get_ai_response w m) = Inr r"
    using py_ok_projr[OF get_ai_response_ok] by blast
  have "it_cut b' (snd (get_ai_response w m)) = None" "it_left b' (snd (get_ai_response w m)) = b'" for b'
    by (simp_all add: it_cut_no_ui it_left_no_ui get_ai_response_effects)
  then show ?thesis
    using assms ai by (simp add: plan_block_i_def it_try_apply dict_set_def)
qed

text \<open>
  An interrupted block leaves the dictionary it would have left, or, when the run is
  interrupted at the route adapter's error message (line 109, the only UI element before
  the end of the block when the prompt can be built), the narrative and the slug only.
\<close>

lemma plan_block_i_dict:
  "snd (fst (plan_block_i w f b [])) = snd (fst (plan_block w f [])) \<or>
   fst (get_distance_km w (f_source f) (f_destination f)) = Inr no_route \<and>
   snd (fst (plan_block_i w f b [])) =
     [(''response'', projr (fst (get_ai_response w (projr (trip_prompt f))))),
      (''destination_slug'', PStr (destination_slug (f_destination f)))]"
proof (cases "trip_prompt f")
  case (Inl e)
  then show ?thesis by (simp add: plan_block_i_def it_try_apply plan_block_prompt_error split: option.split)
next
  case (Inr m)
  then obtain d0 d1 ds where dates: "f_dates f = d0 # d1 # ds"
    using trip_prompt_Inr_dates[of f m] by (metis One_nat_def Suc_1 Suc_le_length_iff)
  obtain r fc cl a bb c e where
    ai: "fst (get_ai_response w m) = Inr r" and
    rt: "fst (get_distance_km w (f_source f) (f_destination f)) = Inr (a, bb, c, e)" and
    wt: "fst (get_weather w (f_destination f)) = Inr fc" and
    cal: "fst (add_event_to_calendar w (trip_summary (f_destination f)) (MDate d0) (MDate d1)) = Inr cl"
    using py_ok_projr[OF get_ai_response_ok] py_ok_projr[OF get_distance_km_ok]
      py_ok_projr[OF get_weather_ok] py_ok_projr[OF add_event_to_calendar_ok]
    by (metis prod_cases4)
  have calls_only [simp]:
    "it_cut b' (snd (get_ai_response w m)) = None" "it_left b' (snd (get_ai_response w m)) = b'"
    "it_cut b' (snd (get_weather w (f_destination f))) = None" "it_left b' (snd (get_weather w (f_destination f))) = b'"
    "it_cut b' (snd (add_event_to_calendar w (trip_summary (f_destination f)) (MDate d0) (MDate d1))) = None"
    "it_left b' (snd (add_event_to_calendar w (trip_summary (f_destination f)) (MDate d0) (MDate d1))) = b'" for b'
    by (simp_all add: it_cut_no_ui it_left_no_ui get_ai_response_effects get_weather_no_ui add_event_to_calendar_effects)
  show ?thesis
  proof (cases "it_cut b (snd (get_distance_km w (f_source f) (f_destination f)))")
    case (Some t)
    have "fst (get_distance_km w (f_source f) (f_destination f)) = Inr no_route"
      using get_distance_km_ui it_cut_Some[OF Some] by blast
    moreover have "snd (fst (plan_block_i w f b [])) =
      [(''response'', r), (''destination_slug'', PStr (destination_slug (f_destination f)))]"
      using plan_block_i_route_cut[OF Inr Some] ai by simp
    ultimately show ?thesis using Inr ai by simp
  next
    case None
    then show ?thesis using Inr dates ai rt wt cal
      by (simp add: plan_block_i_def it_try_apply plan_block_prompt_ok tuple_at_def plan_dict_def
          dict_set_def dict_update_def)
  qed
qed

end

