(* ===== verification/Presenter.thy ===== *)
theory Presenter
  imports Orchestrator
begin

text \<open>
  The result presenter of \<^verbatim>\<open>src/app.py\<close>: \<^verbatim>\<open>show_route_on_map\<close> (lines 114--126)
  and the rendering of the stored plan (lines 254--269). The rendering runs outside any
  \<^verbatim>\<open>try\<close>, reads \<^verbatim>\<open>trip_data\<close> with subscripts, and labels the booking links and the
  weather line with the destination typed in the form on this run, while the links
  themselves use the slug stored when the plan was made. The map is drawn only when the
  stored distance is not \<^verbatim>\<open>None\<close>; there is no "route unavailable" message.
  The distance is shown after \<^verbatim>\<open>round(x, 2)\<close>; its error on the page is bounded at the end.
\<close>

section \<open>The route map\<close>

text \<open>\<^verbatim>\<open>(a + b) / 2\<close>.\<close>

definition half_sum :: "pyval \<Rightarrow> pyval \<Rightarrow> py_exc + pyval" where
  "half_sum a b = sbind (py_add a b) (\<lambda>c. py_truediv c 2 1)"

text \<open>
  folium (0.14 and later) checks the locations it is given when the objects are built:
  \<^verbatim>\<open>validate_location\<close> for \<^verbatim>\<open>Map\<close> and \<^verbatim>\<open>Marker\<close>, \<^verbatim>\<open>validate_locations\<close>
  for \<^verbatim>\<open>PolyLine\<close>, with these messages. A location is a sized value of two items,
  each convertible by \<^verbatim>\<open>float\<close> and not NaN.
\<close>

definition folium_coord :: "pyval \<Rightarrow> py_exc + unit" where
  "folium_coord x =
     (case py_float x of
        Inl _ \<Rightarrow> Inl (ValueError (''Location should consist of two numerical values, but '' @ py_repr x
                                 @ '' of type '' @ py_class x @ '' is not convertible to float.''))
      | Inr True \<Rightarrow> Inl (ValueError ''Location values cannot contain NaNs.'')
      | Inr False \<Rightarrow> Inr ())"

definition folium_pair :: "pyval \<Rightarrow> pyval list \<Rightarrow> py_exc + unit" where
  "folium_pair loc xs =
     (if length xs \<noteq> 2 then Inl (ValueError (''Expected two (lat, lon) values for location, instead got: ''
                                             @ py_repr loc @ ''.''))
      else sbind (folium_coord (xs ! 0)) (\<lambda>_. folium_coord (xs ! 1)))"

definition folium_location :: "pyval \<Rightarrow> py_exc + unit" where
  "folium_location loc =
     (case loc of
        PList xs \<Rightarrow> folium_pair loc xs
      | PStr s \<Rightarrow> folium_pair loc (map (\<lambda>c. PStr [c]) s)
      | PDict kvs \<Rightarrow>
          if length kvs \<noteq> 2 then folium_pair loc (map (PStr \<circ> fst) kvs)
          else Inl (TypeError (''Location should support indexing, like a list or a tuple does, instead got ''
                               @ py_repr loc @ '' of type '' @ py_class loc @ ''.''))
      | _ \<Rightarrow> Inl (TypeError (''Location should be a sized variable, for example a list or a tuple, instead got ''
                           @ py_repr loc @ '' of type '' @ py_class loc @ ''.'')))"

text \<open>
  \<^verbatim>\<open>float(next(iter(next(iter(next(iter(locations)))))))\<close>: whether the locations are a
  list of lists of pairs (\<open>True\<close>) or of pairs (\<open>False\<close>); only \<^verbatim>\<open>TypeError\<close> and
  \<^verbatim>\<open>StopIteration\<close> are caught, so a \<^verbatim>\<open>ValueError\<close> of \<^verbatim>\<open>float\<close> escapes.
\<close>

definition folium_probe :: "pyval \<Rightarrow> py_exc + bool" where
  "folium_probe l0 =
     (case py_iter l0 of
        Inr (x # _) \<Rightarrow>
          (case py_iter x of
             Inr (y # _) \<Rightarrow> (case py_float y of Inl (TypeError _) \<Rightarrow> Inr False | Inl e \<Rightarrow> Inl e | Inr _ \<Rightarrow> Inr True)
           | _ \<Rightarrow> Inr False)
      | _ \<Rightarrow> Inr False)"

text \<open>
  Python's recursion limit. \<^verbatim>\<open>validate_locations\<close> recurses into each item when the probe
  says the items are lists of pairs; on a one-character digit string the recursion does not
  descend and ends in \<^verbatim>\<open>RecursionError\<close>. The limit counts all frames, those of Streamlit
  and of the script included, so the depth here bounds the nesting only from above.
\<close>

definition py_recursion_limit :: nat where
  "py_recursion_limit = 1000"

function folium_locations :: "nat \<Rightarrow> pyval \<Rightarrow> py_exc + unit" where
  "folium_locations d ls =
     (if d = 0 then Inl (Exception ''maximum recursion depth exceeded'')
      else case py_iter ls of
        Inl _ \<Rightarrow> Inl (TypeError (''Locations should be an iterable with coordinate pairs, but instead got ''
                                @ py_repr ls @ ''.''))
      | Inr [] \<Rightarrow> Inl (ValueError ''Locations is empty.'')
      | Inr (l0 # rest) \<Rightarrow>
          (case folium_probe l0 of
             Inl e \<Rightarrow> Inl e
           | Inr False \<Rightarrow> sbind (py_map folium_location (l0 # rest)) (\<lambda>_. Inr ())
           | Inr True \<Rightarrow> sbind (py_map (folium_locations (d - 1)) (l0 # rest)) (\<lambda>_. Inr ())))"
  by pat_completeness auto
termination by (relation "measure fst") auto

declare folium_locations.simps [simp del]

text \<open>\<^verbatim>\<open>folium.Marker([c[1], c[0]], popup=..., icon=folium.Icon(color=...))\<close>.\<close>

definition marker_at :: "pyval \<Rightarrow> string \<Rightarrow> string \<Rightarrow> py_exc + map_marker" where
  "marker_at c popup color =
     sbind (py_index c 1) (\<lambda>lat. sbind (py_index c 0) (\<lambda>lon.
     sbind (folium_location (PList [lat, lon])) (\<lambda>_. Inr (Marker lat lon popup color))))"

definition map_header :: string where
  "map_header = ''**'' @ u_worldmap @ '' Route Map:**''"

definition show_route_on_map :: "pyval \<Rightarrow> pyval \<Rightarrow> pyval \<Rightarrow> unit act" where
  "show_route_on_map start_coords end_coords route_coords =
     py_try
       (py_bind (py_lift (sbind (py_index start_coords 1) (\<lambda>a. sbind (py_index end_coords 1) (\<lambda>b. half_sum a b)))) (\<lambda>clat.
        py_bind (py_lift (sbind (py_index start_coords 0) (\<lambda>a. sbind (py_index end_coords 0) (\<lambda>b. half_sum a b)))) (\<lambda>clon.
        py_bind (py_lift (folium_location (PList [clat, clon]))) (\<lambda>_.
        py_bind (py_lift (marker_at start_coords ''Start'' ''green'')) (\<lambda>m1.
        py_bind (py_lift (marker_at end_coords ''End'' ''red'')) (\<lambda>m2.
        py_bind (py_lift (folium_locations py_recursion_limit route_coords)) (\<lambda>_.
        py_bind (py_emit (Show (UiMarkdown map_header))) (\<lambda>_.
        py_emit (Show (UiMap \<lparr>mv_center = (clat, clon), mv_zoom = 6, mv_markers = [m1, m2],
                               mv_line = route_coords, mv_line_color = ''blue'', mv_line_weight = 5\<rparr> 725))))))))))
       (\<lambda>e. py_emit (Show (UiError (''Map error: '' @ exc_str e))))"

section \<open>The plan\<close>

definition airbnb_link :: "string \<Rightarrow> pyval \<Rightarrow> string" where
  "airbnb_link dest slug =
     ''['' @ u_hotel @ '' Airbnb stays in '' @ dest @ ''](https://www.airbnb.com/s/'' @ py_str slug @ '')''"

definition makemytrip_link :: "string \<Rightarrow> pyval \<Rightarrow> string" where
  "makemytrip_link dest slug =
     ''['' @ u_bed @ '' MakeMyTrip deals in '' @ dest @ ''](https://www.makemytrip.com/hotels/''
     @ py_str slug @ ''-hotels.html)''"

definition rentalcars_link :: "string \<Rightarrow> pyval \<Rightarrow> string" where
  "rentalcars_link dest slug =
     ''['' @ u_car @ '' RentalCars in '' @ dest @ ''](https://www.rentalcars.com/SearchResults.do?dropCity=''
     @ py_str slug @ '')''"

definition ready_text :: string where
  "ready_text = u_check @ '' Your travel plan is ready!''"

definition links_header :: string where
  "links_header = ''**'' @ u_link @ '' Helpful Booking Links:**''"

definition weather_line :: "string \<Rightarrow> pyval \<Rightarrow> string" where
  "weather_line dest fc = ''**Weather in '' @ dest @ '':** '' @ py_str fc"

definition calendar_line :: "pyval \<Rightarrow> string" where
  "calendar_line cl = ''**Calendar Event:** [View Event]('' @ py_str cl @ '')''"

definition distance_line :: "pyval \<Rightarrow> string" where
  "distance_line r = ''**Distance:** '' @ py_str r @ '' km''"

text \<open>Lines 256--269, for the form's current destination \<open>dest\<close> and the stored \<open>data\<close>.\<close>

definition render_plan :: "string \<Rightarrow> pydict \<Rightarrow> unit act" where
  "render_plan dest data =
     (if ''response'' \<notin> set (map fst data) then py_return ()
      else
        py_bind (py_emit (Show (UiSuccess ready_text))) (\<lambda>_.
        py_bind (py_lift (py_key (PDict data) ''response'')) (\<lambda>resp.
        py_bind (py_emit (Show (UiMarkdown (py_str resp)))) (\<lambda>_.
        py_bind (py_emit (Show (UiMarkdown links_header))) (\<lambda>_.
        py_bind (py_lift (py_key (PDict data) ''destination_slug'')) (\<lambda>s1.
        py_bind (py_emit (Show (UiMarkdown (airbnb_link dest s1)))) (\<lambda>_.
        py_bind (py_lift (py_key (PDict data) ''destination_slug'')) (\<lambda>s2.
        py_bind (py_emit (Show (UiMarkdown (makemytrip_link dest s2)))) (\<lambda>_.
        py_bind (py_lift (py_key (PDict data) ''destination_slug'')) (\<lambda>s3.
        py_bind (py_emit (Show (UiMarkdown (rentalcars_link dest s3)))) (\<lambda>_.
        py_bind (py_lift (py_key (PDict data) ''forecast'')) (\<lambda>fc.
        py_bind (py_emit (Show (UiMarkdown (weather_line dest fc)))) (\<lambda>_.
        py_bind (py_lift (py_key (PDict data) ''calendar_link'')) (\<lambda>cl.
        py_bind (py_emit (Show (UiMarkdown (calendar_line cl)))) (\<lambda>_.
        py_bind (py_lift (py_get (PDict data) ''distance_km'' PNone)) (\<lambda>dk.
        if dk = PNone then py_return ()
        else
          py_bind (py_lift (sbind (py_key (PDict data) ''distance_km'') py_round2)) (\<lambda>r.
          py_bind (py_emit (Show (UiMarkdown (distance_line r)))) (\<lambda>_.
          py_bind (py_lift (py_key (PDict data) ''coord_start'')) (\<lambda>cs.
          py_bind (py_lift (py_key (PDict data) ''coord_end'')) (\<lambda>ce.
          py_bind (py_lift (py_key (PDict data) ''route_coords'')) (\<lambda>rc.
          show_route_on_map cs ce rc)))))))))))))))))))))"

text \<open>Line 254: render only when \<^verbatim>\<open>trip_data\<close> exists.\<close>

definition render_trip :: "string \<Rightarrow> pydict option \<Rightarrow> unit act" where
  "render_trip dest td = (case td of None \<Rightarrow> py_return () | Some data \<Rightarrow> render_plan dest data)"

text \<open>The page elements of a stored plan, before the distance and the map.\<close>

definition plan_lines :: "string \<Rightarrow> pyval \<Rightarrow> string \<Rightarrow> pyval \<Rightarrow> pyval \<Rightarrow> ui list" where
  "plan_lines dest r sl fc cl =
     [UiSuccess ready_text, UiMarkdown (py_str r), UiMarkdown links_header,
      UiMarkdown (airbnb_link dest (PStr sl)), UiMarkdown (makemytrip_link dest (PStr sl)),
      UiMarkdown (rentalcars_link dest (PStr sl)), UiMarkdown (weather_line dest fc),
      UiMarkdown (calendar_line cl)]"

text \<open>A coordinate pair of numbers, as the route adapter stores them.\<close>

fun numeric_pair :: "pyval \<Rightarrow> bool" where
  "numeric_pair (PList [a, b]) = (py_real a \<noteq> None \<and> py_real b \<noteq> None)"
| "numeric_pair _ = False"

section \<open>Properties of the presenter\<close>

lemma half_sum_real:
  assumes "py_real a = Some x" "py_real b = Some y"
  shows "\<exists>c. half_sum a b = Inr c \<and> py_real c = Some ((x + y) / 2)"
proof -
  obtain m1 k1 m2 k2 where d1: "py_dec a = Some (m1, k1)" and d2: "py_dec b = Some (m2, k2)"
    using assms(1,2) by (cases a; cases b) auto
  obtain s where s: "py_add a b = Inr s" and sv: "py_real s = Some (x + y)"
  proof -
    let ?k = "max k1 k2"
    let ?m = "m1 * 10 ^ (?k - k1) + m2 * 10 ^ (?k - k2)"
    have add: "py_add a b = Inr (if py_is_float a \<or> py_is_float b then PFloat ?m ?k else PInt ?m)"
      using d1 d2 by (cases a; cases b) (auto simp: py_add_def Let_def)
    have ax: "x = of_int m1 / 10 ^ k1" and "y = of_int m2 / 10 ^ k2"
      using d1 d2 assms(1,2) by (cases a; cases b; auto)+
    moreover have "of_int ?m / (10::real) ^ ?k = of_int m1 / 10 ^ k1 + of_int m2 / 10 ^ k2"
      by (simp add: field_simps power_add[symmetric])
    moreover have "\<not> py_is_float a \<and> \<not> py_is_float b \<Longrightarrow> ?k = 0"
      using d1 d2 by (cases a; cases b) auto
    ultimately have "py_real (if py_is_float a \<or> py_is_float b then PFloat ?m ?k else PInt ?m) = Some (x + y)"
      by auto
    with add show ?thesis by (rule that)
  qed
  obtain c where c: "py_truediv s 2 1 = Inr c"
    using sv by (cases s) (auto simp: py_truediv_def)
  have "py_real c = Some ((x + y) / 2)"
    using py_truediv_real[of 2 1 s c] c sv by simp
  with s c show ?thesis by (simp add: half_sum_def)
qed

lemma show_route_on_map_ok: "fst (show_route_on_map cs ce rc) = Inr ()"
proof -
  have "py_ok (show_route_on_map cs ce rc)"
    unfolding show_route_on_map_def by (rule py_try_ok) simp
  then show ?thesis by (cases "show_route_on_map cs ce rc") auto
qed

lemma render_plan_dict:
  "render_plan dest (plan_dict r sl (km, cs, ce, rc) fc cl) =
     (if km = PNone then (Inr (), map Show (plan_lines dest r sl fc cl))
      else case py_round2 km of
        Inl e \<Rightarrow> (Inl e, map Show (plan_lines dest r sl fc cl))
      | Inr x \<Rightarrow> (Inr (), map Show (plan_lines dest r sl fc cl) @
                   Show (UiMarkdown (distance_line x)) # snd (show_route_on_map cs ce rc)))"
  using show_route_on_map_ok[of cs ce rc]
  by (cases "show_route_on_map cs ce rc")
     (simp add: render_plan_def plan_dict_def plan_lines_def dict_lookup_def split: sum.split)

lemma render_plan_ok:
  "km = PNone \<or> py_is_float km \<Longrightarrow> fst (render_plan dest (plan_dict r sl (km, cs, ce, rc) fc cl)) = Inr ()"
  by (cases km) (auto simp: render_plan_dict show_route_on_map_ok)

lemma render_plan_empty: "render_plan dest [] = (Inr (), [])"
  by (simp add: render_plan_def py_return_def)

lemma folium_coord_num: "py_real x \<noteq> None \<Longrightarrow> folium_coord x = Inr ()"
  by (cases x) (simp_all add: folium_coord_def py_float_def)

lemma folium_location_num: "py_real a \<noteq> None \<Longrightarrow> py_real b \<noteq> None \<Longrightarrow> folium_location (PList [a, b]) = Inr ()"
  by (simp add: folium_location_def folium_pair_def folium_coord_num sbind_def)

lemma numeric_pair_location: "numeric_pair p \<Longrightarrow> folium_location p = Inr ()"
  by (induction p rule: numeric_pair.induct) (simp_all add: folium_location_num)

lemma py_map_units: "(\<And>x. x \<in> set xs \<Longrightarrow> f x = Inr ()) \<Longrightarrow> py_map f xs = Inr (map (\<lambda>_. ()) xs)"
  by (induction xs) auto

lemma folium_probe_pair: "numeric_pair p \<Longrightarrow> folium_probe p = Inr False"
  by (induction p rule: numeric_pair.induct) (auto simp: folium_probe_def elim!: py_real.elims)

lemma folium_locations_pairs:
  assumes "0 < d" "pts \<noteq> []" "list_all numeric_pair pts"
  shows "folium_locations d (PList pts) = Inr ()"
proof -
  obtain p0 rest where pts: "pts = p0 # rest" using assms(2) by (cases pts) auto
  have "folium_probe p0 = Inr False" using assms(3) by (simp add: pts folium_probe_pair)
  moreover have "py_map folium_location pts = Inr (map (\<lambda>_. ()) pts)"
    using assms(3) by (intro py_map_units) (simp add: list_all_iff numeric_pair_location)
  ultimately show ?thesis
    using assms(1) by (subst folium_locations.simps) (simp add: pts sbind_def)
qed

lemma folium_locations_empty: "0 < d \<Longrightarrow> folium_locations d (PList []) = Inl (ValueError ''Locations is empty.'')"
  by (subst folium_locations.simps) simp

lemma marker_at_pair:
  "py_real lon \<noteq> None \<Longrightarrow> py_real lat \<noteq> None \<Longrightarrow> marker_at (PList (lon # lat # r)) p c = Inr (Marker lat lon p c)"
  by (simp add: marker_at_def py_norm_index_def folium_location_num sbind_def)

lemma py_bind_lift: "py_bind (py_lift r) f = (case r of Inl e \<Rightarrow> (Inl e, []) | Inr a \<Rightarrow> f a)"
  by (cases r) simp_all

text \<open>
  C22. The route map never raises: it is drawn whole, the header and then the map whose
  line is the route's coordinates, or it is replaced by the single line
  \<^verbatim>\<open>"Map error: ..."\<close>.
\<close>

theorem show_route_on_map_shape:
  "fst (show_route_on_map cs ce rc) = Inr () \<and>
   ((\<exists>e. snd (show_route_on_map cs ce rc) = [Show (UiError (''Map error: '' @ exc_str e))]) \<or>
    (\<exists>mv. snd (show_route_on_map cs ce rc) = [Show (UiMarkdown map_header), Show (UiMap mv 725)] \<and>
          mv_line mv = rc))"
proof -
  have "(\<exists>e. snd (show_route_on_map cs ce rc) = [Show (UiError (''Map error: '' @ exc_str e))]) \<or>
    (\<exists>mv. snd (show_route_on_map cs ce rc) = [Show (UiMarkdown map_header), Show (UiMap mv 725)] \<and>
          mv_line mv = rc)"
    unfolding show_route_on_map_def py_bind_lift by (auto split: sum.split)
  with show_route_on_map_ok show ?thesis by blast
qed

text \<open>
  C23. For two coordinate pairs \<^verbatim>\<open>[lon, lat]\<close> of numbers, and a route that is a
  non-empty list of number pairs, the map is centred on the midpoint, its markers are at
  \<^verbatim>\<open>[lat, lon]\<close> of the start (green) and of the end (red), so the adapter's
  \<^verbatim>\<open>[lon, lat]\<close> order is swapped exactly once, and its line is the route. An empty
  route is refused by \<^verbatim>\<open>folium.PolyLine\<close>, and the page shows
  \<^verbatim>\<open>"Map error: Locations is empty."\<close> instead of the map.
\<close>

theorem show_route_on_map_coords:
  assumes "py_real lon1 = Some x1" "py_real lat1 = Some y1" "py_real lon2 = Some x2" "py_real lat2 = Some y2"
    and "list_all numeric_pair pts"
  shows "(pts \<noteq> [] \<longrightarrow> (\<exists>clat clon.
     show_route_on_map (PList (lon1 # lat1 # r1)) (PList (lon2 # lat2 # r2)) (PList pts) =
       (Inr (), [Show (UiMarkdown map_header),
                 Show (UiMap \<lparr>mv_center = (clat, clon), mv_zoom = 6,
                             mv_markers = [Marker lat1 lon1 ''Start'' ''green'', Marker lat2 lon2 ''End'' ''red''],
                             mv_line = PList pts, mv_line_color = ''blue'', mv_line_weight = 5\<rparr> 725)]) \<and>
     py_real clat = Some ((y1 + y2) / 2) \<and> py_real clon = Some ((x1 + x2) / 2))) \<and>
   show_route_on_map (PList (lon1 # lat1 # r1)) (PList (lon2 # lat2 # r2)) (PList []) =
     (Inr (), [Show (UiError ''Map error: Locations is empty.'')])"
proof -
  obtain clat where clat: "half_sum lat1 lat2 = Inr clat" "py_real clat = Some ((y1 + y2) / 2)"
    using half_sum_real[OF assms(2,4)] by blast
  obtain clon where clon: "half_sum lon1 lon2 = Inr clon" "py_real clon = Some ((x1 + x2) / 2)"
    using half_sum_real[OF assms(1,3)] by blast
  have pre: "folium_location (PList [clat, clon]) = Inr ()"
    "marker_at (PList (lon1 # lat1 # r1)) ''Start'' ''green'' = Inr (Marker lat1 lon1 ''Start'' ''green'')"
    "marker_at (PList (lon2 # lat2 # r2)) ''End'' ''red'' = Inr (Marker lat2 lon2 ''End'' ''red'')"
    using clat clon assms(1-4) by (simp_all add: folium_location_num marker_at_pair)
  have lim: "0 < py_recursion_limit" by (simp add: py_recursion_limit_def)
  show ?thesis
    using clat clon pre folium_locations_pairs[OF lim _ assms(5)] folium_locations_empty[OF lim]
    by (simp add: show_route_on_map_def py_norm_index_def)
qed

theorem show_route_on_map_coords_witness:
  "(\<exists>clat clon.
     show_route_on_map (PList [PFloat 77209 3, PFloat 286139 4]) (PList [PFloat 23522 4, PFloat 488566 4])
       (PList [PList [PFloat 286139 4, PFloat 77209 3], PList [PFloat 488566 4, PFloat 23522 4]]) =
       (Inr (), [Show (UiMarkdown map_header),
                 Show (UiMap \<lparr>mv_center = (clat, clon), mv_zoom = 6,
                             mv_markers = [Marker (PFloat 286139 4) (PFloat 77209 3) ''Start'' ''green'',
                                           Marker (PFloat 488566 4) (PFloat 23522 4) ''End'' ''red''],
                             mv_line = PList [PList [PFloat 286139 4, PFloat 77209 3], PList [PFloat 488566 4, PFloat 23522 4]],
                             mv_line_color = ''blue'', mv_line_weight = 5\<rparr> 725)]) \<and>
     py_real clat = Some ((28.6139 + 48.8566) / 2) \<and> py_real clon = Some ((77.209 + 2.3522) / 2)) \<and>
   show_route_on_map (PList [PFloat 77209 3, PFloat 286139 4]) (PList [PFloat 23522 4, PFloat 488566 4]) (PList []) =
     (Inr (), [Show (UiError ''Map error: Locations is empty.'')])"
  using show_route_on_map_coords[of "PFloat 77209 3" "77.209" "PFloat 286139 4" "28.6139" "PFloat 23522 4" "2.3522"
      "PFloat 488566 4" "48.8566" "[PList [PFloat 286139 4, PFloat 77209 3], PList [PFloat 488566 4, PFloat 23522 4]]"
      "[]" "[]"]
  by simp

lemma render_plan_calls: "calls (snd (render_plan dest d)) = []"
  unfolding render_plan_def show_route_on_map_def
  by (auto intro!: calls_bind calls_try)

lemma render_trip_calls: "calls (snd (render_trip dest td)) = []"
  by (simp add: render_trip_def render_plan_calls split: option.split)


text \<open>
  C12. The distance line (line 268, \<^verbatim>\<open>round(data["distance_km"], 2)\<close>): when the
  stored distance is a number, the page of the plan shows a distance line whose value has
  at most two decimals and lies within half a hundredth of a kilometre of the stored
  distance.
\<close>

theorem distance_line_rounded:
  assumes "py_real km = Some x"
  shows "\<exists>r y. Show (UiMarkdown (distance_line r)) \<in> set (snd (render_plan dest (plan_dict resp sl (km, cs, ce, rc) fc cl))) \<and>
           py_real r = Some y \<and> \<bar>y - x\<bar> \<le> 1 / 200 \<and> two_decimals y"
proof -
  obtain r where r: "py_round2 km = Inr r"
    using assms by (cases km) auto
  have "km \<noteq> PNone" using assms by auto
  then have "Show (UiMarkdown (distance_line r)) \<in> set (snd (render_plan dest (plan_dict resp sl (km, cs, ce, rc) fc cl)))"
    using r by (simp add: render_plan_dict)
  then show ?thesis using py_round2_close[OF assms r] by blast
qed

theorem distance_line_rounded_witness:
  "\<exists>r y. Show (UiMarkdown (distance_line r)) \<in>
           set (snd (render_plan ''Paris'' (plan_dict (PStr ''Day 1'') ''paris'' (PFloat 65932043 4, PNone, PNone, PList []) (PStr ''Sunny'') (PStr ''No link'')))) \<and>
         py_real r = Some y \<and> \<bar>y - 65932043 / 10000\<bar> \<le> 1 / 200 \<and> two_decimals y"
  using distance_line_rounded[of "PFloat 65932043 4" "65932043 / 10000" "''Paris''" "PStr ''Day 1''" "''paris''" PNone PNone "PList []"
      "PStr ''Sunny''" "PStr ''No link''"]
  by simp

end
