(* ===== verification/Session.thy ===== *)
theory Session
  imports Presenter
begin

text \<open>
  The script as Streamlit runs it (\<^verbatim>\<open>src/app.py\<close>, top to bottom, once per user
  interaction). Between runs only \<^verbatim>\<open>st.session_state\<close> survives: here the record
  \<open>session\<close> with the two keys the script uses, \<^verbatim>\<open>trip_planned\<close> and
  \<^verbatim>\<open>trip_data\<close> (\<open>None\<close> when the key is absent). One run (\<open>run_script\<close>) takes
  the world, the values of the form widgets on this run, whether the button was clicked,
  and the session; it returns the new session and the page it wrote, with the outbound
  calls in order. An exception the script does not catch ends the run and Streamlit shows
  it on the page; the session keeps what was written before it.
  \<open>reachable\<close> is the set of sessions some sequence of runs leads to from a fresh
  session, \<open>run_trace\<close> runs a given sequence.
\<close>

record session =
  ss_trip_planned :: "pyval option"
  ss_trip_data :: "pydict option"

definition empty_session :: session where
  "empty_session = \<lparr>ss_trip_planned = None, ss_trip_data = None\<rparr>"

text \<open>Lines 23--27: constructing the client at import time, outside any \<^verbatim>\<open>try\<close>.\<close>

definition client_init :: "world \<Rightarrow> unit act" where
  "client_init w =
     (case w_client w (w_env w ''AZURE_OPENAI_KEY'') (w_env w ''AZURE_OPENAI_ENDPOINT'') of
        None \<Rightarrow> py_return ()
      | Some e \<Rightarrow> py_raise e)"

definition page_title :: string where
  "page_title = u_plane @ '' AI Travel Planner''"

definition page_intro :: string where
  "page_intro = nl @ ''This AI-powered travel planner helps you create personalized travel itineraries using:'' @ nl
     @ ''- '' @ u_worldmap @ '' Maps and navigation'' @ nl
     @ ''- '' @ u_sun @ '' Weather forecasts'' @ nl
     @ ''- '' @ u_hotel @ '' Accommodation booking'' @ nl
     @ ''- '' @ u_cal @ '' Calendar management'' @ nl"

definition footer_html :: string where
  "footer_html = nl @ ''<div style='' @ [CHR 0x27] @ ''text-align: center'' @ [CHR 0x27] @ ''>'' @ nl
     @ ''    <p>Powered by AI Travel Planning Agents</p>'' @ nl
     @ ''    <p>Your personal travel assistant for creating memorable experiences</p>'' @ nl
     @ ''</div>'' @ nl"

text \<open>Lines 30--39 and 197: the page before the trigger (the widgets are inputs, \<open>form\<close>).\<close>

definition page_header :: "unit act" where
  "page_header =
     py_bind (py_emit (Show (UiTitle page_title))) (\<lambda>_.
     py_bind (py_emit (Show (UiMarkdown page_intro))) (\<lambda>_.
     py_emit (Show (UiSubheader ''Additional Preferences''))))"

text \<open>Lines 274--280.\<close>

definition page_footer :: "unit act" where
  "page_footer =
     py_bind (py_emit (Show (UiMarkdown ''---''))) (\<lambda>_. py_emit (Show (UiMarkdown footer_html)))"

text \<open>
  A statement on \<^verbatim>\<open>st.session_state.trip_data\<close>: the planning block mutates that
  dictionary in place.
\<close>

definition on_trip_data :: "(pydict, effect, unit) stm \<Rightarrow> (session, effect, unit) stm" where
  "on_trip_data m s =
     (case ss_trip_data s of
        None \<Rightarrow> ((Inl (AttributeError (''st.session_state has no attribute '' @ dq # ''trip_data'' @ [dq])), s), [])
      | Some d \<Rightarrow> (case m d of ((r, d'), es) \<Rightarrow> ((r, s\<lparr>ss_trip_data := Some d'\<rparr>), es)))"

text \<open>
  Lines 209--251: the trigger. The click or a truthy \<^verbatim>\<open>trip_planned\<close> enters; the
  city check comes first; only a session without \<^verbatim>\<open>trip_planned\<close> plans, and it sets
  the flag and an empty \<^verbatim>\<open>trip_data\<close> before calling any adapter.
\<close>

definition missing_cities_msg :: string where
  "missing_cities_msg = ''Please enter both source and destination cities.''"

definition trip_trigger :: "world \<Rightarrow> form \<Rightarrow> bool \<Rightarrow> (session, effect, unit) stm" where
  "trip_trigger w f clicked =
     st_bind st_get (\<lambda>s.
       if clicked \<or> py_truthy (case ss_trip_planned s of None \<Rightarrow> PNone | Some v \<Rightarrow> v) then
         (if missing_city f then st_act (py_emit (Show (UiError missing_cities_msg)))
          else if ss_trip_planned s = None then
            st_bind (st_modify (\<lambda>s. s\<lparr>ss_trip_planned := Some (PBool True), ss_trip_data := Some []\<rparr>)) (\<lambda>_.
            on_trip_data (plan_block w f))
          else st_act (py_return ()))
       else st_act (py_return ()))"

text \<open>The whole script, lines 20--280.\<close>

definition script :: "world \<Rightarrow> form \<Rightarrow> bool \<Rightarrow> (session, effect, unit) stm" where
  "script w f clicked =
     st_bind (st_act (client_init w)) (\<lambda>_.
     st_bind (st_act page_header) (\<lambda>_.
     st_bind (trip_trigger w f clicked) (\<lambda>_.
     st_bind st_get (\<lambda>s.
     st_bind (st_act (render_trip (f_destination f) (ss_trip_data s))) (\<lambda>_.
     st_act page_footer)))))"

text \<open>One run as Streamlit executes it: an uncaught exception is shown on the page.\<close>

definition run_script :: "world \<Rightarrow> form \<Rightarrow> bool \<Rightarrow> session \<Rightarrow> session \<times> effect list" where
  "run_script w f clicked s =
     (case script w f clicked s of
        ((Inr _, s'), es) \<Rightarrow> (s', es)
      | ((Inl e, s'), es) \<Rightarrow> (s', es @ [Show (UiException (exc_str e))]))"

text \<open>
  The same run when Streamlit may interrupt it (theory \<open>Interrupt\<close>): the budget
  \<open>Some k\<close> stops it at its UI element number \<open>k\<close>, and the session keeps what was
  written before. The copies below follow the definitions above statement by statement.
\<close>

definition on_trip_data_i :: "(pydict, unit) itm \<Rightarrow> (session, unit) itm" where
  "on_trip_data_i m b s =
     (case ss_trip_data s of
        None \<Rightarrow> ((Some (Inl (AttributeError (''st.session_state has no attribute '' @ dq # ''trip_data'' @ [dq]))), s), [])
      | Some d \<Rightarrow> (case m b d of ((r, d'), es) \<Rightarrow> ((r, s\<lparr>ss_trip_data := Some d'\<rparr>), es)))"

definition trip_trigger_i :: "world \<Rightarrow> form \<Rightarrow> bool \<Rightarrow> (session, unit) itm" where
  "trip_trigger_i w f clicked =
     it_bind it_get (\<lambda>s.
       if clicked \<or> py_truthy (case ss_trip_planned s of None \<Rightarrow> PNone | Some v \<Rightarrow> v) then
         (if missing_city f then it_act (py_emit (Show (UiError missing_cities_msg)))
          else if ss_trip_planned s = None then
            it_bind (it_modify (\<lambda>s. s\<lparr>ss_trip_planned := Some (PBool True), ss_trip_data := Some []\<rparr>)) (\<lambda>_.
            on_trip_data_i (plan_block_i w f))
          else it_act (py_return ()))
       else it_act (py_return ()))"

definition script_i :: "world \<Rightarrow> form \<Rightarrow> bool \<Rightarrow> (session, unit) itm" where
  "script_i w f clicked =
     it_bind (it_act (client_init w)) (\<lambda>_.
     it_bind (it_act page_header) (\<lambda>_.
     it_bind (trip_trigger_i w f clicked) (\<lambda>_.
     it_bind it_get (\<lambda>s.
     it_bind (it_act (render_trip (f_destination f) (ss_trip_data s))) (\<lambda>_.
     it_act page_footer)))))"

text \<open>An interrupted run leaves the page it wrote so far until the next run replaces it.\<close>

definition run_script_i :: "world \<Rightarrow> form \<Rightarrow> bool \<Rightarrow> nat option \<Rightarrow> session \<Rightarrow> session \<times> effect list" where
  "run_script_i w f clicked b s =
     (case script_i w f clicked b s of
        ((Some (Inr _), s'), es) \<Rightarrow> (s', es)
      | ((Some (Inl e), s'), es) \<Rightarrow> (s', es @ [Show (UiException (exc_str e))])
      | ((None, s'), es) \<Rightarrow> (s', es))"

text \<open>
  A sequence of runs, each complete (\<open>None\<close>) or interrupted at a given UI element: the
  pages written, one per run, and the final session.
\<close>

fun run_trace :: "(world \<times> form \<times> bool \<times> nat option) list \<Rightarrow> session \<Rightarrow> session \<times> effect list list" where
  "run_trace [] s = (s, [])"
| "run_trace ((w, f, c, b) # rs) s =
     (case run_script_i w f c b s of (s', es) \<Rightarrow> (case run_trace rs s' of (s'', ess) \<Rightarrow> (s'', es # ess)))"

inductive reachable :: "session \<Rightarrow> bool" where
  start: "reachable empty_session"
| rerun: "reachable s \<Longrightarrow> reachable (fst (run_script_i w f c b s))"


text \<open>
  A stored plan the page can show: exactly the eight keys in the order the block writes
  them, readable as a plan, and a distance that is \<^verbatim>\<open>None\<close> or a float.
\<close>

definition stored_plan_ok :: "pydict \<Rightarrow> bool" where
  "stored_plan_ok d \<longleftrightarrow>
     map fst d = plan_keys \<and>
     (case plan_of_dict d of
        None \<Rightarrow> False
      | Some p \<Rightarrow> (case tp_route p of None \<Rightarrow> True | Some r \<Rightarrow> py_is_float (rr_distance_km r)))"

text \<open>
  What a planning run interrupted at the route adapter's error message (line 109) leaves:
  the narrative and the slug, in this order, and nothing of the route, the weather or the
  calendar.
\<close>

definition partial_plan :: "pydict \<Rightarrow> bool" where
  "partial_plan d \<longleftrightarrow>
     map fst d = [''response'', ''destination_slug''] \<and>
     (case dict_lookup d ''destination_slug'' of Some (PStr _) \<Rightarrow> True | _ \<Rightarrow> False)"

text \<open>
  The session invariant: \<^verbatim>\<open>trip_data\<close> exists exactly when \<^verbatim>\<open>trip_planned\<close>
  does, the flag is \<^verbatim>\<open>True\<close>, and the data is empty, a whole plan, or the partial plan
  an interrupted run leaves.
\<close>

definition session_inv :: "session \<Rightarrow> bool" where
  "session_inv s \<longleftrightarrow>
     (case ss_trip_planned s of
        None \<Rightarrow> ss_trip_data s = None
      | Some v \<Rightarrow> v = PBool True \<and>
          (case ss_trip_data s of None \<Rightarrow> False | Some d \<Rightarrow> d = [] \<or> stored_plan_ok d \<or> partial_plan d))"

definition partial_session :: "session \<Rightarrow> bool" where
  "partial_session s = (case ss_trip_data s of None \<Rightarrow> False | Some d \<Rightarrow> partial_plan d)"

definition header_effects :: "effect list" where
  "header_effects = [Show (UiTitle page_title), Show (UiMarkdown page_intro),
                     Show (UiSubheader ''Additional Preferences'')]"

definition footer_effects :: "effect list" where
  "footer_effects = [Show (UiMarkdown ''---''), Show (UiMarkdown footer_html)]"

text \<open>A request for the demonstration world: Delhi to Paris, 1 to 10 June 2025.\<close>

definition demo_form :: form where
  "demo_form =
     \<lparr>f_source = ''Delhi'', f_destination = ''Paris'', f_dates = [Date 2025 6 1, Date 2025 6 10],
      f_budget = 2000, f_preferences = [''Sightseeing''], f_accommodation = ''Hotel'',
      f_transportation = [''Flight''], f_dietary = []\<rparr>"

text \<open>The demonstration world without \<^verbatim>\<open>AZURE_OPENAI_KEY\<close>: the client constructor raises.\<close>

definition demo_no_key_world :: world where
  "demo_no_key_world =
     demo_world\<lparr>w_env := (\<lambda>k. if k = ''AZURE_OPENAI_KEY'' then None else demo_env k),
                w_client := (\<lambda>key endpoint. case key of None \<Rightarrow> Some (Exception ''The api_key client option must be set'')
                                               | Some _ \<Rightarrow> None)\<rparr>"

section \<open>Properties of a run\<close>

lemma trip_trigger_planned:
  "ss_trip_planned s = Some v \<Longrightarrow>
   trip_trigger w f c s =
     ((Inr (), s), if (c \<or> py_truthy v) \<and> missing_city f then [Show (UiError missing_cities_msg)] else [])"
  by (auto simp: trip_trigger_def)

lemma trip_trigger_missing:
  "missing_city f \<Longrightarrow> fst (trip_trigger w f c s) = (Inr (), s) \<and> calls (snd (trip_trigger w f c s)) = []"
  by (auto simp: trip_trigger_def)

lemma trip_trigger_idle:
  "ss_trip_planned s = None \<Longrightarrow> \<not> c \<Longrightarrow> trip_trigger w f c s = ((Inr (), s), [])"
  by (simp add: trip_trigger_def)

lemma trip_trigger_plan:
  "ss_trip_planned s = None \<Longrightarrow> c \<Longrightarrow> \<not> missing_city f \<Longrightarrow>
   trip_trigger w f c s =
     ((Inr (), s\<lparr>ss_trip_planned := Some (PBool True), ss_trip_data := Some (snd (fst (plan_block w f [])))\<rparr>),
      snd (plan_block w f []))"
  using plan_block_never_raises[of w f]
  by (cases "plan_block w f []") (auto simp: trip_trigger_def on_trip_data_def)

lemma trip_trigger_no_plan:
  "\<not> (ss_trip_planned s = None \<and> c \<and> \<not> missing_city f) \<Longrightarrow>
   fst (trip_trigger w f c s) = (Inr (), s) \<and> calls (snd (trip_trigger w f c s)) = []"
  by (cases c; cases "ss_trip_planned s") (auto simp: trip_trigger_planned trip_trigger_missing trip_trigger_idle)

lemma trip_trigger_ok: "fst (fst (trip_trigger w f c s)) = Inr ()"
  by (cases "ss_trip_planned s"; cases c; cases "missing_city f")
     (simp_all add: trip_trigger_planned trip_trigger_missing trip_trigger_idle trip_trigger_plan)

lemma run_script_client_error:
  "w_client w (w_env w ''AZURE_OPENAI_KEY'') (w_env w ''AZURE_OPENAI_ENDPOINT'') = Some e \<Longrightarrow>
   run_script w f c s = (s, [Show (UiException (exc_str e))])"
  by (simp add: run_script_def script_def client_init_def)

lemma st_bind_Inr: "m s = ((Inr a, s'), t) \<Longrightarrow> st_bind m f s = (fst (f a s'), t @ snd (f a s'))"
  by (simp add: st_bind_def split: prod.split)

lemma run_script_client_ok:
  assumes "w_client w (w_env w ''AZURE_OPENAI_KEY'') (w_env w ''AZURE_OPENAI_ENDPOINT'') = None"
  shows "run_script w f c s =
     (snd (fst (trip_trigger w f c s)),
      header_effects @ snd (trip_trigger w f c s)
      @ snd (render_trip (f_destination f) (ss_trip_data (snd (fst (trip_trigger w f c s)))))
      @ (case fst (render_trip (f_destination f) (ss_trip_data (snd (fst (trip_trigger w f c s))))) of
           Inr _ \<Rightarrow> footer_effects | Inl e \<Rightarrow> [Show (UiException (exc_str e))]))"
proof -
  obtain s' es where tt: "trip_trigger w f c s = ((Inr (), s'), es)"
    using trip_trigger_ok[of w f c s] by (cases "trip_trigger w f c s") auto
  show ?thesis
    using assms
    by (cases "fst (render_trip (f_destination f) (ss_trip_data s'))")
       (simp_all add: tt st_bind_Inr run_script_def script_def client_init_def page_header_def
        page_footer_def header_effects_def footer_effects_def st_get_def)
qed

lemma run_script_state:
  "fst (run_script w f c s) =
     (if w_client w (w_env w ''AZURE_OPENAI_KEY'') (w_env w ''AZURE_OPENAI_ENDPOINT'') = None
      then snd (fst (trip_trigger w f c s)) else s)"
  by (cases "w_client w (w_env w ''AZURE_OPENAI_KEY'') (w_env w ''AZURE_OPENAI_ENDPOINT'')")
     (simp_all add: run_script_client_ok run_script_client_error)

lemma run_script_calls:
  "calls (snd (run_script w f c s)) =
     (if w_client w (w_env w ''AZURE_OPENAI_KEY'') (w_env w ''AZURE_OPENAI_ENDPOINT'') = None
      then calls (snd (trip_trigger w f c s)) else [])"
  by (cases "w_client w (w_env w ''AZURE_OPENAI_KEY'') (w_env w ''AZURE_OPENAI_ENDPOINT'')")
     (simp_all add: run_script_client_ok run_script_client_error render_trip_calls header_effects_def
      footer_effects_def split: sum.split)

lemma run_script_planned:
  "ss_trip_planned s \<noteq> None \<Longrightarrow> fst (run_script w f c s) = s \<and> calls (snd (run_script w f c s)) = []"
  by (cases "ss_trip_planned s") (simp_all add: run_script_state run_script_calls trip_trigger_planned)

lemma run_script_calls_plan:
  assumes "calls (snd (run_script w f c s)) \<noteq> []"
  shows "ss_trip_planned (fst (run_script w f c s)) \<noteq> None"
proof (cases "ss_trip_planned s = None \<and> c \<and> \<not> missing_city f")
  case True
  then show ?thesis using assms
    by (simp add: run_script_state run_script_calls trip_trigger_plan split: if_splits)
next
  case False
  then have "calls (snd (trip_trigger w f c s)) = []"
    by (simp add: trip_trigger_no_plan)
  then show ?thesis using assms by (simp add: run_script_calls split: if_splits)
qed

text \<open>Runs that may be interrupted.\<close>

lemma sim_on_trip_data: "m None = completed \<circ> m' \<Longrightarrow> on_trip_data_i m None = completed \<circ> on_trip_data m'"
proof (rule ext)
  fix s
  assume m: "m None = completed \<circ> m'"
  show "on_trip_data_i m None s = (completed \<circ> on_trip_data m') s"
  proof (cases "ss_trip_data s")
    case (Some d)
    then show ?thesis using fun_cong[OF m, of d]
      by (cases "m' d") (auto simp: on_trip_data_i_def on_trip_data_def completed_def)
  qed (simp add: on_trip_data_i_def on_trip_data_def)
qed

lemma run_script_i_None: "run_script_i w f c None s = run_script w f c s"
proof -
  have "script_i w f c None = completed \<circ> script w f c"
    unfolding script_i_def script_def trip_trigger_i_def trip_trigger_def
    by (rule sim_rules sim_on_trip_data plan_block_i_completed)+
  then show ?thesis
    using fun_cong[of "script_i w f c None" "completed \<circ> script w f c" s]
    by (cases "script w f c s") (auto simp: run_script_i_def run_script_def split: sum.split)
qed

lemma reachable_run: "reachable s \<Longrightarrow> reachable (fst (run_script w f c s))"
  using reachable.rerun[of s w f c None] by (simp add: run_script_i_None)

lemma ui_cut_prefix: "ui_cut k es = Some t \<Longrightarrow> \<exists>u. es = t @ u"
  by (induction k es arbitrary: t rule: ui_cut.induct) auto

lemma it_cut_calls: "calls es = [] \<Longrightarrow> it_cut b es = Some t \<Longrightarrow> calls t = []"
  by (cases b) (auto simp: it_cut_def dest!: ui_cut_prefix)

lemma it_act_state: "snd (fst (it_act m b s)) = s"
  by (simp split: option.split)

lemma it_act_calls: "calls (snd m) = [] \<Longrightarrow> calls (snd (it_act m b s)) = []"
  by (auto split: option.split dest: it_cut_calls)

lemma page_header_eq: "page_header = (Inr (), header_effects)"
  by (simp add: page_header_def header_effects_def)

lemma page_footer_eq: "page_footer = (Inr (), footer_effects)"
  by (simp add: page_footer_def footer_effects_def)

lemma trip_trigger_i_plan:
  "ss_trip_planned s = None \<Longrightarrow> c \<Longrightarrow> \<not> missing_city f \<Longrightarrow>
   snd (fst (trip_trigger_i w f c b s)) =
     s\<lparr>ss_trip_planned := Some (PBool True), ss_trip_data := Some (snd (fst (plan_block_i w f b [])))\<rparr> \<and>
   calls (snd (trip_trigger_i w f c b s)) = calls (snd (plan_block_i w f b []))"
  by (simp add: trip_trigger_i_def on_trip_data_i_def split: prod.split)

lemma trip_trigger_i_no_plan:
  "\<not> (ss_trip_planned s = None \<and> c \<and> \<not> missing_city f) \<Longrightarrow>
   snd (fst (trip_trigger_i w f c b s)) = s \<and> calls (snd (trip_trigger_i w f c b s)) = []"
  by (auto simp: trip_trigger_i_def it_act_state it_act_calls simp del: it_act_apply)

lemma script_i_client_error:
  "w_client w (w_env w ''AZURE_OPENAI_KEY'') (w_env w ''AZURE_OPENAI_ENDPOINT'') = Some e \<Longrightarrow>
   run_script_i w f c b s = (s, [Show (UiException (exc_str e))])"
  by (simp add: run_script_i_def script_i_def client_init_def)

text \<open>With a working client, an interrupted run's session and calls are those of its trigger.\<close>

lemma script_i_trigger:
  assumes "w_client w (w_env w ''AZURE_OPENAI_KEY'') (w_env w ''AZURE_OPENAI_ENDPOINT'') = None"
  shows "fst (run_script_i w f c b s) =
           (case it_cut b header_effects of None \<Rightarrow> snd (fst (trip_trigger_i w f c (it_left b header_effects) s)) | Some _ \<Rightarrow> s) \<and>
         calls (snd (run_script_i w f c b s)) =
           (case it_cut b header_effects of None \<Rightarrow> calls (snd (trip_trigger_i w f c (it_left b header_effects) s)) | Some _ \<Rightarrow> [])"
proof (cases "it_cut b header_effects")
  case (Some t)
  have "calls t = []" using it_cut_calls[OF _ Some] by (simp add: header_effects_def)
  with Some assms show ?thesis
    by (simp add: run_script_i_def script_i_def client_init_def page_header_eq)
next
  case None
  obtain r s1 t1 where tt: "trip_trigger_i w f c (it_left b header_effects) s = ((r, s1), t1)"
    by (metis prod.exhaust)
  have render: "calls t = []" if "it_cut b' (snd (render_trip dest td)) = Some t" for b' dest td t
    using it_cut_calls[OF render_trip_calls that] .
  have footer: "calls t = []" if "it_cut b' [Show (UiMarkdown ''---''), Show (UiMarkdown footer_html)] = Some t" for b' t
    using it_cut_calls[OF _ that] by simp
  show ?thesis
    using None assms tt
    by (cases r) (auto simp: run_script_i_def script_i_def client_init_def page_header_eq page_footer_eq
        it_bind_def it_get_def render_trip_calls footer_effects_def header_effects_def
        split: option.split sum.split prod.split dest: render footer)
qed

lemma run_script_i_planned:
  "ss_trip_planned s \<noteq> None \<Longrightarrow> fst (run_script_i w f c b s) = s \<and> calls (snd (run_script_i w f c b s)) = []"
  by (cases "w_client w (w_env w ''AZURE_OPENAI_KEY'') (w_env w ''AZURE_OPENAI_ENDPOINT'')")
     (simp_all add: script_i_trigger script_i_client_error trip_trigger_i_no_plan split: option.split)

lemma run_script_i_calls_plan:
  assumes "calls (snd (run_script_i w f c b s)) \<noteq> []"
  shows "ss_trip_planned (fst (run_script_i w f c b s)) \<noteq> None"
proof (cases "w_client w (w_env w ''AZURE_OPENAI_KEY'') (w_env w ''AZURE_OPENAI_ENDPOINT'')")
  case None
  then show ?thesis using assms
    by (cases "ss_trip_planned s = None \<and> c \<and> \<not> missing_city f")
       (auto simp: script_i_trigger trip_trigger_i_plan trip_trigger_i_no_plan split: option.splits)
qed (use assms in \<open>simp add: script_i_client_error\<close>)

lemma run_trace_planned:
  "ss_trip_planned s \<noteq> None \<Longrightarrow> filter (\<lambda>es. calls es \<noteq> []) (snd (run_trace rs s)) = []"
proof (induction rs arbitrary: s)
  case Nil
  then show ?case by simp
next
  case (Cons r rs)
  obtain w f c b where r: "r = (w, f, c, b)" by (cases r) auto
  show ?case
    using Cons.prems Cons.IH[of s] run_script_i_planned[of s w f c b]
    by (cases "run_script_i w f c b s"; cases "run_trace rs s") (simp add: r)
qed

lemma plan_keys_dict:
  assumes "map fst d = plan_keys"
  shows "\<exists>r sl km cs ce rc fc cl. d = [(''response'', r), (''destination_slug'', sl), (''distance_km'', km),
           (''coord_start'', cs), (''coord_end'', ce), (''route_coords'', rc), (''forecast'', fc), (''calendar_link'', cl)]"
  using assms by (auto simp: plan_keys_def map_eq_Cons_conv)

lemma stored_plan_ok_dict:
  "stored_plan_ok d \<longleftrightarrow>
     (\<exists>r sl km cs ce rc fc cl. d = plan_dict r sl (km, cs, ce, rc) fc cl \<and> (km = PNone \<or> py_is_float km))"
proof
  assume ok: "stored_plan_ok d"
  then obtain r s2 km cs ce rc fc cl where d: "d = [(''response'', r), (''destination_slug'', s2), (''distance_km'', km),
           (''coord_start'', cs), (''coord_end'', ce), (''route_coords'', rc), (''forecast'', fc), (''calendar_link'', cl)]"
    using plan_keys_dict[of d] by (auto simp: stored_plan_ok_def)
  with ok obtain sl where "s2 = PStr sl"
    by (cases s2) (auto simp: stored_plan_ok_def plan_of_dict_def dict_lookup_def)
  with ok d show "\<exists>r sl km cs ce rc fc cl. d = plan_dict r sl (km, cs, ce, rc) fc cl \<and> (km = PNone \<or> py_is_float km)"
    by (auto simp: stored_plan_ok_def plan_of_dict_def dict_lookup_def plan_dict_def route_of_def split: if_splits)
next
  assume "\<exists>r sl km cs ce rc fc cl. d = plan_dict r sl (km, cs, ce, rc) fc cl \<and> (km = PNone \<or> py_is_float km)"
  then obtain r sl km cs ce rc fc cl where d: "d = plan_dict r sl (km, cs, ce, rc) fc cl"
    and k: "km = PNone \<or> py_is_float km" by blast
  have "map fst d = plan_keys" by (simp add: d plan_dict_def plan_keys_def)
  with k show "stored_plan_ok d" by (auto simp: stored_plan_ok_def d plan_of_plan_dict route_of_def)
qed

lemma plan_block_stored:
  "snd (fst (plan_block w f [])) = [] \<or> stored_plan_ok (snd (fst (plan_block w f [])))"
proof (cases "trip_prompt f")
  case (Inl e)
  then show ?thesis by (simp add: plan_block_prompt_error)
next
  case (Inr m)
  then obtain d0 d1 ds where "f_dates f = d0 # d1 # ds"
    using trip_prompt_Inr_dates[of f m] by (metis One_nat_def Suc_1 Suc_le_length_iff)
  moreover obtain km cs ce rc where rt: "projr (fst (get_distance_km w (f_source f) (f_destination f))) = (km, cs, ce, rc)"
    by (metis prod_cases4)
  moreover have "km = PNone \<or> py_is_float km"
    using get_distance_km_float[of w "f_source f" "f_destination f"] rt by (auto simp: no_route_def)
  then have "stored_plan_ok (plan_dict r sl (km, cs, ce, rc) fc cl)" for r sl fc cl
    using stored_plan_ok_dict by blast
  ultimately show ?thesis using Inr by (simp add: plan_block_prompt_ok)
qed

lemma session_inv_empty: "session_inv empty_session"
  by (simp add: session_inv_def empty_session_def)

lemma run_script_inv:
  assumes "session_inv s"
  shows "session_inv (fst (run_script w f c s))"
proof (cases "w_client w (w_env w ''AZURE_OPENAI_KEY'') (w_env w ''AZURE_OPENAI_ENDPOINT'') = None
              \<and> ss_trip_planned s = None \<and> c \<and> \<not> missing_city f")
  case True
  then show ?thesis
    using plan_block_stored[of w f]
    by (auto simp: run_script_state trip_trigger_plan session_inv_def)
next
  case False
  then have "fst (run_script w f c s) = s"
    by (auto simp: run_script_state trip_trigger_no_plan)
  then show ?thesis using assms by simp
qed

lemma partial_plan_dict: "partial_plan d \<Longrightarrow> \<exists>r sl. d = [(''response'', r), (''destination_slug'', PStr sl)]"
  by (auto simp: partial_plan_def map_eq_Cons_conv dict_lookup_def split: option.splits pyval.splits)

lemma stored_plan_not_partial: "stored_plan_ok d \<Longrightarrow> \<not> partial_plan d"
  by (simp add: stored_plan_ok_def partial_plan_def plan_keys_def)

lemma render_plan_partial:
  "fst (render_plan dest [(''response'', r), (''destination_slug'', PStr sl)]) = Inl (KeyError (PStr ''forecast''))"
  by (simp add: render_plan_def dict_lookup_def)

text \<open>From a planned session holding the partial plan every run stops at \<^verbatim>\<open>data["forecast"]\<close> (line 264).\<close>

lemma partial_run:
  assumes "ss_trip_planned s = Some v" "ss_trip_data s = Some [(''response'', r), (''destination_slug'', PStr sl)]"
    and "w_client w (w_env w ''AZURE_OPENAI_KEY'') (w_env w ''AZURE_OPENAI_ENDPOINT'') = None"
  shows "fst (run_script w f c s) = s \<and>
         last (snd (run_script w f c s)) = Show (UiException (exc_str (KeyError (PStr ''forecast''))))"
  using assms by (simp add: run_script_client_ok trip_trigger_planned render_trip_def render_plan_partial)

lemma session_inv_render:
  "session_inv s \<Longrightarrow> \<not> partial_session s \<Longrightarrow> fst (render_trip dest (ss_trip_data s)) = Inr ()"
  by (auto simp: session_inv_def partial_session_def render_trip_def render_plan_empty stored_plan_ok_dict
      render_plan_ok split: option.splits)

lemma run_script_i_inv:
  assumes "session_inv s"
  shows "session_inv (fst (run_script_i w f c b s))"
proof (cases "w_client w (w_env w ''AZURE_OPENAI_KEY'') (w_env w ''AZURE_OPENAI_ENDPOINT'')")
  case None
  have plan: "session_inv (s\<lparr>ss_trip_planned := Some (PBool True), ss_trip_data := Some (snd (fst (plan_block_i w f b' [])))\<rparr>)"
    for b'
    using plan_block_i_dict[of w f b'] plan_block_stored[of w f]
    by (auto simp: session_inv_def partial_plan_def dict_lookup_def)
  show ?thesis
    using None assms plan
    by (cases "ss_trip_planned s = None \<and> c \<and> \<not> missing_city f")
       (auto simp: script_i_trigger trip_trigger_i_plan trip_trigger_i_no_plan split: option.split)
qed (use assms in \<open>simp add: script_i_client_error\<close>)

text \<open>
  C3. The session invariant holds in every reachable session, interrupted runs included:
  \<^verbatim>\<open>trip_data\<close> is present exactly when \<^verbatim>\<open>trip_planned\<close> is, the flag is
  \<^verbatim>\<open>True\<close>, and the stored data is empty, a whole plan with all eight keys, or the
  narrative and the slug alone, left by a run interrupted at the routing error.
\<close>

theorem reachable_session_inv: "reachable s \<Longrightarrow> session_inv s"
  by (induction rule: reachable.induct) (simp_all add: session_inv_empty run_script_i_inv)

theorem reachable_session_inv_witness:
  "session_inv (fst (run_script demo_world (demo_form\<lparr>f_dates := [Date 2025 6 1]\<rparr>) True empty_session))"
  using reachable_session_inv reachable_run[OF reachable.start] by blast

text \<open>
  C7. From a reachable session, a run with a working client runs to the end of the script
  and draws the footer exactly when the session does not hold the partial plan of an
  interrupted run: from that one every run stops with the uncaught
  \<^verbatim>\<open>KeyError('forecast')\<close> of line 264, whatever the inputs.
\<close>

theorem reachable_run_completes:
  assumes "reachable s"
    and "w_client w (w_env w ''AZURE_OPENAI_KEY'') (w_env w ''AZURE_OPENAI_ENDPOINT'') = None"
  shows "(\<exists>es. snd (run_script w f c s) = header_effects @ es @ footer_effects) \<longleftrightarrow> \<not> partial_session s"
proof -
  have inv: "session_inv s" using assms(1)
    by (induction rule: reachable.induct) (simp_all add: session_inv_empty run_script_i_inv)
  let ?s1 = "snd (fst (trip_trigger w f c s))"
  have inv1: "session_inv ?s1"
    using run_script_inv[OF inv, of w f c] by (simp add: run_script_state assms(2))
  have part: "partial_session ?s1 \<longleftrightarrow> partial_session s"
  proof (cases "ss_trip_planned s = None \<and> c \<and> \<not> missing_city f")
    case True
    then show ?thesis
      using inv plan_block_stored[of w f] stored_plan_not_partial
      by (auto simp: trip_trigger_plan partial_session_def session_inv_def partial_plan_def)
  qed (simp add: trip_trigger_no_plan)
  show ?thesis
  proof (cases "partial_session s")
    case False
    then show ?thesis
      using session_inv_render[OF inv1, of "f_destination f"] part by (simp add: run_script_client_ok assms(2))
  next
    case True
    then obtain r sl where d: "ss_trip_data s = Some [(''response'', r), (''destination_slug'', PStr sl)]"
      using partial_plan_dict by (auto simp: partial_session_def split: option.splits)
    moreover obtain v where "ss_trip_planned s = Some v"
      using inv d by (auto simp: session_inv_def split: option.splits)
    ultimately have "last (snd (run_script w f c s)) = Show (UiException (exc_str (KeyError (PStr ''forecast''))))"
      using partial_run assms(2) by blast
    then show ?thesis
      using True by (auto simp: footer_effects_def)
  qed
qed

theorem reachable_run_completes_witness:
  "(\<exists>es. snd (run_script demo_world demo_form False (fst (run_script demo_world demo_form True empty_session))) =
         header_effects @ es @ footer_effects) \<longleftrightarrow>
   \<not> partial_session (fst (run_script demo_world demo_form True empty_session))"
proof (rule reachable_run_completes)
  show "reachable (fst (run_script demo_world demo_form True empty_session))"
    by (rule reachable_run[OF reachable.start])
  show "w_client demo_world (w_env demo_world ''AZURE_OPENAI_KEY'') (w_env demo_world ''AZURE_OPENAI_ENDPOINT'') = None"
    by (simp add: demo_world_def)
qed


lemma run_trace_calls_bound:
  "length (filter (\<lambda>es. calls es \<noteq> []) (snd (run_trace rs s))) \<le> (if ss_trip_planned s = None then 1 else 0)"
proof (induction rs arbitrary: s)
  case Nil
  then show ?case by simp
next
  case (Cons r rs)
  obtain w f c b where r: "r = (w, f, c, b)" by (cases r) auto
  obtain s' es where run: "run_script_i w f c b s = (s', es)" by (cases "run_script_i w f c b s") auto
  have tail: "snd (run_trace (r # rs) s) = es # snd (run_trace rs s')"
    by (cases "run_trace rs s'") (simp add: r run)
  show ?case
  proof (cases "ss_trip_planned s = None")
    case unplanned: True
    show ?thesis
    proof (cases "calls es = []")
      case True
      then show ?thesis using unplanned Cons.IH[of s'] by (simp add: tail split: if_splits)
    next
      case False
      then have "ss_trip_planned s' \<noteq> None"
        using run_script_i_calls_plan[of w f c b s] by (simp add: run)
      then show ?thesis using unplanned run_trace_planned[of s' rs] by (simp add: tail)
    qed
  next
    case False
    then have "s' = s" "calls es = []" using run_script_i_planned[of s w f c b] by (simp_all add: run)
    then show ?thesis using False run_trace_planned[of s rs] by (simp add: tail)
  qed
qed

text \<open>
  C2. Over any sequence of runs from a fresh session, complete or interrupted, whatever
  the inputs, clicks and service answers, at most one run makes outbound calls: the plan
  is computed once per session and never again.
\<close>

theorem at_most_one_planning_run:
  "length (filter (\<lambda>es. calls es \<noteq> []) (snd (run_trace rs empty_session))) \<le> 1"
  using run_trace_calls_bound[of rs empty_session] by (simp add: empty_session_def)

text \<open>
  C4. Once \<^verbatim>\<open>trip_planned\<close> is set, no later run, complete or interrupted,
  changes the session or calls a service, whatever is typed, clicked or answered: a new
  request in the same session is never planned (there is no reset).
\<close>

theorem planned_session_frozen:
  assumes "ss_trip_planned s \<noteq> None"
  shows "fst (run_trace rs s) = s \<and> (\<forall>es \<in> set (snd (run_trace rs s)). calls es = [])"
  using assms
proof (induction rs)
  case Nil
  then show ?case by simp
next
  case (Cons r rs)
  obtain w f c b where r: "r = (w, f, c, b)" by (cases r) auto
  have "fst (run_script_i w f c b s) = s" "calls (snd (run_script_i w f c b s)) = []"
    using run_script_i_planned[OF Cons.prems] by simp_all
  then show ?case using Cons
    by (cases "run_script_i w f c b s"; cases "run_trace rs s") (simp add: r)
qed

theorem planned_session_frozen_witness:
  "fst (run_trace [(demo_world, demo_form, True, None)] \<lparr>ss_trip_planned = Some (PBool True), ss_trip_data = Some []\<rparr>)
     = \<lparr>ss_trip_planned = Some (PBool True), ss_trip_data = Some []\<rparr> \<and>
   map calls (snd (run_trace [(demo_world, demo_form, True, None)]
                     \<lparr>ss_trip_planned = Some (PBool True), ss_trip_data = Some []\<rparr>)) = [[]]"
  using planned_session_frozen[of "\<lparr>ss_trip_planned = Some (PBool True), ss_trip_data = Some []\<rparr>"
      "[(demo_world, demo_form, True, None)]"]
  by (simp split: prod.split)

text \<open>
  C8. The city check comes before any adapter: a request with an empty source or
  destination never calls a service and leaves the session as it was; in a session not
  yet planned a click shows the error message.
\<close>

theorem missing_city_no_calls:
  assumes "missing_city f"
  shows "fst (run_script w f c s) = s \<and> calls (snd (run_script w f c s)) = [] \<and>
    (w_client w (w_env w ''AZURE_OPENAI_KEY'') (w_env w ''AZURE_OPENAI_ENDPOINT'') = None \<longrightarrow> c \<longrightarrow>
     Show (UiError missing_cities_msg) \<in> set (snd (run_script w f c s)))"
  using assms
  by (auto simp: run_script_state run_script_calls trip_trigger_missing run_script_client_ok trip_trigger_def)

theorem missing_city_no_calls_witness:
  "fst (run_script demo_world (demo_form\<lparr>f_destination := []\<rparr>) True empty_session) = empty_session \<and>
   calls (snd (run_script demo_world (demo_form\<lparr>f_destination := []\<rparr>) True empty_session)) = [] \<and>
   Show (UiError missing_cities_msg) \<in> set (snd (run_script demo_world (demo_form\<lparr>f_destination := []\<rparr>) True empty_session))"
  using missing_city_no_calls[of "demo_form\<lparr>f_destination := []\<rparr>" demo_world True empty_session]
  by (simp add: missing_city_def demo_world_def)

text \<open>
  C1. A click with both cities and two dates, in a session not yet planned, plans: the
  session gets \<^verbatim>\<open>trip_planned\<close> and a \<^verbatim>\<open>trip_data\<close> that reads back as the
  abstract plan of the request, and the run's outbound calls are the chat completion,
  the route adapter's calls, the weather adapter's calls and one calendar insertion, in
  this order.
\<close>

theorem click_plans:
  assumes "w_client w (w_env w ''AZURE_OPENAI_KEY'') (w_env w ''AZURE_OPENAI_ENDPOINT'') = None"
    and "ss_trip_planned s = None" and "\<not> missing_city f" and "f_dates f = d0 # d1 # ds"
  shows "ss_trip_planned (fst (run_script w f True s)) = Some (PBool True) \<and>
         map_option plan_of_dict (ss_trip_data (fst (run_script w f True s))) = Some (plan_spec w f) \<and>
         plan_spec w f \<noteq> None \<and>
         calls (snd (run_script w f True s)) =
             AiChat (w_env w ''AZURE_DEPLOYMENT_ID'') (ai_messages (projr (trip_prompt f)))
             # calls (snd (get_distance_km w (f_source f) (f_destination f)))
             @ calls (snd (get_weather w (f_destination f)))
             @ [CalendarInsert (calendar_creds w) ''primary''
                  (event_body (trip_summary (f_destination f)) (midnight d0) (midnight d1))]"
proof -
  obtain m where m: "trip_prompt f = Inr m" using trip_prompt_dates[OF assms(4)] by blast
  show ?thesis
    using assms m
    by (simp add: run_script_state run_script_calls trip_trigger_plan plan_block_prompt_ok
        plan_of_plan_dict plan_spec_def get_ai_response_value add_event_to_calendar_value
        get_ai_response_effects add_event_to_calendar_effects start_of_day_def)
qed

theorem click_plans_witness:
  "ss_trip_planned (fst (run_script demo_world demo_form True empty_session)) = Some (PBool True) \<and>
   map_option plan_of_dict (ss_trip_data (fst (run_script demo_world demo_form True empty_session))) =
     Some (plan_spec demo_world demo_form) \<and>
   plan_spec demo_world demo_form \<noteq> None \<and>
   calls (snd (run_script demo_world demo_form True empty_session)) =
           AiChat (Some ''travel-gpt'') (ai_messages (projr (trip_prompt demo_form)))
           # calls (snd (get_distance_km demo_world ''Delhi'' ''Paris''))
           @ calls (snd (get_weather demo_world ''Paris''))
           @ [CalendarInsert (calendar_creds demo_world) ''primary''
                (event_body (trip_summary ''Paris'') (midnight (Date 2025 6 1)) (midnight (Date 2025 6 10)))]"
  using click_plans[of demo_world empty_session demo_form "Date 2025 6 1" "Date 2025 6 10" "[]"]
  by (simp add: demo_world_def demo_env_def demo_form_def empty_session_def missing_city_def)

text \<open>
  C9. A click with both cities but fewer than two dates (the date widget while the
  second date is being picked) sets \<^verbatim>\<open>trip_planned\<close> and an empty
  \<^verbatim>\<open>trip_data\<close> before the prompt fails with \<^verbatim>\<open>IndexError\<close>; the session is
  then stuck: no later run, whatever its inputs, changes it, calls a service or shows a
  plan.
\<close>

theorem short_dates_stuck:
  assumes "w_client w (w_env w ''AZURE_OPENAI_KEY'') (w_env w ''AZURE_OPENAI_ENDPOINT'') = None"
    and "\<not> missing_city f" and "length (f_dates f) < 2"
  shows "run_script w f True empty_session =
           (\<lparr>ss_trip_planned = Some (PBool True), ss_trip_data = Some []\<rparr>,
            header_effects @ [Show (UiError ''An error occurred: tuple index out of range''),
                              Show (UiText (w_traceback w (IndexError ''tuple index out of range'')))]
            @ footer_effects) \<and>
         (\<forall>w' f' c'. fst (run_script w' f' c' \<lparr>ss_trip_planned = Some (PBool True), ss_trip_data = Some []\<rparr>) =
                        \<lparr>ss_trip_planned = Some (PBool True), ss_trip_data = Some []\<rparr> \<and>
                      calls (snd (run_script w' f' c' \<lparr>ss_trip_planned = Some (PBool True), ss_trip_data = Some []\<rparr>)) = [] \<and>
                      Show (UiSuccess ready_text) \<notin>
                        set (snd (run_script w' f' c' \<lparr>ss_trip_planned = Some (PBool True), ss_trip_data = Some []\<rparr>)))"
proof -
  have first: "run_script w f True empty_session =
           (\<lparr>ss_trip_planned = Some (PBool True), ss_trip_data = Some []\<rparr>,
            header_effects @ [Show (UiError ''An error occurred: tuple index out of range''),
                              Show (UiText (w_traceback w (IndexError ''tuple index out of range'')))]
            @ footer_effects)"
    using assms
    by (simp add: run_script_client_ok trip_trigger_plan empty_session_def plan_block_prompt_error
        trip_prompt_short render_trip_def render_plan_empty)
  have "fst (run_script w' f' c' \<lparr>ss_trip_planned = Some (PBool True), ss_trip_data = Some []\<rparr>) =
          \<lparr>ss_trip_planned = Some (PBool True), ss_trip_data = Some []\<rparr> \<and>
        calls (snd (run_script w' f' c' \<lparr>ss_trip_planned = Some (PBool True), ss_trip_data = Some []\<rparr>)) = [] \<and>
        Show (UiSuccess ready_text) \<notin>
          set (snd (run_script w' f' c' \<lparr>ss_trip_planned = Some (PBool True), ss_trip_data = Some []\<rparr>))" for w' f' c'
    by (cases "w_client w' (w_env w' ''AZURE_OPENAI_KEY'') (w_env w' ''AZURE_OPENAI_ENDPOINT'')")
       (simp_all add: run_script_client_ok run_script_client_error trip_trigger_planned render_trip_def
        render_plan_empty header_effects_def footer_effects_def)
  with first show ?thesis by simp
qed

theorem short_dates_stuck_witness:
  "run_script demo_world (demo_form\<lparr>f_dates := [Date 2025 6 1]\<rparr>) True empty_session =
     (\<lparr>ss_trip_planned = Some (PBool True), ss_trip_data = Some []\<rparr>,
      header_effects @ [Show (UiError ''An error occurred: tuple index out of range''),
                        Show (UiText ''Traceback (most recent call last): ...'')] @ footer_effects) \<and>
   (\<forall>w' f' c'. fst (run_script w' f' c' \<lparr>ss_trip_planned = Some (PBool True), ss_trip_data = Some []\<rparr>) =
                  \<lparr>ss_trip_planned = Some (PBool True), ss_trip_data = Some []\<rparr> \<and>
                calls (snd (run_script w' f' c' \<lparr>ss_trip_planned = Some (PBool True), ss_trip_data = Some []\<rparr>)) = [] \<and>
                Show (UiSuccess ready_text) \<notin>
                  set (snd (run_script w' f' c' \<lparr>ss_trip_planned = Some (PBool True), ss_trip_data = Some []\<rparr>)))"
  using short_dates_stuck[of demo_world "demo_form\<lparr>f_dates := [Date 2025 6 1]\<rparr>"]
  by (simp add: demo_world_def demo_env_def demo_form_def missing_city_def)

text \<open>
  C21. The page of a planned session whose route is absent: the header, the city error
  if a city is now empty, the stored plan's eight lines and the footer, and no distance,
  no map and no notice that the route is unavailable. The booking links and the weather
  line are labelled with the destination typed on this run, while the links point to the
  slug stored when the plan was made.
\<close>

theorem planned_page_no_route:
  assumes "w_client w (w_env w ''AZURE_OPENAI_KEY'') (w_env w ''AZURE_OPENAI_ENDPOINT'') = None"
    and "ss_trip_planned s = Some (PBool True)"
    and "ss_trip_data s = Some (plan_dict r sl (PNone, cs, ce, rc) fc cl)"
  shows "run_script w f c s =
           (s, header_effects @ (if missing_city f then [Show (UiError missing_cities_msg)] else [])
               @ map Show (plan_lines (f_destination f) r sl fc cl) @ footer_effects)"
  using assms
  by (simp add: run_script_client_ok trip_trigger_planned render_trip_def render_plan_dict)

theorem planned_page_no_route_witness:
  "run_script demo_world (demo_form\<lparr>f_destination := ''Rome''\<rparr>) False
     \<lparr>ss_trip_planned = Some (PBool True),
      ss_trip_data = Some (plan_dict (PStr ''Day 1'') ''paris'' (PNone, PNone, PNone, PNone) (PStr ''Sunny'') (PStr ''No link''))\<rparr> =
   (\<lparr>ss_trip_planned = Some (PBool True),
      ss_trip_data = Some (plan_dict (PStr ''Day 1'') ''paris'' (PNone, PNone, PNone, PNone) (PStr ''Sunny'') (PStr ''No link''))\<rparr>,
    header_effects @ map Show (plan_lines ''Rome'' (PStr ''Day 1'') ''paris'' (PStr ''Sunny'') (PStr ''No link''))
    @ footer_effects)"
  using planned_page_no_route[of demo_world
      "\<lparr>ss_trip_planned = Some (PBool True),
        ss_trip_data = Some (plan_dict (PStr ''Day 1'') ''paris'' (PNone, PNone, PNone, PNone) (PStr ''Sunny'') (PStr ''No link''))\<rparr>"
      "PStr ''Day 1''" "''paris''" PNone PNone PNone "PStr ''Sunny''" "PStr ''No link''"
      "demo_form\<lparr>f_destination := ''Rome''\<rparr>" False]
  by (simp add: demo_world_def demo_env_def demo_form_def missing_city_def)

text \<open>
  C20. The chat client is built at import time outside any \<^verbatim>\<open>try\<close>: when its
  construction fails (for instance without \<^verbatim>\<open>AZURE_OPENAI_KEY\<close>), every run,
  complete or interrupted, shows only the exception, calls no service, renders no stored plan, and leaves the session
  as it was; no adapter degrades alone.
\<close>

theorem client_failure_trace:
  assumes "\<forall>(w, f, c, b) \<in> set rs. w_client w (w_env w ''AZURE_OPENAI_KEY'') (w_env w ''AZURE_OPENAI_ENDPOINT'') \<noteq> None"
  shows "fst (run_trace rs s) = s \<and> (\<forall>es \<in> set (snd (run_trace rs s)). \<exists>e. es = [Show (UiException (exc_str e))])"
  using assms
proof (induction rs)
  case Nil
  then show ?case by simp
next
  case (Cons r rs)
  obtain w f c b where r: "r = (w, f, c, b)" by (cases r) auto
  obtain e where "w_client w (w_env w ''AZURE_OPENAI_KEY'') (w_env w ''AZURE_OPENAI_ENDPOINT'') = Some e"
    using Cons.prems by (auto simp: r)
  then have "run_script_i w f c b s = (s, [Show (UiException (exc_str e))])"
    by (rule script_i_client_error)
  then show ?case using Cons by (cases "run_trace rs s") (auto simp: r)
qed

theorem client_failure_trace_witness:
  "fst (run_trace [(demo_no_key_world, demo_form, True, Some 0), (demo_no_key_world, demo_form, False, None)] empty_session) = empty_session \<and>
   snd (run_trace [(demo_no_key_world, demo_form, True, Some 0), (demo_no_key_world, demo_form, False, None)] empty_session) =
     [[Show (UiException (exc_str (Exception ''The api_key client option must be set'')))],
      [Show (UiException (exc_str (Exception ''The api_key client option must be set'')))]]"
  using client_failure_trace[of "[(demo_no_key_world, demo_form, True, Some 0), (demo_no_key_world, demo_form, False, None)]" empty_session]
  by (simp add: demo_no_key_world_def script_i_client_error)

end
