(* ===== verification/Pdf.thy ===== *)
theory Pdf
  imports World
begin

text \<open>
  The PDF export \<^verbatim>\<open>generate_itinerary_pdf\<close> (\<^verbatim>\<open>src/app.py\<close> lines 173--180):
  it creates a named temporary file with suffix \<^verbatim>\<open>.pdf\<close>, renders the HTML into it
  with \<^verbatim>\<open>pdfkit\<close> and returns the file's name; any exception shows
  \<^verbatim>\<open>"PDF generation failed: ..."\<close> and returns \<^verbatim>\<open>None\<close>. Nothing in the script
  calls it.
\<close>

definition pdf_failed :: "py_exc \<Rightarrow> string" where
  "pdf_failed e = u_cross @ '' PDF generation failed: '' @ exc_str e"

definition generate_itinerary_pdf :: "world \<Rightarrow> string \<Rightarrow> pyval act" where
  "generate_itinerary_pdf w html_content =
     py_try
       (py_bind (temp_file w ''.pdf'') (\<lambda>name.
        py_bind (pdf_from_string w html_content name) (\<lambda>_.
        py_return (PStr name))))
       (\<lambda>e. py_bind (py_emit (Show (UiError (pdf_failed e)))) (\<lambda>_. py_return PNone))"

section \<open>Properties of the PDF export\<close>

text \<open>
  C13. The export never raises. It first creates the temporary file; when that fails it
  shows the error and returns \<^verbatim>\<open>None\<close> without calling \<^verbatim>\<open>pdfkit\<close>. Otherwise it
  renders the HTML into that file and returns the file's name, or, when rendering fails,
  shows the error and returns \<^verbatim>\<open>None\<close>, leaving the temporary file behind.
\<close>

theorem generate_itinerary_pdf_spec:
  "generate_itinerary_pdf w html =
     (case w_tempfile w ''.pdf'' of
        Inl e \<Rightarrow> (Inr PNone, [Call (TempFile ''.pdf''), Show (UiError (pdf_failed e))])
      | Inr name \<Rightarrow>
          (case w_pdfkit w html name of
             None \<Rightarrow> (Inr (PStr name), [Call (TempFile ''.pdf''), Call (PdfFromString html name)])
           | Some e \<Rightarrow> (Inr PNone, [Call (TempFile ''.pdf''), Call (PdfFromString html name),
                                    Show (UiError (pdf_failed e))])))"
  by (simp add: generate_itinerary_pdf_def temp_file_def pdf_from_string_def
      split: sum.split option.split)

end
