(* ===== verification/Spec2Isabelle.thy ===== *)
theory Spec2Isabelle
  imports Session Pdf
begin

text \<open>
  \<^bold>\<open>A verification model of the AI Travel Planner (\<^verbatim>\<open>src/app.py\<close>).\<close>

  \<^bold>\<open>The program.\<close> One Streamlit script. Every interaction re-runs it from the top:
  it builds the chat client (lines 23--27), writes the page header, reads the form
  widgets, and when "Plan My Trip" is clicked or \<^verbatim>\<open>trip_planned\<close> is set in
  \<^verbatim>\<open>st.session_state\<close> it checks that both cities are given; the first time only, it
  sets \<^verbatim>\<open>trip_planned\<close> and an empty \<^verbatim>\<open>trip_data\<close> and, inside one \<^verbatim>\<open>try\<close>,
  builds the prompt and calls in this order the chat model (\<^verbatim>\<open>get_ai_response\<close>),
  OpenRouteService (\<^verbatim>\<open>get_distance_km\<close>), AccuWeather (\<^verbatim>\<open>get_weather\<close>) and Google
  Calendar (\<^verbatim>\<open>add_event_to_calendar\<close>), storing each answer in \<^verbatim>\<open>trip_data\<close>. It
  then renders whatever \<^verbatim>\<open>trip_data\<close> holds (lines 254--269, the map by
  \<^verbatim>\<open>show_route_on_map\<close>) and the footer. Every adapter catches its own exceptions
  and returns an error text, or four \<^verbatim>\<open>None\<close>s for the route.

  \<^bold>\<open>The library\<close>, in import order.
  \<^item> \<open>Prelude\<close>: the Python runtime the script relies on. Values \<open>pyval\<close> (JSON and
    Python scalars; floats as exact decimals, \<open>PFloat m k\<close> standing for m / 10 to the power k), exceptions
    \<open>py_exc\<close>, subscripts, \<^verbatim>\<open>in\<close>, \<^verbatim>\<open>.get\<close>, \<^verbatim>\<open>str\<close>/\<^verbatim>\<open>repr\<close>, \<^verbatim>\<open>+\<close>,
    \<^verbatim>\<open>/\<close>, \<^verbatim>\<open>round\<close>, \<^verbatim>\<open>float()\<close> of a string (its literal syntax), and two
    monads: \<open>py\<close> (a statement returns or raises and leaves its effects in order) and
    \<open>stm\<close> (the same over a mutable state).
  \<^item> \<open>World\<close>: HTTP responses and \<^verbatim>\<open>raise_for_status\<close>, the effects (\<open>Call\<close> of an
    outbound request, \<open>Show\<close> of a page element), and \<open>world\<close>, the answers of the
    environment and of every external service; a demonstration world for the witnesses.
  \<^item> \<open>Interrupt\<close>: statements that Streamlit may stop at a page element (\<open>itm\<close>, with
    an interruption budget: \<open>Some k\<close> stops the run at its element number \<open>k\<close>,
    \<open>None\<close> lets it complete), and the simulation lemmas \<open>sim_rules\<close>: without
    interruption each combinator is the plain \<open>stm\<close> one.
  \<^item> \<open>Route\<close> (\<^verbatim>\<open>geocode\<close>, \<^verbatim>\<open>get_distance_km\<close>, lines 56--111), \<open>Weather\<close>
    (\<^verbatim>\<open>get_weather\<close>, 130--142, and how the service reads the query string of the
    URL it is sent), \<open>Narrative\<close> (\<^verbatim>\<open>get_ai_response\<close>, 42--53),
    \<open>Calendar\<close> (\<^verbatim>\<open>add_event_to_calendar\<close>, 145--171, with Python's \<^verbatim>\<open>date\<close>
    and \<^verbatim>\<open>datetime\<close>): each adapter as a \<open>py\<close> action of the world, every
    exception path of the source a branch of the model.
  \<^item> \<open>Request\<close>: the widget values of one run (\<open>form\<close>), the city check (line 210),
    the prompt f-string (219--229), the slug (233).
  \<^item> \<open>Orchestrator\<close>: the planning block (218--251) as a \<open>stm\<close> statement on the
    \<^verbatim>\<open>trip_data\<close> dictionary (\<open>plan_block\<close>), its interruptible copy
    (\<open>plan_block_i\<close>, equal to it without interruption), and the abstract plan
    \<open>plan_spec\<close> (the spec's \<open>TripPlan\<close>) it refines.
  \<^item> \<open>Presenter\<close>: \<^verbatim>\<open>show_route_on_map\<close> with folium 0.14's checks of the
    locations it is given (\<open>folium_location\<close>, \<open>folium_locations\<close>: the messages of
    \<^verbatim>\<open>validate_location\<close> and \<^verbatim>\<open>validate_locations\<close>), and the rendering of the
    stored plan.
  \<^item> \<open>Pdf\<close>: \<^verbatim>\<open>generate_itinerary_pdf\<close> (173--180), the temporary file and
    \<^verbatim>\<open>pdfkit.from_string\<close> being two calls of the world that may fail.
  \<^item> \<open>Session\<close>: the session state (\<^verbatim>\<open>trip_planned\<close>, \<^verbatim>\<open>trip_data\<close>), the
    trigger (209--251), one run of the whole script, complete (\<open>run_script\<close>) or
    possibly interrupted (\<open>run_script_i\<close>), sequences of runs (\<open>run_trace\<close>, each
    with its own budget) and the sessions they reach (\<open>reachable\<close>, an inductive set
    over interruptible runs).
  \<^item> This theory (importing \<open>Session\<close> and \<open>Pdf\<close>): properties that span the components.

  \<^bold>\<open>What is proved.\<close> Whole runs of the script (\<open>Session\<close>), each run complete or
  interrupted at any page element: a valid click plans and calls the four services in
  order (C1); over any sequence of runs at most one run calls a service (C2); the session
  invariant (flag and data together, the data empty, a whole plan, or the two keys left
  by a run interrupted at the routing error) holds in every reachable session, by rule
  induction (C3); a planned session never changes again (C4); from a reachable session a
  run with a working client reaches the footer exactly when the session does not hold
  that partial plan (C7); the city check precedes every call (C8); a click with one date
  leaves the session stuck for good (C9), and so does an interruption at the routing
  error, after which every run stops at \<^verbatim>\<open>KeyError('forecast')\<close> (C10); no run ever
  calls anything but the four services, so the PDF export is dead code (C11); a failing
  client constructor takes down every page (C20); the page of a planned session without a
  route (C21). The planning block refines the abstract plan (C5), calls the adapters in a
  fixed order (C6), and leaves a whole plan for every service answer exactly when two
  dates are given (C35). The page shows the distance rounded by
  \<^verbatim>\<open>round(distance_km, 2)\<close>: two decimals, within 0.005 km of the service's
  distance (C12). The adapters never raise and return, on success and on each failure,
  what C14--C19 and C24--C32 state, with the calls they make; the city reaches the
  weather service cut at its first \<^verbatim>\<open>&\<close> or \<^verbatim>\<open>#\<close> (C30); the map, with the empty
  route refused by folium (C22--C23); the PDF export (C13); the prompt and the slug
  (C33--C34). Every claim with a hypothesis has a witness theorem that applies it to a
  concrete input.

  \<^bold>\<open>Modelling choices.\<close> Strings are UTF-8 byte strings (emoji are their bytes);
  \<^verbatim>\<open>str.lower\<close> is modelled on ASCII letters only, so the slug's properties (C34)
  are stated for ASCII destinations. Floats are exact decimals, so IEEE rounding in
  \<^verbatim>\<open>/\<close>, \<^verbatim>\<open>+\<close> and \<^verbatim>\<open>round\<close> is not modelled: \<^verbatim>\<open>round\<close> rounds the
  exact decimal half to even, where CPython rounds the nearest binary double (the two
  differ only at a decimal tie that is not a double, such as 2.675). A service is a
  function of its request; timeouts, retries and a service answering the same request
  differently are outside the model. Streamlit's interruption is modelled at the page
  elements (\<open>Show\<close>), where the script thread checks for a rerun request; an
  interruption inside a blocking service call is not. No loop of the script is
  unbounded: the only iterations are over the route's polyline, structural recursions,
  and folium's nested location check, which is bounded by Python's recursion limit
  (1000, \<open>py_recursion_limit\<close>) as in CPython, so no fuel is needed. Not modelled:
  \<^verbatim>\<open>st.set_page_config\<close>, the spinner and the widgets' own drawing (the widgets'
  values are the input \<open>form\<close>), the Markdown renderer (\<^verbatim>\<open>st.markdown\<close> of a
  text is the element holding that text, before Streamlit strips and dedents it),
  folium's HTML (the map is the element \<open>UiMap\<close> with its centre, markers and line),
  and concurrent sessions (each session's state is separate in Streamlit).
\<close>

section \<open>Properties across the components\<close>

text \<open>The demonstration world's services.\<close>

lemma demo_services:
  "w_client demo_world k e = None"
  "w_ai demo_world model msgs = Inr [PStr ''Day 1: arrive in Paris and walk along the Seine.'']"
  "w_calendar demo_world cr cal body =
     Inr (PDict [(''kind'', PStr ''calendar#event''), (''htmlLink'', PStr ''https://www.google.com/calendar/event?eid=demo'')])"
  by (simp_all add: demo_world_def)

lemma demo_route_no_match:
  "fst (get_distance_km demo_world ''Delhi'' ''Atlantis'') = Inr no_route"
  by (simp add: demo_defs route_defs call_defs resp_json_def dict_lookup_def py_norm_index_def
      req_params_def ors_geocode_url_def)

text \<open>
  C10. An interaction while the plan is being made can leave a session that never shows
  a plan again. When the route adapter fails, a click on a fresh session that Streamlit
  interrupts at the routing error message (its fourth page element, line 109) leaves
  \<^verbatim>\<open>trip_planned\<close> set and \<^verbatim>\<open>trip_data\<close> holding only the narrative and the
  slug; the session is reachable, and every later run leaves it as it is and ends with the
  uncaught \<^verbatim>\<open>KeyError('forecast')\<close> of line 264 instead of the footer.
\<close>

theorem interrupted_route_error_stuck:
  assumes "w_client w (w_env w ''AZURE_OPENAI_KEY'') (w_env w ''AZURE_OPENAI_ENDPOINT'') = None"
    and "\<not> missing_city f" and "f_dates f = d0 # d1 # ds"
    and "fst (get_distance_km w (f_source f) (f_destination f)) = Inr no_route"
  shows "fst (run_script_i w f True (Some 3) empty_session) =
           \<lparr>ss_trip_planned = Some (PBool True),
            ss_trip_data = Some [(''response'', projr (fst (get_ai_response w (projr (trip_prompt f))))),
                                 (''destination_slug'', PStr (destination_slug (f_destination f)))]\<rparr> \<and>
         reachable (fst (run_script_i w f True (Some 3) empty_session)) \<and>
         (\<forall>w' f' c'. w_client w' (w_env w' ''AZURE_OPENAI_KEY'') (w_env w' ''AZURE_OPENAI_ENDPOINT'') = None \<longrightarrow>
            fst (run_script w' f' c' (fst (run_script_i w f True (Some 3) empty_session))) =
              fst (run_script_i w f True (Some 3) empty_session) \<and>
            last (snd (run_script w' f' c' (fst (run_script_i w f True (Some 3) empty_session)))) =
              Show (UiException (exc_str (KeyError (PStr ''forecast'')))))"
proof -
  obtain m where m: "trip_prompt f = Inr m" using trip_prompt_dates[OF assms(3)] by blast
  have "ui_count (snd (get_distance_km w (f_source f) (f_destination f))) \<noteq> 0"
    using get_distance_km_no_route_ui[OF assms(4)] .
  then obtain t where cut: "it_cut (Some 0) (snd (get_distance_km w (f_source f) (f_destination f))) = Some t"
    by (cases "ui_cut 0 (snd (get_distance_km w (f_source f) (f_destination f)))")
       (auto simp: it_cut_def ui_cut_None_iff)
  have hdr: "it_cut (Some 3) header_effects = None" "it_left (Some 3) header_effects = Some 0"
    by (simp_all add: it_cut_def it_left_def header_effects_def ui_cut_None_iff)
  have state: "fst (run_script_i w f True (Some 3) empty_session) =
           \<lparr>ss_trip_planned = Some (PBool True),
            ss_trip_data = Some [(''response'', projr (fst (get_ai_response w (projr (trip_prompt f))))),
                                 (''destination_slug'', PStr (destination_slug (f_destination f)))]\<rparr>"
    using assms(1,2) m hdr plan_block_i_route_cut[OF m cut]
    by (simp add: script_i_trigger trip_trigger_i_plan empty_session_def)
  have "reachable (fst (run_script_i w f True (Some 3) empty_session))"
    by (rule reachable.rerun[OF reachable.start])
  with state show ?thesis
    using partial_run[of "fst (run_script_i w f True (Some 3) empty_session)"] by simp
qed

theorem interrupted_route_error_stuck_witness:
  "fst (run_script_i demo_world (demo_form\<lparr>f_destination := ''Atlantis''\<rparr>) True (Some 3) empty_session) =
     \<lparr>ss_trip_planned = Some (PBool True),
      ss_trip_data = Some [(''response'', PStr ''Day 1: arrive in Paris and walk along the Seine.''),
                           (''destination_slug'', PStr ''atlantis'')]\<rparr> \<and>
   reachable (fst (run_script_i demo_world (demo_form\<lparr>f_destination := ''Atlantis''\<rparr>) True (Some 3) empty_session)) \<and>
   fst (run_script demo_world demo_form False
          (fst (run_script_i demo_world (demo_form\<lparr>f_destination := ''Atlantis''\<rparr>) True (Some 3) empty_session))) =
     fst (run_script_i demo_world (demo_form\<lparr>f_destination := ''Atlantis''\<rparr>) True (Some 3) empty_session) \<and>
   last (snd (run_script demo_world demo_form False
          (fst (run_script_i demo_world (demo_form\<lparr>f_destination := ''Atlantis''\<rparr>) True (Some 3) empty_session)))) =
     Show (UiException (exc_str (KeyError (PStr ''forecast''))))"
proof -
  have p1: "w_client demo_world (w_env demo_world ''AZURE_OPENAI_KEY'') (w_env demo_world ''AZURE_OPENAI_ENDPOINT'') = None"
    by (simp add: demo_services)
  have p2: "\<not> missing_city (demo_form\<lparr>f_destination := ''Atlantis''\<rparr>)"
    by (simp add: demo_form_def missing_city_def)
  have p3: "f_dates (demo_form\<lparr>f_destination := ''Atlantis''\<rparr>) = Date 2025 6 1 # Date 2025 6 10 # []"
    by (simp add: demo_form_def)
  have p4: "fst (get_distance_km demo_world (f_source (demo_form\<lparr>f_destination := ''Atlantis''\<rparr>))
                (f_destination (demo_form\<lparr>f_destination := ''Atlantis''\<rparr>))) = Inr no_route"
    by (simp add: demo_form_def demo_route_no_match)
  note main = interrupted_route_error_stuck[OF p1 p2 p3 p4]
  have later: "fst (run_script demo_world demo_form False
          (fst (run_script_i demo_world (demo_form\<lparr>f_destination := ''Atlantis''\<rparr>) True (Some 3) empty_session))) =
     fst (run_script_i demo_world (demo_form\<lparr>f_destination := ''Atlantis''\<rparr>) True (Some 3) empty_session) \<and>
   last (snd (run_script demo_world demo_form False
          (fst (run_script_i demo_world (demo_form\<lparr>f_destination := ''Atlantis''\<rparr>) True (Some 3) empty_session)))) =
     Show (UiException (exc_str (KeyError (PStr ''forecast''))))"
    using main p1 by blast
  have slug: "destination_slug (f_destination (demo_form\<lparr>f_destination := ''Atlantis''\<rparr>)) = ''atlantis''"
    by (simp add: destination_slug_def py_replace_char_def py_lower_def py_lower_char_def)
  have ai: "projr (fst (get_ai_response demo_world m)) = PStr ''Day 1: arrive in Paris and walk along the Seine.''" for m
    by (simp add: get_ai_response_value demo_services narrative_of_def)
  have st: "fst (run_script_i demo_world (demo_form\<lparr>f_destination := ''Atlantis''\<rparr>) True (Some 3) empty_session) =
     \<lparr>ss_trip_planned = Some (PBool True),
      ss_trip_data = Some [(''response'', PStr ''Day 1: arrive in Paris and walk along the Seine.''),
                           (''destination_slug'', PStr ''atlantis'')]\<rparr>"
    using main[THEN conjunct1] unfolding slug ai .
  show ?thesis
    using st main[THEN conjunct2, THEN conjunct1] later by (intro conjI) blast+
qed

text \<open>
  C35. Whatever the services answer, the planning block started on the empty
  \<^verbatim>\<open>trip_data\<close> leaves all eight keys of a plan exactly when the dates tuple has two
  dates, and leaves the dictionary empty otherwise: no section of a plan is ever missing.
\<close>

theorem plan_block_whole:
  "(if 2 \<le> length (f_dates f) then set (map fst (snd (fst (plan_block w f [])))) = set plan_keys
    else snd (fst (plan_block w f [])) = [])"
proof (cases "2 \<le> length (f_dates f)")
  case True
  then obtain d0 d1 ds where dates: "f_dates f = d0 # d1 # ds"
    by (metis One_nat_def Suc_1 Suc_le_length_iff)
  then obtain m where "trip_prompt f = Inr m" using trip_prompt_dates by blast
  with dates True show ?thesis
    by (cases "projr (fst (get_distance_km w (f_source f) (f_destination f)))")
       (simp add: plan_block_prompt_ok plan_dict_def plan_keys_def insert_commute)
next
  case False
  then show ?thesis by (simp add: trip_prompt_short plan_block_prompt_error)
qed

text \<open>
  C11. No run of the script ever writes a file: every outbound call of a run, whatever the
  world, the form, the click and the session, goes to one of the four services, so
  \<^verbatim>\<open>generate_itinerary_pdf\<close> (lines 173--180) and its temporary file are dead code.
\<close>

theorem pdf_export_unreachable: "list_all service_call (calls (snd (run_script w f c s)))"
proof (cases "ss_trip_planned s = None \<and> c \<and> \<not> missing_city f")
  case True
  then show ?thesis using plan_block_services[of w f]
    by (simp add: run_script_calls trip_trigger_plan)
next
  case False
  then show ?thesis by (simp add: run_script_calls trip_trigger_no_plan)
qed

end
